theory Spec2Isabelle
  imports Complex_Main "HOL-Library.Word" "HOL-Library.AList"
begin

unbundle bit_operations_syntax

section \<open>Binary codec and hashing (src/utils.ts)\<close>

text \<open>
  Bytes are 8-bit words, the values of a \<open>Uint8Array\<close>. \<open>readUint32\<close> and \<open>writeUint32\<close>
  go through a little-endian \<open>DataView\<close>; \<open>le32 w\<close> is the four bytes \<open>setUint32(0, w, true)\<close>
  stores, \<open>le64 w\<close> the eight bytes of \<open>setBigUint64\<close>. A JavaScript number handed to
  \<open>setUint32\<close> is reduced modulo \<open>2^32\<close>, which is what \<open>word_of_nat\<close> and \<open>word_of_int\<close> do.
\<close>

type_synonym byte = "8 word"
type_synonym u32 = "32 word"
type_synonym u64 = "64 word"

definition le32 :: "u32 \<Rightarrow> byte list" where
  "le32 w = [ucast w, ucast (drop_bit 8 w), ucast (drop_bit 16 w), ucast (drop_bit 24 w)]"

definition le64 :: "u64 \<Rightarrow> byte list" where
  "le64 w = [ucast w, ucast (drop_bit 8 w), ucast (drop_bit 16 w), ucast (drop_bit 24 w),
             ucast (drop_bit 32 w), ucast (drop_bit 40 w), ucast (drop_bit 48 w),
             ucast (drop_bit 56 w)]"

definition readUint32 :: "byte list \<Rightarrow> nat \<Rightarrow> u32" where
  "readUint32 buffer off =
     ucast (buffer ! off) OR push_bit 8 (ucast (buffer ! (off + 1)))
       OR push_bit 16 (ucast (buffer ! (off + 2))) OR push_bit 24 (ucast (buffer ! (off + 3)))"

text \<open>
  The CRC-32 table: entry \<open>i\<close> is eight rounds of the reflected IEEE polynomial on \<open>i\<close>.
  \<open>crc_round\<close> is the body of the inner loop, \<open>crc_step\<close> the body of the loop of \<open>crc32\<close>.
\<close>

definition crc_round :: "u32 \<Rightarrow> u32" where
  "crc_round crc = (if crc AND 1 \<noteq> 0 then drop_bit 1 crc XOR 0xEDB88320 else drop_bit 1 crc)"

definition CRC32_TABLE :: "byte \<Rightarrow> u32" where
  "CRC32_TABLE i = (crc_round ^^ 8) (ucast i)"

definition crc_step :: "u32 \<Rightarrow> byte \<Rightarrow> u32" where
  "crc_step crc b = CRC32_TABLE (ucast ((crc XOR ucast b) AND 0xff)) XOR drop_bit 8 crc"

definition crc32 :: "byte list \<Rightarrow> u32" where
  "crc32 d = foldl crc_step 0xffffffff d XOR 0xffffffff"

text \<open>
  Strings are kept in their UTF-8 form, one \<open>char\<close> per byte, so \<open>encodeString\<close> and
  \<open>decodeString\<close> only change the element type.
\<close>

definition encodeString :: "string \<Rightarrow> byte list" where
  "encodeString str = map of_char str"

definition decodeString :: "byte list \<Rightarrow> string" where
  "decodeString bytes = map (\<lambda>b. char_of (unat b)) bytes"

text \<open>
  \<open>readUint16\<close> reads two bytes the same way. \<open>readUint64\<close> is
  \<open>Number(view.getBigUint64(0, true))\<close>: the eight bytes as a 64-bit value, converted to a
  double, which rounds a value of more than 53 significant bits to the nearest
  representable one (ties to even). \<open>bitLength\<close> is the number of binary digits.
\<close>

definition readUint16 :: "byte list \<Rightarrow> nat \<Rightarrow> 16 word" where
  "readUint16 buffer off = ucast (buffer ! off) OR push_bit 8 (ucast (buffer ! (off + 1)))"

definition getBigUint64 :: "byte list \<Rightarrow> nat \<Rightarrow> u64" where
  "getBigUint64 buffer off =
     ucast (buffer ! off) OR push_bit 8 (ucast (buffer ! (off + 1)))
       OR push_bit 16 (ucast (buffer ! (off + 2))) OR push_bit 24 (ucast (buffer ! (off + 3)))
       OR push_bit 32 (ucast (buffer ! (off + 4))) OR push_bit 40 (ucast (buffer ! (off + 5)))
       OR push_bit 48 (ucast (buffer ! (off + 6))) OR push_bit 56 (ucast (buffer ! (off + 7)))"

fun bitLength :: "nat \<Rightarrow> nat" where
  "bitLength n = (if n = 0 then 0 else Suc (bitLength (n div 2)))"

declare bitLength.simps [simp del]

definition numberOfBigUint :: "u64 \<Rightarrow> nat" where
  "numberOfBigUint w =
     (let n = unat w
      in if n < 2 ^ 53 then n
         else
           let e = bitLength n - 53;
               q = n div 2 ^ e;
               r = n mod 2 ^ e
           in if 2 * r > 2 ^ e \<or> (2 * r = 2 ^ e \<and> odd q) then (q + 1) * 2 ^ e else q * 2 ^ e)"

definition readUint64 :: "byte list \<Rightarrow> nat \<Rightarrow> nat" where
  "readUint64 buffer off = numberOfBigUint (getBigUint64 buffer off)"

text \<open>
  A \<open>DataView\<close> of \<open>n\<close> bytes at \<open>off\<close> is built only inside the buffer; the constructor
  raises \<open>RangeError\<close> otherwise. The reads above are used where the caller has checked
  the length; \<open>viewInRange\<close> is the check where the offset comes from the file.
\<close>

definition viewInRange :: "byte list \<Rightarrow> nat \<Rightarrow> nat \<Rightarrow> bool" where
  "viewInRange buffer off n = (off + n \<le> length buffer)"

section \<open>JavaScript values and JSON\<close>

text \<open>
  The values a document can hold. Numbers are the safe integers (every integer of magnitude
  below \<open>2^53\<close> is a double and prints exactly); \<open>NaN\<close>, the infinities and fractions are
  floating point and outside this embedding. An object is the list of its own enumerable
  string-keyed properties in enumeration order, an array the list of its elements.
\<close>

datatype jsval =
    JNull
  | JUndefined
  | JBool bool
  | JNum int
  | JStr string
  | JArr "jsval list"
  | JObj "(string \<times> jsval) list"

fun typeof :: "jsval \<Rightarrow> string" where
  "typeof JNull = ''object''"
| "typeof JUndefined = ''undefined''"
| "typeof (JBool _) = ''boolean''"
| "typeof (JNum _) = ''number''"
| "typeof (JStr _) = ''string''"
| "typeof (JArr _) = ''object''"
| "typeof (JObj _) = ''object''"

fun isArray :: "jsval \<Rightarrow> bool" where
  "isArray (JArr _) = True"
| "isArray _ = False"

text \<open>
  \<open>a === b\<close>. Two objects (or arrays) are strictly equal only when they are the same
  reference; a value has no identity, so the model takes two object operands to be distinct
  references, the case in which \<open>deepEqual\<close> goes on to compare them structurally.
\<close>

fun strictEq :: "jsval \<Rightarrow> jsval \<Rightarrow> bool" where
  "strictEq JNull JNull = True"
| "strictEq JUndefined JUndefined = True"
| "strictEq (JBool a) (JBool b) = (a = b)"
| "strictEq (JNum a) (JNum b) = (a = b)"
| "strictEq (JStr a) (JStr b) = (a = b)"
| "strictEq _ _ = False"

fun show_nat :: "nat \<Rightarrow> string" where
  "show_nat n = (if n < 10 then [char_of (48 + n)] else show_nat (n div 10) @ [char_of (48 + n mod 10)])"

definition show_int :: "int \<Rightarrow> string" where
  "show_int i = (if i < 0 then CHR ''-'' # show_nat (nat (- i)) else show_nat (nat i))"

text \<open>\<open>abs.toExponential(15)\<close> for a safe non-negative integer: at most 16 digits, no rounding.\<close>

definition toExponential15 :: "nat \<Rightarrow> string" where
  "toExponential15 n =
     (let ds = show_nat n; frac = take 15 (tl ds)
      in hd ds # CHR ''.'' # frac @ replicate (15 - length frac) CHR ''0''
           @ ''e+'' @ show_nat (length ds - 1))"

definition hex_digit :: "nat \<Rightarrow> char" where
  "hex_digit n = (if n < 10 then char_of (48 + n) else char_of (87 + n))"

text \<open>The escapes of \<open>JSON.stringify\<close> for one character of a string.\<close>

definition json_escape :: "char \<Rightarrow> string" where
  "json_escape c =
     (if c = CHR 0x22 then [CHR 0x5C, CHR 0x22]
      else if c = CHR 0x5C then [CHR 0x5C, CHR 0x5C]
      else if c = CHR 0x08 then [CHR 0x5C, CHR ''b'']
      else if c = CHR 0x09 then [CHR 0x5C, CHR ''t'']
      else if c = CHR 0x0A then [CHR 0x5C, CHR ''n'']
      else if c = CHR 0x0C then [CHR 0x5C, CHR ''f'']
      else if c = CHR 0x0D then [CHR 0x5C, CHR ''r'']
      else if (of_char c :: nat) < 32
        then [CHR 0x5C, CHR ''u'', CHR ''0'', CHR ''0'',
              hex_digit (of_char c div 16), hex_digit (of_char c mod 16)]
      else [c])"

definition json_quote :: "string \<Rightarrow> string" where
  "json_quote s = CHR 0x22 # concat (map json_escape s) @ [CHR 0x22]"

fun join_comma :: "string list \<Rightarrow> string" where
  "join_comma [] = []"
| "join_comma [s] = s"
| "join_comma (s # t # ss) = s @ CHR '','' # join_comma (t # ss)"

text \<open>
  \<open>JSON.stringify(v)\<close>: \<open>None\<close> where JavaScript returns \<open>undefined\<close>. An \<open>undefined\<close>
  array element prints as \<open>null\<close>; an object property whose value is \<open>undefined\<close> is left out.
  Properties are printed in the object's enumeration order.
\<close>

fun JSON_stringify :: "jsval \<Rightarrow> string option"
  and stringify_elems :: "jsval list \<Rightarrow> string list"
  and stringify_props :: "(string \<times> jsval) list \<Rightarrow> string list" where
  "JSON_stringify JNull = Some ''null''"
| "JSON_stringify JUndefined = None"
| "JSON_stringify (JBool b) = Some (if b then ''true'' else ''false'')"
| "JSON_stringify (JNum i) = Some (show_int i)"
| "JSON_stringify (JStr s) = Some (json_quote s)"
| "JSON_stringify (JArr xs) = Some (CHR ''['' # join_comma (stringify_elems xs) @ '']'')"
| "JSON_stringify (JObj kvs) = Some (CHR ''{'' # join_comma (stringify_props kvs) @ ''}'')"
| "stringify_elems [] = []"
| "stringify_elems (x # xs) =
     (case JSON_stringify x of None \<Rightarrow> ''null'' | Some s \<Rightarrow> s) # stringify_elems xs"
| "stringify_props [] = []"
| "stringify_props (kv # kvs) =
     (case JSON_stringify (snd kv) of
        None \<Rightarrow> stringify_props kvs
      | Some s \<Rightarrow> (json_quote (fst kv) @ CHR '':'' # s) # stringify_props kvs)"

text \<open>
  \<open>serializeIndexValue\<close>. The \<open>NaN\<close> and infinity branches need values this embedding does
  not have. A template literal prints an \<open>undefined\<close> result of \<open>JSON.stringify\<close> as the
  word \<open>undefined\<close>.
\<close>

definition serializeIndexValue :: "jsval \<Rightarrow> string" where
  "serializeIndexValue v =
     (if v = JNull then CHR 0x00 # ''null''
      else if v = JUndefined then CHR 0x00 # ''undefined''
      else case v of
        JBool b \<Rightarrow> CHR 0x01 # (if b then ''1'' else ''0'')
      | JNum i \<Rightarrow> CHR 0x02 # (if i \<ge> 0 then CHR ''+'' else CHR ''-'') # toExponential15 (nat \<bar>i\<bar>)
      | JStr s \<Rightarrow> CHR 0x03 # s
      | _ \<Rightarrow> CHR 0x04 # (case JSON_stringify v of Some s \<Rightarrow> s | None \<Rightarrow> ''undefined''))"

text \<open>
  \<open>current[part]\<close> on an object or an array, own properties only: a property of an object,
  an element of an array under its canonical index, or the array's \<open>length\<close>.
\<close>

fun getProperty :: "jsval \<Rightarrow> string \<Rightarrow> jsval" where
  "getProperty (JObj kvs) part = (case map_of kvs part of Some v \<Rightarrow> v | None \<Rightarrow> JUndefined)"
| "getProperty (JArr xs) part =
     (if part = ''length'' then JNum (int (length xs))
      else case find (\<lambda>i. show_nat i = part) [0..<length xs] of
             Some i \<Rightarrow> xs ! i
           | None \<Rightarrow> JUndefined)"
| "getProperty _ part = JUndefined"

text \<open>\<open>path.split('.')\<close>\<close>

fun split_dot :: "string \<Rightarrow> string list" where
  "split_dot [] = [[]]"
| "split_dot (c # cs) =
     (if c = CHR ''.'' then [] # split_dot cs
      else case split_dot cs of p # ps \<Rightarrow> (c # p) # ps | [] \<Rightarrow> [[c]])"

fun walkParts :: "jsval \<Rightarrow> string list \<Rightarrow> jsval" where
  "walkParts current [] = current"
| "walkParts current (part # parts) =
     (if current = JNull \<or> current = JUndefined then JUndefined
      else if typeof current \<noteq> ''object'' then JUndefined
      else walkParts (getProperty current part) parts)"

definition getNestedValue :: "jsval \<Rightarrow> string \<Rightarrow> jsval" where
  "getNestedValue obj path = walkParts obj (split_dot path)"

text \<open>
  \<open>deepEqual\<close>, with the loop over the indices of an array (\<open>deepEqual_elems\<close>) and the loop
  over the keys of \<open>a\<close> (\<open>deepEqual_keys\<close>, which looks each key up in \<open>b\<close>). The source
  tests \<open>a === b\<close>, then \<open>null\<close>, then \<open>typeof\<close>, then \<open>Array.isArray\<close>; the equations
  below take the same decisions by the shape of \<open>a\<close>: for an array or an object \<open>a\<close> every
  \<open>b\<close> of another shape is rejected by one of those tests, and for a scalar, \<open>null\<close> or
  \<open>undefined\<close> \<open>a\<close> the result is that of \<open>a === b\<close>.
\<close>

fun deepEqual :: "jsval \<Rightarrow> jsval \<Rightarrow> bool"
  and deepEqual_elems :: "jsval list \<Rightarrow> jsval list \<Rightarrow> bool"
  and deepEqual_keys :: "(string \<times> jsval) list \<Rightarrow> (string \<times> jsval) list \<Rightarrow> bool" where
  "deepEqual (JArr xs) b =
     (case b of
        JArr ys \<Rightarrow> length xs = length ys \<and> deepEqual_elems xs ys
      | _ \<Rightarrow> False)"
| "deepEqual (JObj xs) b =
     (case b of
        JObj ys \<Rightarrow> length xs = length ys \<and> deepEqual_keys xs ys
      | _ \<Rightarrow> False)"
| "deepEqual a b = strictEq a b"
| "deepEqual_elems [] ys = True"
| "deepEqual_elems (x # xs) ys =
     (case ys of [] \<Rightarrow> False | y # ys' \<Rightarrow> deepEqual x y \<and> deepEqual_elems xs ys')"
| "deepEqual_keys [] bObj = True"
| "deepEqual_keys (kv # kvs) bObj =
     (case map_of bObj (fst kv) of
        None \<Rightarrow> False
      | Some w \<Rightarrow> deepEqual (snd kv) w \<and> deepEqual_keys kvs bObj)"

definition matchesFilter :: "jsval \<Rightarrow> (string \<times> jsval) list \<Rightarrow> bool" where
  "matchesFilter doc flt = list_all (\<lambda>(key, v). deepEqual (getNestedValue doc key) v) flt"

section \<open>Constants and slab classes (src/constants.ts)\<close>

definition SLAB_TINY :: nat where "SLAB_TINY = 1024"
definition SLAB_SMALL :: nat where "SLAB_SMALL = 8192"
definition SLAB_MEDIUM :: nat where "SLAB_MEDIUM = 65536"
definition SLAB_ALIGNMENT :: nat where "SLAB_ALIGNMENT = 4096"
definition SLOT_HEADER_SIZE :: nat where "SLOT_HEADER_SIZE = 16"
definition DATA_HEADER_SIZE :: nat where "DATA_HEADER_SIZE = 64"
definition DATA_FILE_MAGIC :: u32 where "DATA_FILE_MAGIC = 0x4c4f4d53"
definition FORMAT_VERSION :: u32 where "FORMAT_VERSION = 1"
definition FLAG_ACTIVE :: u32 where "FLAG_ACTIVE = 1"
definition FLAG_BLOB :: u32 where "FLAG_BLOB = 2"

text \<open>
  \<open>selectSlabSize\<close>. \<open>Math.ceil(totalNeeded / 4096)\<close> on non-negative integers is the
  rounded-up integer quotient.
\<close>

definition selectSlabSize :: "nat \<Rightarrow> nat" where
  "selectSlabSize dataLength =
     (let totalNeeded = dataLength + SLOT_HEADER_SIZE
      in if totalNeeded \<le> SLAB_TINY then SLAB_TINY
         else if totalNeeded \<le> SLAB_SMALL then SLAB_SMALL
         else if totalNeeded \<le> SLAB_MEDIUM then SLAB_MEDIUM
         else ((totalNeeded + SLAB_ALIGNMENT - 1) div SLAB_ALIGNMENT) * SLAB_ALIGNMENT)"

section \<open>Storage engine (src/storage.ts, src/types.ts)\<close>

text \<open>
  The interfaces of \<open>types.ts\<close> as records. Field names carry the record's prefix, since
  \<open>offset\<close> and \<open>slabSize\<close> occur in three interfaces and \<open>length\<close> and \<open>size\<close> are constants
  of HOL. Offsets, lengths and slab sizes are natural numbers; \<open>liveDataSize\<close> and
  \<open>documentCount\<close> are decremented by the code and are integers.
\<close>

record DocumentLocation =
  loc_offset :: nat
  loc_length :: nat
  loc_slabSize :: nat
  loc_isBlob :: bool

record SlabAllocation =
  alloc_offset :: nat
  alloc_slabSize :: nat
  alloc_isReused :: bool

record FreeSlot =
  free_offset :: nat
  free_slabSize :: nat

record DataFileHeader =
  magic :: u32
  version :: u32
  fileSize :: nat
  liveDataSize :: int
  documentCount :: int
  nextSlotOffset :: nat

record BlobReference =
  ref_path :: string
  ref_size :: nat
  ref_checksum :: u32

text \<open>The exceptions of \<open>errors.ts\<close> and of the runtime that the modelled code can raise.\<close>

datatype corruption =
    UnexpectedEndOfSlot
  | SlotNotActive
  | DataLengthMismatch nat nat
  | UnexpectedEndOfSlotHeader

datatype formatProblem =
    FileTooSmall
  | InvalidMagic u32
  | UnsupportedVersion u32

datatype filePath = DataPath | IndexPath

datatype error =
    CorruptedDataError corruption nat
  | ChecksumMismatchError u32 u32 "nat option"
  | DuplicateIdError string
  | DocumentNotFoundError string
  | RangeError
  | SyntaxError
  | TypeError
  | FileNotFoundError string
  | InvalidFileFormatError filePath formatProblem
  | IndexCorruptedError

text \<open>
  The engine: the bytes of the data file, the header, the free list (a \<open>Set\<close> of freshly
  created objects, so a list in insertion order), the batch and dirty flags, the files of
  the blob directory by name, and the sixteen cells of the shared \<open>Int32Array\<close>.
  \<open>fileExists\<close> says whether there is a file at the data path; before \<open>init\<close> the
  source has \<open>null\<close> for the header and the handle, and the record holds a header that
  \<open>init\<close> replaces before anything reads it. \<open>diskWrites\<close> counts the calls that write
  to the file system (positional writes, \<open>Bun.write\<close>, file deletion, rename; not \<open>open\<close>
  and \<open>mkdir\<close>); the source has no such field. The write lock is held by one caller at a
  time and is not modelled.
\<close>

record StorageEngine =
  dataFile :: "byte list"
  header :: DataFileHeader
  freeList :: "FreeSlot list"
  batchDepth :: nat
  headerDirty :: bool
  sharedStateDirty :: bool
  blobThreshold :: nat
  blobFiles :: "(string \<times> byte list) list"
  sharedView :: "u32 list"
  diskWrites :: nat
  fileExists :: bool

text \<open>
  \<open>FileHandle.read(buf, 0, n, pos)\<close> returns the bytes present from \<open>pos\<close>, at most \<open>n\<close>;
  \<open>FileHandle.write(data, 0, data.length, pos)\<close> overwrites from \<open>pos\<close> and extends the
  file, filling a gap with zero bytes.
\<close>

definition fileRead :: "byte list \<Rightarrow> nat \<Rightarrow> nat \<Rightarrow> byte list" where
  "fileRead f pos n = take n (drop pos f)"

definition fileWrite :: "byte list \<Rightarrow> nat \<Rightarrow> byte list \<Rightarrow> byte list" where
  "fileWrite f pos d =
     (if d = [] then f
      else take pos f @ replicate (pos - length f) 0 @ d @ drop (pos + length d) f)"

definition writeAtOffset :: "nat \<Rightarrow> byte list \<Rightarrow> StorageEngine \<Rightarrow> StorageEngine" where
  "writeAtOffset off d st =
     st\<lparr>dataFile := fileWrite (dataFile st) off d, diskWrites := diskWrites st + 1\<rparr>"

definition headerBytes :: "DataFileHeader \<Rightarrow> byte list" where
  "headerBytes h =
     le32 (magic h) @ le32 (version h) @ le64 (of_nat (fileSize h))
       @ le64 (word_of_int (liveDataSize h)) @ le64 (word_of_int (documentCount h))
       @ le64 (of_nat (nextSlotOffset h)) @ replicate 24 0"

definition writeHeader :: "StorageEngine \<Rightarrow> StorageEngine" where
  "writeHeader st = writeAtOffset 0 (headerBytes (header st)) st"

definition updateSharedState :: "StorageEngine \<Rightarrow> StorageEngine" where
  "updateSharedState st =
     st\<lparr>sharedView := (sharedView st)
          [0 := of_nat (fileSize (header st)),
           1 := word_of_int (liveDataSize (header st)),
           2 := word_of_int (documentCount (header st))]\<rparr>"

definition markMetadataDirty :: "StorageEngine \<Rightarrow> StorageEngine" where
  "markMetadataDirty st = st\<lparr>headerDirty := True, sharedStateDirty := True\<rparr>"

definition flushMetadata :: "StorageEngine \<Rightarrow> StorageEngine" where
  "flushMetadata st =
     (let st1 = (if headerDirty st then (writeHeader st)\<lparr>headerDirty := False\<rparr> else st)
      in if sharedStateDirty st1 then (updateSharedState st1)\<lparr>sharedStateDirty := False\<rparr>
         else st1)"

definition flushIfNotBatching :: "StorageEngine \<Rightarrow> StorageEngine" where
  "flushIfNotBatching st = (if batchDepth st = 0 then flushMetadata st else st)"

text \<open>
  \<open>allocateSlot\<close>: the \<open>for ... of\<close> over the free list returns at the first entry that is
  large enough, after deleting that entry from the set.
\<close>

definition allocateSlot :: "nat \<Rightarrow> StorageEngine \<Rightarrow> SlabAllocation \<times> StorageEngine" where
  "allocateSlot dataLength st =
     (let requiredSize = selectSlabSize dataLength
      in case find (\<lambda>freeSlot. free_slabSize freeSlot \<ge> requiredSize) (freeList st) of
           Some freeSlot \<Rightarrow>
             (\<lparr>alloc_offset = free_offset freeSlot, alloc_slabSize = free_slabSize freeSlot,
               alloc_isReused = True\<rparr>,
              st\<lparr>freeList := remove1 freeSlot (freeList st)\<rparr>)
         | None \<Rightarrow>
             (\<lparr>alloc_offset = nextSlotOffset (header st), alloc_slabSize = requiredSize,
               alloc_isReused = False\<rparr>, st))"

text \<open>
  The slot buffer \<open>writeSlot\<close>, \<open>writeMany\<close> and \<open>compact\<close> build: a zeroed array of
  \<open>slabSize\<close> bytes with the four header fields and the data copied in. The typed array
  raises \<open>RangeError\<close> when header and data do not fit.
\<close>

definition slotFlags :: "bool \<Rightarrow> u32" where
  "slotFlags isBlob = FLAG_ACTIVE OR (if isBlob then FLAG_BLOB else 0)"

definition slotBuffer :: "byte list \<Rightarrow> nat \<Rightarrow> bool \<Rightarrow> byte list" where
  "slotBuffer dat slabSize isBlob =
     le32 (slotFlags isBlob) @ le32 (of_nat (length dat)) @ le32 (of_nat slabSize)
       @ le32 (crc32 dat) @ dat @ replicate (slabSize - SLOT_HEADER_SIZE - length dat) 0"

definition writeSlot ::
  "nat \<Rightarrow> byte list \<Rightarrow> nat \<Rightarrow> bool \<Rightarrow> StorageEngine \<Rightarrow> (error + unit) \<times> StorageEngine" where
  "writeSlot off dat slabSize isBlob st =
     (if slabSize < SLOT_HEADER_SIZE + length dat then (Inl RangeError, st)
      else (Inr (), writeAtOffset off (slotBuffer dat slabSize isBlob) st))"

definition readSlot :: "nat \<Rightarrow> nat \<Rightarrow> StorageEngine \<Rightarrow> error + byte list" where
  "readSlot off len st =
     (let slotBytes = fileRead (dataFile st) off (SLOT_HEADER_SIZE + len)
      in if length slotBytes < SLOT_HEADER_SIZE + len
         then Inl (CorruptedDataError UnexpectedEndOfSlot off)
         else
           let flags = readUint32 slotBytes 0;
               dataLength = readUint32 slotBytes 4;
               storedChecksum = readUint32 slotBytes 12
           in if flags AND FLAG_ACTIVE = 0 then Inl (CorruptedDataError SlotNotActive off)
              else if unat dataLength \<noteq> len
                then Inl (CorruptedDataError (DataLengthMismatch len (unat dataLength)) off)
              else
                let dat = take len (drop SLOT_HEADER_SIZE slotBytes);
                    computedChecksum = crc32 dat
                in if computedChecksum \<noteq> storedChecksum
                   then Inl (ChecksumMismatchError storedChecksum computedChecksum (Some off))
                   else Inr dat)"

definition markSlotFree :: "nat \<Rightarrow> StorageEngine \<Rightarrow> (error + unit) \<times> StorageEngine" where
  "markSlotFree off st =
     (let headerBuf = fileRead (dataFile st) off SLOT_HEADER_SIZE
      in if length headerBuf < SLOT_HEADER_SIZE
         then (Inl (CorruptedDataError UnexpectedEndOfSlotHeader off), st)
         else
           let currentFlags = readUint32 headerBuf 0
           in (Inr (), writeAtOffset off (le32 (currentFlags AND NOT FLAG_ACTIVE)) st))"

text \<open>The block \<open>if (!allocation.isReused) { ... }\<close> that follows every allocation.\<close>

definition advanceIfNew :: "SlabAllocation \<Rightarrow> StorageEngine \<Rightarrow> StorageEngine" where
  "advanceIfNew allocation st =
     (if \<not> alloc_isReused allocation
      then st\<lparr>header := (header st)
             \<lparr>nextSlotOffset := alloc_offset allocation + alloc_slabSize allocation,
              fileSize := alloc_offset allocation + alloc_slabSize allocation\<rparr>\<rparr>
      else st)"

definition addLiveData :: "int \<Rightarrow> StorageEngine \<Rightarrow> StorageEngine" where
  "addLiveData delta st =
     st\<lparr>header := (header st)\<lparr>liveDataSize := liveDataSize (header st) + delta\<rparr>\<rparr>"

definition addDocumentCount :: "int \<Rightarrow> StorageEngine \<Rightarrow> StorageEngine" where
  "addDocumentCount delta st =
     st\<lparr>header := (header st)\<lparr>documentCount := documentCount (header st) + delta\<rparr>\<rparr>"

text \<open>\<open>this.freeList.add({ offset: oldLocation.offset, slabSize: oldLocation.slabSize })\<close>\<close>

definition addFreeSlot :: "DocumentLocation \<Rightarrow> StorageEngine \<Rightarrow> StorageEngine" where
  "addFreeSlot location st =
     st\<lparr>freeList := freeList st
          @ [\<lparr>free_offset = loc_offset location, free_slabSize = loc_slabSize location\<rparr>]\<rparr>"

text \<open>
  \<open>encodeString(JSON.stringify(data))\<close>; the encoder turns an \<open>undefined\<close> argument into
  the empty array. \<open>encodeRef\<close> is the same for a blob reference, whose properties are
  \<open>path\<close>, \<open>size\<close>, \<open>checksum\<close> in this order.
\<close>

definition encodeDoc :: "jsval \<Rightarrow> byte list" where
  "encodeDoc d = (case JSON_stringify d of Some s \<Rightarrow> encodeString s | None \<Rightarrow> [])"

definition encodeRef :: "BlobReference \<Rightarrow> byte list" where
  "encodeRef r =
     encodeDoc (JObj [(''path'', JStr (ref_path r)), (''size'', JNum (int (ref_size r))),
                      (''checksum'', JNum (uint (ref_checksum r)))])"

text \<open>
  \<open>JSON.parse(...) as BlobReference\<close> is an unchecked cast; a parsed value that is not a
  reference has no counterpart in the typed source and ends the model with \<open>TypeError\<close>.
\<close>

definition asBlobReference :: "jsval \<Rightarrow> BlobReference option" where
  "asBlobReference v =
     (case v of
        JObj kvs \<Rightarrow>
          (case (map_of kvs ''path'', map_of kvs ''size'', map_of kvs ''checksum'') of
             (Some (JStr p), Some (JNum s), Some (JNum c)) \<Rightarrow>
               Some \<lparr>ref_path = p, ref_size = nat s, ref_checksum = word_of_int c\<rparr>
           | _ \<Rightarrow> None)
      | _ \<Rightarrow> None)"

text \<open>
  \<open>JSON.parse\<close> on decoded bytes is a parameter of every function that reads a document:
  \<open>parse bytes\<close> is \<open>None\<close> where \<open>JSON.parse\<close> raises \<open>SyntaxError\<close>.
\<close>

definition readBlobReference ::
  "(byte list \<Rightarrow> jsval option) \<Rightarrow> nat \<Rightarrow> nat \<Rightarrow> StorageEngine \<Rightarrow> error + BlobReference" where
  "readBlobReference parse off len st =
     (case readSlot off len st of
        Inl e \<Rightarrow> Inl e
      | Inr dat \<Rightarrow>
          (case parse dat of
             None \<Rightarrow> Inl SyntaxError
           | Some v \<Rightarrow> (case asBlobReference v of None \<Rightarrow> Inl TypeError | Some r \<Rightarrow> Inr r)))"

definition readBlob ::
  "(byte list \<Rightarrow> jsval option) \<Rightarrow> DocumentLocation \<Rightarrow> StorageEngine \<Rightarrow> error + jsval" where
  "readBlob parse location st =
     (case readBlobReference parse (loc_offset location) (loc_length location) st of
        Inl e \<Rightarrow> Inl e
      | Inr blobRef \<Rightarrow>
          (case map_of (blobFiles st) (ref_path blobRef) of
             None \<Rightarrow> Inl (FileNotFoundError (ref_path blobRef))
           | Some blobBytes \<Rightarrow>
               let computedChecksum = crc32 blobBytes
               in if computedChecksum \<noteq> ref_checksum blobRef
                  then Inl (ChecksumMismatchError (ref_checksum blobRef) computedChecksum None)
                  else (case parse blobBytes of None \<Rightarrow> Inl SyntaxError | Some v \<Rightarrow> Inr v)))"

definition StorageEngine_read ::
  "(byte list \<Rightarrow> jsval option) \<Rightarrow> DocumentLocation \<Rightarrow> StorageEngine \<Rightarrow> error + jsval" where
  "StorageEngine_read parse location st =
     (if loc_isBlob location then readBlob parse location st
      else case readSlot (loc_offset location) (loc_length location) st of
             Inl e \<Rightarrow> Inl e
           | Inr slotData \<Rightarrow> (case parse slotData of None \<Rightarrow> Inl SyntaxError | Some v \<Rightarrow> Inr v))"

definition deleteBlob :: "string \<Rightarrow> StorageEngine \<Rightarrow> StorageEngine" where
  "deleteBlob path st =
     (if map_of (blobFiles st) path \<noteq> None
      then st\<lparr>blobFiles := AList.delete path (blobFiles st), diskWrites := diskWrites st + 1\<rparr>
      else st)"

definition writeBlobFile :: "string \<Rightarrow> byte list \<Rightarrow> StorageEngine \<Rightarrow> BlobReference \<times> StorageEngine" where
  "writeBlobFile path dat st =
     (\<lparr>ref_path = path, ref_size = length dat, ref_checksum = crc32 dat\<rparr>,
      st\<lparr>blobFiles := AList.update path dat (blobFiles st), diskWrites := diskWrites st + 1\<rparr>)"

definition writeBlobReferenceSlot ::
  "BlobReference \<Rightarrow> StorageEngine \<Rightarrow> (error + (byte list \<times> DocumentLocation)) \<times> StorageEngine" where
  "writeBlobReferenceSlot blobRef st =
     (let refBytes = encodeRef blobRef;
          (allocation, st1) = allocateSlot (length refBytes) st
      in case writeSlot (alloc_offset allocation) refBytes (alloc_slabSize allocation) True st1 of
           (Inl e, st2) \<Rightarrow> (Inl e, st2)
         | (Inr _, st2) \<Rightarrow>
             (Inr (refBytes,
                   \<lparr>loc_offset = alloc_offset allocation, loc_length = length refBytes,
                    loc_slabSize = alloc_slabSize allocation, loc_isBlob = True\<rparr>),
              advanceIfNew allocation st2))"

definition writeBlobForInsertUnlocked ::
  "string \<Rightarrow> byte list \<Rightarrow> StorageEngine \<Rightarrow> (error + DocumentLocation) \<times> StorageEngine" where
  "writeBlobForInsertUnlocked docId dat st =
     (let (blobRef, st1) = writeBlobFile (docId @ ''.blob'') dat st
      in case writeBlobReferenceSlot blobRef st1 of
           (Inl e, st2) \<Rightarrow> (Inl e, st2)
         | (Inr (_, location), st2) \<Rightarrow>
             (Inr location,
              flushIfNotBatching (markMetadataDirty
                (addLiveData (int (ref_size blobRef)) (addDocumentCount 1 st2)))))"

definition writeBlobForUpdateUnlocked ::
  "string \<Rightarrow> byte list \<Rightarrow> StorageEngine \<Rightarrow> (error + DocumentLocation) \<times> StorageEngine" where
  "writeBlobForUpdateUnlocked docId dat st =
     (let (blobRef, st1) = writeBlobFile (docId @ ''.blob'') dat st
      in case writeBlobReferenceSlot blobRef st1 of
           (Inl e, st2) \<Rightarrow> (Inl e, st2)
         | (Inr (_, location), st2) \<Rightarrow> (Inr location, st2))"

definition updateBlobReferenceUnlocked ::
  "string \<Rightarrow> byte list \<Rightarrow> DocumentLocation \<Rightarrow> StorageEngine
     \<Rightarrow> (error + DocumentLocation) \<times> StorageEngine" where
  "updateBlobReferenceUnlocked docId dat oldLocation st =
     (let (blobRef, st1) = writeBlobFile (docId @ ''.blob'') dat st;
          refBytes = encodeRef blobRef
      in if length refBytes + SLOT_HEADER_SIZE \<le> loc_slabSize oldLocation
         then (case writeSlot (loc_offset oldLocation) refBytes (loc_slabSize oldLocation) True st1 of
                 (Inl e, st2) \<Rightarrow> (Inl e, st2)
               | (Inr _, st2) \<Rightarrow>
                   (Inr \<lparr>loc_offset = loc_offset oldLocation, loc_length = length refBytes,
                         loc_slabSize = loc_slabSize oldLocation, loc_isBlob = True\<rparr>, st2))
         else (case markSlotFree (loc_offset oldLocation) st1 of
                 (Inl e, st2) \<Rightarrow> (Inl e, st2)
               | (Inr _, st2) \<Rightarrow>
                   (let (allocation, st3) = allocateSlot (length refBytes) (addFreeSlot oldLocation st2)
                    in (case writeSlot (alloc_offset allocation) refBytes
                              (alloc_slabSize allocation) True st3 of
                          (Inl e, st4) \<Rightarrow> (Inl e, st4)
                        | (Inr _, st4) \<Rightarrow>
                            (Inr \<lparr>loc_offset = alloc_offset allocation, loc_length = length refBytes,
                                  loc_slabSize = alloc_slabSize allocation, loc_isBlob = True\<rparr>,
                             advanceIfNew allocation st4)))))"

definition writeUnlocked ::
  "string \<Rightarrow> jsval \<Rightarrow> StorageEngine \<Rightarrow> (error + DocumentLocation) \<times> StorageEngine" where
  "writeUnlocked docId doc st =
     (let jsonBytes = encodeDoc doc
      in if length jsonBytes > blobThreshold st then writeBlobForInsertUnlocked docId jsonBytes st
         else
           let (allocation, st1) = allocateSlot (length jsonBytes) st
           in case writeSlot (alloc_offset allocation) jsonBytes (alloc_slabSize allocation) False st1 of
                (Inl e, st2) \<Rightarrow> (Inl e, st2)
              | (Inr _, st2) \<Rightarrow>
                  (Inr \<lparr>loc_offset = alloc_offset allocation, loc_length = length jsonBytes,
                        loc_slabSize = alloc_slabSize allocation, loc_isBlob = False\<rparr>,
                   flushIfNotBatching (markMetadataDirty
                     (addLiveData (int (length jsonBytes))
                       (addDocumentCount 1 (advanceIfNew allocation st2))))))"

text \<open>
  The tail shared by two branches of \<open>updateUnlocked\<close> (blob to inline, and the relocation
  of an inline document): free the old slot, allocate, write, advance the header, adjust
  \<open>liveDataSize\<close> by \<open>delta\<close>, flush.
\<close>

definition relocateInline ::
  "byte list \<Rightarrow> DocumentLocation \<Rightarrow> int \<Rightarrow> StorageEngine
     \<Rightarrow> (error + DocumentLocation) \<times> StorageEngine" where
  "relocateInline jsonBytes oldLocation delta st =
     (case markSlotFree (loc_offset oldLocation) st of
        (Inl e, st1) \<Rightarrow> (Inl e, st1)
      | (Inr _, st1) \<Rightarrow>
          (let (allocation, st2) = allocateSlot (length jsonBytes) (addFreeSlot oldLocation st1)
           in (case writeSlot (alloc_offset allocation) jsonBytes (alloc_slabSize allocation) False st2 of
                 (Inl e, st3) \<Rightarrow> (Inl e, st3)
               | (Inr _, st3) \<Rightarrow>
                   (Inr \<lparr>loc_offset = alloc_offset allocation, loc_length = length jsonBytes,
                         loc_slabSize = alloc_slabSize allocation, loc_isBlob = False\<rparr>,
                    flushIfNotBatching (markMetadataDirty
                      (addLiveData delta (advanceIfNew allocation st3)))))))"

definition updateUnlocked ::
  "(byte list \<Rightarrow> jsval option) \<Rightarrow> string \<Rightarrow> jsval \<Rightarrow> DocumentLocation \<Rightarrow> StorageEngine
     \<Rightarrow> (error + DocumentLocation) \<times> StorageEngine" where
  "updateUnlocked parse docId doc oldLocation st =
     (let jsonBytes = encodeDoc doc;
          shouldBeBlob = length jsonBytes > blobThreshold st
      in if loc_isBlob oldLocation then
           (case readBlobReference parse (loc_offset oldLocation) (loc_length oldLocation) st of
              Inl e \<Rightarrow> (Inl e, st)
            | Inr oldBlobRef \<Rightarrow>
                let oldBlobSize = ref_size oldBlobRef
                in if shouldBeBlob then
                     (case updateBlobReferenceUnlocked docId jsonBytes oldLocation st of
                        (Inl e, st1) \<Rightarrow> (Inl e, st1)
                      | (Inr newLocation, st1) \<Rightarrow>
                          (Inr newLocation,
                           flushIfNotBatching (markMetadataDirty
                             (addLiveData (int (length jsonBytes) - int oldBlobSize) st1))))
                   else relocateInline jsonBytes oldLocation
                          (int (length jsonBytes) - int oldBlobSize)
                          (deleteBlob (ref_path oldBlobRef) st))
         else if shouldBeBlob then
           (case markSlotFree (loc_offset oldLocation) st of
              (Inl e, st1) \<Rightarrow> (Inl e, st1)
            | (Inr _, st1) \<Rightarrow>
                (case writeBlobForUpdateUnlocked docId jsonBytes (addFreeSlot oldLocation st1) of
                   (Inl e, st2) \<Rightarrow> (Inl e, st2)
                 | (Inr newLocation, st2) \<Rightarrow>
                     (Inr newLocation,
                      flushIfNotBatching (markMetadataDirty
                        (addLiveData (int (length jsonBytes) - int (loc_length oldLocation)) st2)))))
         else if length jsonBytes + SLOT_HEADER_SIZE \<le> loc_slabSize oldLocation then
           (case writeSlot (loc_offset oldLocation) jsonBytes (loc_slabSize oldLocation) False st of
              (Inl e, st1) \<Rightarrow> (Inl e, st1)
            | (Inr _, st1) \<Rightarrow>
                (Inr \<lparr>loc_offset = loc_offset oldLocation, loc_length = length jsonBytes,
                      loc_slabSize = loc_slabSize oldLocation, loc_isBlob = False\<rparr>,
                 flushIfNotBatching (markMetadataDirty
                   (addLiveData (int (length jsonBytes) - int (loc_length oldLocation)) st1))))
         else relocateInline jsonBytes oldLocation
                (int (length jsonBytes) - int (loc_length oldLocation)) st)"

definition deleteUnlocked ::
  "(byte list \<Rightarrow> jsval option) \<Rightarrow> DocumentLocation \<Rightarrow> StorageEngine
     \<Rightarrow> (error + unit) \<times> StorageEngine" where
  "deleteUnlocked parse location st =
     (let r = (if loc_isBlob location
               then (case readBlobReference parse (loc_offset location) (loc_length location) st of
                       Inl e \<Rightarrow> Inl e
                     | Inr blobRef \<Rightarrow>
                         Inr (addLiveData (- int (ref_size blobRef))
                                (deleteBlob (ref_path blobRef) st)))
               else Inr (addLiveData (- int (loc_length location)) st))
      in case r of
           Inl e \<Rightarrow> (Inl e, st)
         | Inr st1 \<Rightarrow>
             (case markSlotFree (loc_offset location) st1 of
                (Inl e, st2) \<Rightarrow> (Inl e, st2)
              | (Inr _, st2) \<Rightarrow>
                  (Inr (),
                   flushIfNotBatching (markMetadataDirty
                     (addDocumentCount (- 1) (addFreeSlot location st2))))))"

text \<open>
  \<open>writeMany\<close>. \<open>writeManyLayout\<close> is the loop that builds one slot buffer and one location
  per item at consecutive offsets; \<open>writeEach\<close> is the loop of the fallback, taken when some
  document exceeds the blob threshold, which writes the items one by one under a raised
  batch depth and stops at the first exception.
\<close>

fun writeManyLayout :: "(string \<times> jsval) list \<Rightarrow> nat \<Rightarrow> (byte list \<times> DocumentLocation) list" where
  "writeManyLayout [] currentOffset = []"
| "writeManyLayout (item # items) currentOffset =
     (let jsonBytes = encodeDoc (snd item);
          slabSize = selectSlabSize (length jsonBytes)
      in (slotBuffer jsonBytes slabSize False,
          \<lparr>loc_offset = currentOffset, loc_length = length jsonBytes,
           loc_slabSize = slabSize, loc_isBlob = False\<rparr>)
         # writeManyLayout items (currentOffset + slabSize))"

fun writeEach ::
  "(string \<times> jsval) list \<Rightarrow> StorageEngine \<Rightarrow> (error + DocumentLocation list) \<times> StorageEngine" where
  "writeEach [] st = (Inr [], st)"
| "writeEach (item # items) st =
     (case writeUnlocked (fst item) (snd item) st of
        (Inl e, st1) \<Rightarrow> (Inl e, st1)
      | (Inr location, st1) \<Rightarrow>
          (case writeEach items st1 of
             (Inl e, st2) \<Rightarrow> (Inl e, st2)
           | (Inr locations, st2) \<Rightarrow> (Inr (location # locations), st2)))"

text \<open>The \<open>finally\<close> block of a batch: lower the depth and flush at depth 0.\<close>

definition endBatch :: "StorageEngine \<Rightarrow> StorageEngine" where
  "endBatch st =
     (let st1 = st\<lparr>batchDepth := batchDepth st - 1\<rparr>
      in if batchDepth st1 = 0 then flushMetadata st1 else st1)"

definition beginBatch :: "StorageEngine \<Rightarrow> StorageEngine" where
  "beginBatch st = st\<lparr>batchDepth := batchDepth st + 1\<rparr>"

definition writeMany ::
  "(string \<times> jsval) list \<Rightarrow> StorageEngine \<Rightarrow> (error + DocumentLocation list) \<times> StorageEngine" where
  "writeMany items st =
     (if items = [] then (Inr [], st)
      else if list_ex (\<lambda>item. length (encodeDoc (snd item)) > blobThreshold st) items then
        (case writeEach items (beginBatch st) of (r, st1) \<Rightarrow> (r, endBatch st1))
      else
        let startOffset = nextSlotOffset (header st);
            layout = writeManyLayout items startOffset;
            totalBytes = sum_list (map (\<lambda>l. loc_slabSize (snd l)) layout);
            totalLiveData = sum_list (map (\<lambda>l. loc_length (snd l)) layout);
            st1 = writeAtOffset startOffset (concat (map fst layout)) st;
            st2 = st1\<lparr>header := (header st1)
                    \<lparr>nextSlotOffset := startOffset + totalBytes,
                     fileSize := startOffset + totalBytes,
                     documentCount := documentCount (header st1) + int (length items),
                     liveDataSize := liveDataSize (header st1) + int totalLiveData\<rparr>\<rparr>
        in (Inr (map snd layout), flushIfNotBatching (markMetadataDirty st2)))"

text \<open>
  \<open>compact\<close>. \<open>compactEntries\<close> is the loop over the primary index: it reads each slot,
  builds the packed slot buffer and the new location at the running offset, and adds to
  the live total (for a blob the size recorded in its reference). An exception leaves the
  engine as it was, since nothing is written before the loop ends. The temporary header
  holds the same fields at the same offsets as \<open>writeHeader\<close> writes. The result is the
  pair \<open>bytesFreed\<close>, \<open>newLocations\<close>.
\<close>

fun compactEntries ::
  "(byte list \<Rightarrow> jsval option) \<Rightarrow> StorageEngine \<Rightarrow> (string \<times> DocumentLocation) list \<Rightarrow> nat
     \<Rightarrow> error + (byte list list \<times> (string \<times> DocumentLocation) list \<times> nat \<times> int)" where
  "compactEntries parse st [] newOffset = Inr ([], [], newOffset, 0)"
| "compactEntries parse st (entry # entries) newOffset =
     (let location = snd entry
      in case readSlot (loc_offset location) (loc_length location) st of
           Inl e \<Rightarrow> Inl e
         | Inr dat \<Rightarrow>
             let newSlabSize = selectSlabSize (length dat);
                 live = (if loc_isBlob location
                         then (case parse dat of
                                 None \<Rightarrow> Inl SyntaxError
                               | Some v \<Rightarrow>
                                   (case asBlobReference v of
                                      None \<Rightarrow> Inl TypeError
                                    | Some blobRef \<Rightarrow> Inr (int (ref_size blobRef))))
                         else Inr (int (length dat)))
             in (case live of
                   Inl e \<Rightarrow> Inl e
                 | Inr n \<Rightarrow>
                     (case compactEntries parse st entries (newOffset + newSlabSize) of
                        Inl e \<Rightarrow> Inl e
                      | Inr (chunks, newLocations, endOffset, totalLiveData) \<Rightarrow>
                          Inr (slotBuffer dat newSlabSize (loc_isBlob location) # chunks,
                               (fst entry,
                                \<lparr>loc_offset = newOffset, loc_length = length dat,
                                 loc_slabSize = newSlabSize, loc_isBlob = loc_isBlob location\<rparr>)
                                 # newLocations,
                               endOffset, n + totalLiveData))))"

definition compact ::
  "(byte list \<Rightarrow> jsval option) \<Rightarrow> (string \<times> DocumentLocation) list \<Rightarrow> StorageEngine
     \<Rightarrow> (error + (int \<times> (string \<times> DocumentLocation) list)) \<times> StorageEngine" where
  "compact parse index st =
     (case compactEntries parse st index DATA_HEADER_SIZE of
        Inl e \<Rightarrow> (Inl e, st)
      | Inr (chunks, newLocations, newOffset, totalLiveData) \<Rightarrow>
          let newHeader = \<lparr>magic = DATA_FILE_MAGIC, version = FORMAT_VERSION, fileSize = newOffset,
                            liveDataSize = totalLiveData, documentCount = int (length index),
                            nextSlotOffset = newOffset\<rparr>;
              fullBuffer = headerBytes newHeader @ concat chunks;
              oldSize = fileSize (header st)
          in (Inr (int oldSize - int newOffset, newLocations),
              updateSharedState
                (st\<lparr>dataFile := fullBuffer, header := newHeader, freeList := [],
                    diskWrites := diskWrites st + 2\<rparr>)))"

text \<open>
  \<open>init\<close> and what it calls. \<open>createNewFile\<close> sets the header of an empty file and writes
  it. \<open>readHeader\<close> reads the 64 header bytes and checks length, magic and version.
  \<open>calculatePackedSize\<close> adds the slab sizes of the index to the header size.
  \<open>rebuildFreeList\<close> walks the slots from \<open>DATA_HEADER_SIZE\<close> in strides of the recorded
  slab size, up to \<open>nextSlotOffset\<close>, and adds to the free list every slot whose ACTIVE
  flag is clear or whose offset no location of the index has; it stops at a header that is
  cut off and at a slab size of 0. \<open>init\<close> opens an existing file with \<open>r+\<close> and reads
  it, and creates a missing one with \<open>w+\<close>, which leaves an empty file; the call of
  \<open>mkdir\<close> for the blob directory has no counterpart in the state.
\<close>

definition emptyHeader :: DataFileHeader where
  "emptyHeader =
     \<lparr>magic = DATA_FILE_MAGIC, version = FORMAT_VERSION, fileSize = DATA_HEADER_SIZE,
      liveDataSize = 0, documentCount = 0, nextSlotOffset = DATA_HEADER_SIZE\<rparr>"

definition createNewFile :: "StorageEngine \<Rightarrow> StorageEngine" where
  "createNewFile st = writeHeader (st\<lparr>header := emptyHeader\<rparr>)"

definition readHeader :: "StorageEngine \<Rightarrow> (error + unit) \<times> StorageEngine" where
  "readHeader st =
     (let buf = fileRead (dataFile st) 0 DATA_HEADER_SIZE
      in if length buf < DATA_HEADER_SIZE
         then (Inl (InvalidFileFormatError DataPath FileTooSmall), st)
         else if readUint32 buf 0 \<noteq> DATA_FILE_MAGIC
         then (Inl (InvalidFileFormatError DataPath (InvalidMagic (readUint32 buf 0))), st)
         else if readUint32 buf 4 \<noteq> FORMAT_VERSION
         then (Inl (InvalidFileFormatError DataPath (UnsupportedVersion (readUint32 buf 4))), st)
         else (Inr (),
               st\<lparr>header :=
                    \<lparr>magic = readUint32 buf 0, version = readUint32 buf 4,
                     fileSize = readUint64 buf 8,
                     liveDataSize = int (readUint64 buf 16),
                     documentCount = int (readUint64 buf 24),
                     nextSlotOffset = readUint64 buf 32\<rparr>\<rparr>))"

definition calculatePackedSize :: "(string \<times> DocumentLocation) list \<Rightarrow> nat" where
  "calculatePackedSize index =
     DATA_HEADER_SIZE + sum_list (map (\<lambda>entry. loc_slabSize (snd entry)) index)"

function rebuildLoop ::
  "byte list \<Rightarrow> nat \<Rightarrow> nat list \<Rightarrow> nat \<Rightarrow> FreeSlot list \<Rightarrow> FreeSlot list" where
  "rebuildLoop f limit occupiedOffsets off free =
     (if off < limit then
        (let headerBuf = fileRead f off SLOT_HEADER_SIZE
         in if length headerBuf < SLOT_HEADER_SIZE then free
            else
              let flags = readUint32 headerBuf 0;
                  slabSize = unat (readUint32 headerBuf 8)
              in if slabSize = 0 then free
                 else rebuildLoop f limit occupiedOffsets (off + slabSize)
                        (if flags AND FLAG_ACTIVE = 0 \<or> off \<notin> set occupiedOffsets
                         then free @ [\<lparr>free_offset = off, free_slabSize = slabSize\<rparr>]
                         else free))
      else free)"
  by pat_completeness auto
termination
  by (relation "measure (\<lambda>(f, limit, occupiedOffsets, off, free). limit - off)") auto

declare rebuildLoop.simps [simp del]

definition rebuildFreeList :: "(string \<times> DocumentLocation) list \<Rightarrow> StorageEngine \<Rightarrow> StorageEngine" where
  "rebuildFreeList index st =
     st\<lparr>freeList :=
          rebuildLoop (dataFile st) (nextSlotOffset (header st))
            (map (\<lambda>entry. loc_offset (snd entry)) index) DATA_HEADER_SIZE (freeList st)\<rparr>"

definition StorageEngine_init ::
  "(string \<times> DocumentLocation) list \<Rightarrow> StorageEngine \<Rightarrow> (error + unit) \<times> StorageEngine" where
  "StorageEngine_init existingIndex st =
     (let r = (if fileExists st
               then (case readHeader st of
                       (Inl e, st1) \<Rightarrow> (Inl e, st1)
                     | (Inr _, st1) \<Rightarrow>
                         (Inr (),
                          if calculatePackedSize existingIndex \<noteq> nextSlotOffset (header st1)
                          then rebuildFreeList existingIndex st1
                          else st1))
               else (Inr (), createNewFile (st\<lparr>dataFile := [], fileExists := True\<rparr>)))
      in case r of
           (Inl e, st2) \<Rightarrow> (Inl e, st2)
         | (Inr _, st2) \<Rightarrow> (Inr (), updateSharedState st2))"

section \<open>Index manager (src/index-manager.ts)\<close>

text \<open>
  The primary index is a \<open>Map\<close> from id to location, a secondary index a \<open>Map\<close> from
  serialized value to a \<open>Set\<close> of ids, and the secondary indexes a \<open>Map\<close> from field path to
  such a map. All three iterate in insertion order and are association lists here;
  \<open>AList.update\<close> is \<open>Map.set\<close> (an existing key keeps its place, a new one goes last) and
  \<open>AList.delete\<close> is \<open>Map.delete\<close>. \<open>indexFile\<close> is the file at the index path as the
  collection finds it when it is first used, \<open>None\<close> when there is none; \<open>persist\<close> is
  modelled by the dirty flag only, since a collection does not read back what it wrote.
\<close>

record IndexManager =
  primaryIndex :: "(string \<times> DocumentLocation) list"
  secondaryIndexes :: "(string \<times> (string \<times> string list) list) list"
  dirty :: bool
  indexFile :: "byte list option"

text \<open>\<open>Set.add\<close> on an insertion-ordered set.\<close>

definition setAdd :: "'a \<Rightarrow> 'a list \<Rightarrow> 'a list" where
  "setAdd x xs = (if x \<in> set xs then xs else xs @ [x])"

text \<open>The truth value of a JavaScript value, as \<open>if (oldData)\<close> tests it.\<close>

fun truthy :: "jsval \<Rightarrow> bool" where
  "truthy JNull = False"
| "truthy JUndefined = False"
| "truthy (JBool b) = b"
| "truthy (JNum i) = (i \<noteq> 0)"
| "truthy (JStr s) = (s \<noteq> [])"
| "truthy _ = True"

definition postingAdd ::
  "jsval \<Rightarrow> string \<Rightarrow> string \<Rightarrow> (string \<times> string list) list \<Rightarrow> (string \<times> string list) list" where
  "postingAdd doc fieldPath docId valueMap =
     (let v = getNestedValue doc fieldPath
      in if v \<noteq> JUndefined then
           (let serialized = serializeIndexValue v
            in case map_of valueMap serialized of
                 None \<Rightarrow> valueMap @ [(serialized, [docId])]
               | Some ids \<Rightarrow> AList.update serialized (setAdd docId ids) valueMap)
         else valueMap)"

definition postingRemove ::
  "jsval \<Rightarrow> string \<Rightarrow> string \<Rightarrow> (string \<times> string list) list \<Rightarrow> (string \<times> string list) list" where
  "postingRemove doc fieldPath docId valueMap =
     (let v = getNestedValue doc fieldPath
      in if v \<noteq> JUndefined then
           (let serialized = serializeIndexValue v
            in case map_of valueMap serialized of
                 None \<Rightarrow> valueMap
               | Some ids \<Rightarrow>
                   (let ids' = removeAll docId ids
                    in if ids' = [] then AList.delete serialized valueMap
                       else AList.update serialized ids' valueMap))
         else valueMap)"

definition addDocument :: "string \<Rightarrow> DocumentLocation \<Rightarrow> jsval \<Rightarrow> IndexManager \<Rightarrow> IndexManager" where
  "addDocument docId location doc im =
     im\<lparr>primaryIndex := AList.update docId location (primaryIndex im),
        secondaryIndexes :=
          map (\<lambda>(fieldPath, valueMap). (fieldPath, postingAdd doc fieldPath docId valueMap))
            (secondaryIndexes im),
        dirty := True\<rparr>"

definition updateDocument ::
  "string \<Rightarrow> DocumentLocation \<Rightarrow> jsval \<Rightarrow> jsval \<Rightarrow> IndexManager \<Rightarrow> IndexManager" where
  "updateDocument docId location newData oldData im =
     im\<lparr>primaryIndex := AList.update docId location (primaryIndex im),
        secondaryIndexes :=
          map (\<lambda>(fieldPath, valueMap).
                 (fieldPath,
                  postingAdd newData fieldPath docId
                    (if truthy oldData then postingRemove oldData fieldPath docId valueMap
                     else valueMap)))
            (secondaryIndexes im),
        dirty := True\<rparr>"

definition updateLocation :: "string \<Rightarrow> DocumentLocation \<Rightarrow> IndexManager \<Rightarrow> IndexManager" where
  "updateLocation docId location im =
     im\<lparr>primaryIndex := AList.update docId location (primaryIndex im), dirty := True\<rparr>"

definition removeDocument :: "string \<Rightarrow> jsval \<Rightarrow> IndexManager \<Rightarrow> IndexManager" where
  "removeDocument docId doc im =
     im\<lparr>primaryIndex := AList.delete docId (primaryIndex im),
        secondaryIndexes :=
          (if truthy doc
           then map (\<lambda>(fieldPath, valueMap). (fieldPath, postingRemove doc fieldPath docId valueMap))
                  (secondaryIndexes im)
           else secondaryIndexes im),
        dirty := True\<rparr>"

text \<open>
  The loop over \<open>Object.entries(filter)\<close> that \<open>query\<close>, \<open>queryIds\<close> and \<open>count\<close> share. It
  returns \<open>None\<close> where the source returns the empty result at once (an indexed value with
  no posting list), and otherwise the candidate set (\<open>None\<close> for the source's \<open>null\<close>) with
  the flag \<open>fullyCoveredByIndexes\<close>.
\<close>

fun filterLoop ::
  "(string \<times> (string \<times> string list) list) list \<Rightarrow> (string \<times> jsval) list \<Rightarrow> string list option
     \<Rightarrow> bool \<Rightarrow> (string list option \<times> bool) option" where
  "filterLoop sec [] candidateIds fullyCovered = Some (candidateIds, fullyCovered)"
| "filterLoop sec (entry # entries) candidateIds fullyCovered =
     (case map_of sec (fst entry) of
        Some fieldIndex \<Rightarrow>
          (case map_of fieldIndex (serializeIndexValue (snd entry)) of
             Some matchingIds \<Rightarrow>
               filterLoop sec entries
                 (Some (case candidateIds of
                          None \<Rightarrow> matchingIds
                        | Some c \<Rightarrow> filter (\<lambda>i. i \<in> set matchingIds) c))
                 fullyCovered
           | None \<Rightarrow> None)
      | None \<Rightarrow> filterLoop sec entries candidateIds False)"

text \<open>
  The loop over the candidates when the filter is not covered: every candidate that is in
  the primary index is read through \<open>reader\<close>, which threads a state \<open>'r\<close> of its own (the
  cache and the storage, for the reader a collection passes), and kept when the document
  matches the filter. An exception of the reader ends the loop.
\<close>

fun scanCandidates ::
  "(string \<Rightarrow> DocumentLocation \<Rightarrow> 'r \<Rightarrow> (error + jsval) \<times> 'r) \<Rightarrow> (string \<times> DocumentLocation) list
     \<Rightarrow> (string \<times> jsval) list \<Rightarrow> string list \<Rightarrow> 'r \<Rightarrow> (error + string list) \<times> 'r" where
  "scanCandidates reader prim flt [] r = (Inr [], r)"
| "scanCandidates reader prim flt (docId # ids) r =
     (case map_of prim docId of
        None \<Rightarrow> scanCandidates reader prim flt ids r
      | Some location \<Rightarrow>
          (case reader docId location r of
             (Inl e, r1) \<Rightarrow> (Inl e, r1)
           | (Inr doc, r1) \<Rightarrow>
               (case scanCandidates reader prim flt ids r1 of
                  (Inl e, r2) \<Rightarrow> (Inl e, r2)
                | (Inr found, r2) \<Rightarrow>
                    (Inr (if matchesFilter doc flt then docId # found else found), r2))))"

definition queryIds ::
  "IndexManager \<Rightarrow> (string \<times> jsval) list
     \<Rightarrow> (string \<Rightarrow> DocumentLocation \<Rightarrow> 'r \<Rightarrow> (error + jsval) \<times> 'r) \<Rightarrow> 'r
     \<Rightarrow> (error + string list) \<times> 'r" where
  "queryIds im flt reader r =
     (case filterLoop (secondaryIndexes im) flt None True of
        None \<Rightarrow> (Inr [], r)
      | Some (candidateIds, fullyCovered) \<Rightarrow>
          (case candidateIds of
             None \<Rightarrow> scanCandidates reader (primaryIndex im) flt (map fst (primaryIndex im)) r
           | Some c \<Rightarrow>
               if fullyCovered then (Inr c, r)
               else scanCandidates reader (primaryIndex im) flt c r))"

definition IndexManager_count ::
  "IndexManager \<Rightarrow> (string \<times> jsval) list
     \<Rightarrow> (string \<Rightarrow> DocumentLocation \<Rightarrow> 'r \<Rightarrow> (error + jsval) \<times> 'r) \<Rightarrow> 'r
     \<Rightarrow> (error + nat) \<times> 'r" where
  "IndexManager_count im flt reader r =
     (case filterLoop (secondaryIndexes im) flt None True of
        None \<Rightarrow> (Inr 0, r)
      | Some (candidateIds, fullyCovered) \<Rightarrow>
          (case candidateIds of
             None \<Rightarrow>
               (case scanCandidates reader (primaryIndex im) flt (map fst (primaryIndex im)) r of
                  (Inl e, r1) \<Rightarrow> (Inl e, r1)
                | (Inr found, r1) \<Rightarrow> (Inr (length found), r1))
           | Some c \<Rightarrow>
               if fullyCovered then (Inr (length c), r)
               else (case scanCandidates reader (primaryIndex im) flt c r of
                       (Inl e, r1) \<Rightarrow> (Inl e, r1)
                     | (Inr found, r1) \<Rightarrow> (Inr (length found), r1))))"

text \<open>
  \<open>load\<close> reads the index file: a header of 64 bytes with magic, version, the two counts
  and the two offsets, then the entries of the primary index, then the secondary indexes.
  The loops store what they have read as they go, so an exception (the \<open>RangeError\<close> of a
  read past the end) leaves the entries read so far in the maps; a posting map is stored
  under its field before its entries are read. \<open>bytes.slice\<close> past the end is cut short.
  \<open>loadPrimary\<close> is the loop over the locations, \<open>loadSecondary\<close> the loop over the
  fields, \<open>loadEntries\<close> the loop over the values of one field, \<open>loadIds\<close> the loop over
  the ids of one value.
\<close>

definition INDEX_HEADER_SIZE :: nat where "INDEX_HEADER_SIZE = 64"
definition INDEX_FILE_MAGIC :: u32 where "INDEX_FILE_MAGIC = 0x58444953"

fun loadPrimary ::
  "byte list \<Rightarrow> nat \<Rightarrow> nat \<Rightarrow> (string \<times> DocumentLocation) list
     \<Rightarrow> (error + unit) \<times> (string \<times> DocumentLocation) list" where
  "loadPrimary bytes 0 off prim = (Inr (), prim)"
| "loadPrimary bytes (Suc i) off prim =
     (if \<not> viewInRange bytes off 2 then (Inl RangeError, prim)
      else
        let idLength = unat (readUint16 bytes off);
            docId = decodeString (take idLength (drop (off + 2) bytes));
            off1 = off + 2 + idLength
        in if \<not> viewInRange bytes off1 8 then (Inl RangeError, prim)
           else if \<not> viewInRange bytes (off1 + 8) 4 then (Inl RangeError, prim)
           else if \<not> viewInRange bytes (off1 + 12) 4 then (Inl RangeError, prim)
           else if \<not> viewInRange bytes (off1 + 16) 4 then (Inl RangeError, prim)
           else
             let docOffset = readUint64 bytes off1;
                 len = unat (readUint32 bytes (off1 + 8));
                 slabSize = unat (readUint32 bytes (off1 + 12));
                 flags = readUint32 bytes (off1 + 16)
             in loadPrimary bytes i (off1 + 20)
                  (AList.update docId
                     \<lparr>loc_offset = docOffset, loc_length = len, loc_slabSize = slabSize,
                      loc_isBlob = (flags AND 1 \<noteq> 0)\<rparr> prim))"

fun loadIds :: "byte list \<Rightarrow> nat \<Rightarrow> nat \<Rightarrow> string list \<Rightarrow> error + (nat \<times> string list)" where
  "loadIds bytes 0 off ids = Inr (off, ids)"
| "loadIds bytes (Suc k) off ids =
     (if \<not> viewInRange bytes off 2 then Inl RangeError
      else
        let docIdLength = unat (readUint16 bytes off);
            docId = decodeString (take docIdLength (drop (off + 2) bytes))
        in loadIds bytes k (off + 2 + docIdLength) (setAdd docId ids))"

fun loadEntries ::
  "byte list \<Rightarrow> nat \<Rightarrow> nat \<Rightarrow> (string \<times> string list) list
     \<Rightarrow> (error + nat) \<times> (string \<times> string list) list" where
  "loadEntries bytes 0 off valueMap = (Inr off, valueMap)"
| "loadEntries bytes (Suc j) off valueMap =
     (if \<not> viewInRange bytes off 4 then (Inl RangeError, valueMap)
      else
        let valueLength = unat (readUint32 bytes off);
            serializedValue = decodeString (take valueLength (drop (off + 4) bytes));
            off1 = off + 4 + valueLength
        in if \<not> viewInRange bytes off1 4 then (Inl RangeError, valueMap)
           else (case loadIds bytes (unat (readUint32 bytes off1)) (off1 + 4) [] of
                   Inl e \<Rightarrow> (Inl e, valueMap)
                 | Inr (off2, ids) \<Rightarrow>
                     loadEntries bytes j off2 (AList.update serializedValue ids valueMap)))"

fun loadSecondary ::
  "byte list \<Rightarrow> nat \<Rightarrow> nat \<Rightarrow> (string \<times> (string \<times> string list) list) list
     \<Rightarrow> (error + unit) \<times> (string \<times> (string \<times> string list) list) list" where
  "loadSecondary bytes 0 off sec = (Inr (), sec)"
| "loadSecondary bytes (Suc i) off sec =
     (if \<not> viewInRange bytes off 2 then (Inl RangeError, sec)
      else
        let fieldPathLength = unat (readUint16 bytes off);
            fieldPath = decodeString (take fieldPathLength (drop (off + 2) bytes));
            off1 = off + 2 + fieldPathLength
        in if \<not> viewInRange bytes off1 4 then (Inl RangeError, sec)
           else (case loadEntries bytes (unat (readUint32 bytes off1)) (off1 + 4) [] of
                   (Inl e, valueMap) \<Rightarrow> (Inl e, AList.update fieldPath valueMap sec)
                 | (Inr off2, valueMap) \<Rightarrow>
                     loadSecondary bytes i off2 (AList.update fieldPath valueMap sec)))"

definition IndexManager_load :: "IndexManager \<Rightarrow> (error + unit) \<times> IndexManager" where
  "IndexManager_load im =
     (case indexFile im of
        None \<Rightarrow> (Inr (), im)
      | Some bytes \<Rightarrow>
          if length bytes < INDEX_HEADER_SIZE then (Inl IndexCorruptedError, im)
          else if readUint32 bytes 0 \<noteq> INDEX_FILE_MAGIC
          then (Inl (InvalidFileFormatError IndexPath (InvalidMagic (readUint32 bytes 0))), im)
          else if readUint32 bytes 4 \<noteq> FORMAT_VERSION
          then (Inl (InvalidFileFormatError IndexPath (UnsupportedVersion (readUint32 bytes 4))), im)
          else
            let secondaryIndexCount = unat (readUint16 bytes 8);
                primaryIndexCount = unat (readUint32 bytes 10);
                primaryIndexOffset = unat (readUint32 bytes 14);
                secondaryIndexOffset = unat (readUint32 bytes 18)
            in (case loadPrimary bytes primaryIndexCount primaryIndexOffset (primaryIndex im) of
                  (Inl e, prim) \<Rightarrow> (Inl e, im\<lparr>primaryIndex := prim\<rparr>)
                | (Inr _, prim) \<Rightarrow>
                    (case loadSecondary bytes secondaryIndexCount secondaryIndexOffset
                            (secondaryIndexes im) of
                       (Inl e, sec) \<Rightarrow>
                         (Inl e, im\<lparr>primaryIndex := prim, secondaryIndexes := sec\<rparr>)
                     | (Inr _, sec) \<Rightarrow>
                         (Inr (),
                          im\<lparr>primaryIndex := prim, secondaryIndexes := sec, dirty := False\<rparr>))))"

section \<open>Collection (src/collection.ts)\<close>

text \<open>
  A collection: the engine, the index manager, the optional cache (a \<open>Map\<close> in recency
  order, \<open>None\<close> when \<open>cacheSize\<close> is 0) and the flag \<open>initialized\<close>, which the
  constructor leaves clear. \<open>storageReads\<close> counts the calls of \<open>storage.read\<close>; the source
  has no such field.
\<close>

record Collection =
  storage :: StorageEngine
  indexManager :: IndexManager
  cacheSize :: nat
  cache :: "(string \<times> jsval) list option"
  storageReads :: nat
  initialized :: bool

definition cacheGet :: "string \<Rightarrow> Collection \<Rightarrow> jsval option \<times> Collection" where
  "cacheGet docId c =
     (case cache c of
        None \<Rightarrow> (None, c)
      | Some m \<Rightarrow>
          (case map_of m docId of
             None \<Rightarrow> (None, c)
           | Some v \<Rightarrow>
               if \<not> truthy v then (None, c)
               else (Some v, c\<lparr>cache := Some (AList.delete docId m @ [(docId, v)])\<rparr>)))"

definition cacheSet :: "string \<Rightarrow> jsval \<Rightarrow> Collection \<Rightarrow> Collection" where
  "cacheSet docId doc c =
     (case cache c of
        None \<Rightarrow> c
      | Some m \<Rightarrow>
          let m1 = AList.delete docId m @ [(docId, doc)]
          in c\<lparr>cache := Some (if length m1 > cacheSize c
                               then (case m1 of [] \<Rightarrow> m1 | oldest # _ \<Rightarrow> AList.delete (fst oldest) m1)
                               else m1)\<rparr>)"

definition cacheDelete :: "string \<Rightarrow> Collection \<Rightarrow> Collection" where
  "cacheDelete docId c =
     (case cache c of None \<Rightarrow> c | Some m \<Rightarrow> c\<lparr>cache := Some (AList.delete docId m)\<rparr>)"

text \<open>\<open>this.storage.read(location)\<close>, counted.\<close>

definition storageRead ::
  "(byte list \<Rightarrow> jsval option) \<Rightarrow> DocumentLocation \<Rightarrow> Collection \<Rightarrow> (error + jsval) \<times> Collection" where
  "storageRead parse location c =
     (StorageEngine_read parse location (storage c), c\<lparr>storageReads := storageReads c + 1\<rparr>)"

definition readWithCache ::
  "(byte list \<Rightarrow> jsval option) \<Rightarrow> string \<Rightarrow> DocumentLocation \<Rightarrow> Collection
     \<Rightarrow> (error + jsval) \<times> Collection" where
  "readWithCache parse docId location c =
     (case cacheGet docId c of
        (Some cached, c1) \<Rightarrow> (Inr cached, c1)
      | (None, c1) \<Rightarrow>
          (case storageRead parse location c1 of
             (Inl e, c2) \<Rightarrow> (Inl e, c2)
           | (Inr doc, c2) \<Rightarrow> (Inr doc, cacheSet docId doc c2)))"

text \<open>
  \<open>ensureInitialized\<close>, the first statement of every public method: on an initialised
  collection it returns at once; otherwise it loads the index file when there is one,
  initialises the engine with the primary index, and sets the flag. An exception leaves
  the flag clear and keeps what was loaded. \<open>afterInit c body\<close> is
  \<open>await this.ensureInitialized()\<close> followed by the statements \<open>body\<close>.
\<close>

definition ensureInitialized :: "Collection \<Rightarrow> (error + unit) \<times> Collection" where
  "ensureInitialized c =
     (if initialized c then (Inr (), c)
      else case IndexManager_load (indexManager c) of
             (Inl e, im) \<Rightarrow> (Inl e, c\<lparr>indexManager := im\<rparr>)
           | (Inr _, im) \<Rightarrow>
               (case StorageEngine_init (primaryIndex im) (storage c) of
                  (Inl e, st) \<Rightarrow> (Inl e, c\<lparr>storage := st, indexManager := im\<rparr>)
                | (Inr _, st) \<Rightarrow>
                    (Inr (), c\<lparr>storage := st, indexManager := im, initialized := True\<rparr>)))"

definition afterInit ::
  "Collection \<Rightarrow> (Collection \<Rightarrow> (error + 'a) \<times> Collection) \<Rightarrow> (error + 'a) \<times> Collection" where
  "afterInit c body =
     (case ensureInitialized c of
        (Inl e, c1) \<Rightarrow> (Inl e, c1)
      | (Inr _, c1) \<Rightarrow> body c1)"

text \<open>
  The statements of \<open>insert\<close>, \<open>update\<close>, \<open>upsert\<close> and \<open>delete\<close> that follow
  \<open>ensureInitialized\<close>. The closures that \<open>batch\<close> hands to its caller repeat them, on the
  unlocked storage operations, which are the ones modelled. The statements of the other
  methods follow in the same way; the public methods come after them.
\<close>

definition Collection_insert_body :: "string \<Rightarrow> jsval \<Rightarrow> Collection \<Rightarrow> (error + unit) \<times> Collection" where
  "Collection_insert_body docId doc c =
     (if map_of (primaryIndex (indexManager c)) docId \<noteq> None then (Inl (DuplicateIdError docId), c)
      else case writeUnlocked docId doc (storage c) of
             (Inl e, st) \<Rightarrow> (Inl e, c\<lparr>storage := st\<rparr>)
           | (Inr location, st) \<Rightarrow>
               (Inr (),
                cacheSet docId doc
                  (c\<lparr>storage := st,
                     indexManager := addDocument docId location doc (indexManager c)\<rparr>)))"

text \<open>
  The statements \<open>update\<close> and \<open>upsert\<close> share once the old location is known: read the
  old document, update the storage, update the indexes, refresh the cache.
\<close>

definition replaceAt ::
  "(byte list \<Rightarrow> jsval option) \<Rightarrow> string \<Rightarrow> jsval \<Rightarrow> DocumentLocation \<Rightarrow> Collection
     \<Rightarrow> (error + unit) \<times> Collection" where
  "replaceAt parse docId doc oldLocation c =
     (case storageRead parse oldLocation c of
        (Inl e, c1) \<Rightarrow> (Inl e, c1)
      | (Inr oldData, c1) \<Rightarrow>
          (case updateUnlocked parse docId doc oldLocation (storage c1) of
             (Inl e, st) \<Rightarrow> (Inl e, c1\<lparr>storage := st\<rparr>)
           | (Inr newLocation, st) \<Rightarrow>
               (Inr (),
                cacheSet docId doc
                  (c1\<lparr>storage := st,
                      indexManager :=
                        updateDocument docId newLocation doc oldData (indexManager c1)\<rparr>))))"

definition Collection_update_body ::
  "(byte list \<Rightarrow> jsval option) \<Rightarrow> string \<Rightarrow> jsval \<Rightarrow> Collection \<Rightarrow> (error + unit) \<times> Collection" where
  "Collection_update_body parse docId doc c =
     (case map_of (primaryIndex (indexManager c)) docId of
        None \<Rightarrow> (Inl (DocumentNotFoundError docId), c)
      | Some oldLocation \<Rightarrow> replaceAt parse docId doc oldLocation c)"

definition Collection_upsert_body ::
  "(byte list \<Rightarrow> jsval option) \<Rightarrow> string \<Rightarrow> jsval \<Rightarrow> Collection \<Rightarrow> (error + unit) \<times> Collection" where
  "Collection_upsert_body parse docId doc c =
     (case map_of (primaryIndex (indexManager c)) docId of
        Some existingLocation \<Rightarrow> replaceAt parse docId doc existingLocation c
      | None \<Rightarrow>
          (case writeUnlocked docId doc (storage c) of
             (Inl e, st) \<Rightarrow> (Inl e, c\<lparr>storage := st\<rparr>)
           | (Inr location, st) \<Rightarrow>
               (Inr (),
                cacheSet docId doc
                  (c\<lparr>storage := st,
                     indexManager := addDocument docId location doc (indexManager c)\<rparr>))))"

definition Collection_delete_body ::
  "(byte list \<Rightarrow> jsval option) \<Rightarrow> string \<Rightarrow> Collection \<Rightarrow> (error + bool) \<times> Collection" where
  "Collection_delete_body parse docId c =
     (case map_of (primaryIndex (indexManager c)) docId of
        None \<Rightarrow> (Inr False, c)
      | Some location \<Rightarrow>
          (case storageRead parse location c of
             (Inl e, c1) \<Rightarrow> (Inl e, c1)
           | (Inr doc, c1) \<Rightarrow>
               (case deleteUnlocked parse location (storage c1) of
                  (Inl e, st) \<Rightarrow> (Inl e, c1\<lparr>storage := st\<rparr>)
                | (Inr _, st) \<Rightarrow>
                    (Inr True,
                     cacheDelete docId
                       (c1\<lparr>storage := st,
                           indexManager := removeDocument docId doc (indexManager c1)\<rparr>)))))"

definition Collection_get_body ::
  "(byte list \<Rightarrow> jsval option) \<Rightarrow> string \<Rightarrow> Collection \<Rightarrow> (error + jsval option) \<times> Collection" where
  "Collection_get_body parse docId c =
     (case cacheGet docId c of
        (Some cached, c1) \<Rightarrow> (Inr (Some cached), c1)
      | (None, c1) \<Rightarrow>
          (case map_of (primaryIndex (indexManager c1)) docId of
             None \<Rightarrow> (Inr None, c1)
           | Some location \<Rightarrow>
               (case storageRead parse location c1 of
                  (Inl e, c2) \<Rightarrow> (Inl e, c2)
                | (Inr doc, c2) \<Rightarrow> (Inr (Some doc), cacheSet docId doc c2))))"

definition Collection_findIds_body ::
  "(byte list \<Rightarrow> jsval option) \<Rightarrow> (string \<times> jsval) list \<Rightarrow> Collection
     \<Rightarrow> (error + string list) \<times> Collection" where
  "Collection_findIds_body parse flt c = queryIds (indexManager c) flt (readWithCache parse) c"

definition Collection_count_body ::
  "(byte list \<Rightarrow> jsval option) \<Rightarrow> (string \<times> jsval) list option \<Rightarrow> Collection
     \<Rightarrow> (error + nat) \<times> Collection" where
  "Collection_count_body parse flt c =
     (case flt of
        None \<Rightarrow> (Inr (length (primaryIndex (indexManager c))), c)
      | Some f \<Rightarrow>
          if f = [] then (Inr (length (primaryIndex (indexManager c))), c)
          else IndexManager_count (indexManager c) f (readWithCache parse) c)"

text \<open>
  \<open>batch\<close>: the caller's function awaits operations of the four kinds in turn (the closures
  repeat the bodies of \<open>insert\<close>, \<open>update\<close>, \<open>upsert\<close> and \<open>delete\<close> on the unlocked storage
  operations, which are the ones modelled), and an exception of one ends the function;
  the batch depth is raised around it and the metadata flushed at the end.
\<close>

datatype batchOp =
    BatchInsert string jsval
  | BatchUpdate string jsval
  | BatchUpsert string jsval
  | BatchDelete string

fun batchStep ::
  "(byte list \<Rightarrow> jsval option) \<Rightarrow> batchOp \<Rightarrow> Collection \<Rightarrow> (error + unit) \<times> Collection" where
  "batchStep parse (BatchInsert docId doc) c = Collection_insert_body docId doc c"
| "batchStep parse (BatchUpdate docId doc) c = Collection_update_body parse docId doc c"
| "batchStep parse (BatchUpsert docId doc) c = Collection_upsert_body parse docId doc c"
| "batchStep parse (BatchDelete docId) c =
     (case Collection_delete_body parse docId c of (Inl e, c1) \<Rightarrow> (Inl e, c1) | (Inr _, c1) \<Rightarrow> (Inr (), c1))"

fun batchSteps ::
  "(byte list \<Rightarrow> jsval option) \<Rightarrow> batchOp list \<Rightarrow> Collection \<Rightarrow> (error + unit) \<times> Collection" where
  "batchSteps parse [] c = (Inr (), c)"
| "batchSteps parse (b # bs) c =
     (case batchStep parse b c of
        (Inl e, c1) \<Rightarrow> (Inl e, c1)
      | (Inr _, c1) \<Rightarrow> batchSteps parse bs c1)"

definition Collection_batch_body ::
  "(byte list \<Rightarrow> jsval option) \<Rightarrow> batchOp list \<Rightarrow> Collection \<Rightarrow> (error + unit) \<times> Collection" where
  "Collection_batch_body parse bs c =
     (case batchSteps parse bs (c\<lparr>storage := beginBatch (storage c)\<rparr>) of
        (r, c1) \<Rightarrow> (r, c1\<lparr>storage := endBatch (storage c1)\<rparr>))"

fun addAll :: "(string \<times> jsval) list \<Rightarrow> DocumentLocation list \<Rightarrow> Collection \<Rightarrow> Collection" where
  "addAll (item # items) (location # locations) c =
     addAll items locations
       (cacheSet (fst item) (snd item)
          (c\<lparr>indexManager := addDocument (fst item) location (snd item) (indexManager c)\<rparr>))"
| "addAll _ _ c = c"

definition Collection_insertMany_body ::
  "(string \<times> jsval) list \<Rightarrow> Collection \<Rightarrow> (error + unit) \<times> Collection" where
  "Collection_insertMany_body items c =
     (if items = [] then (Inr (), c)
      else case find (\<lambda>item. map_of (primaryIndex (indexManager c)) (fst item) \<noteq> None) items of
             Some item \<Rightarrow> (Inl (DuplicateIdError (fst item)), c)
           | None \<Rightarrow>
               (case writeMany items (storage c) of
                  (Inl e, st) \<Rightarrow> (Inl e, c\<lparr>storage := st\<rparr>)
                | (Inr locations, st) \<Rightarrow> (Inr (), addAll items locations (c\<lparr>storage := st\<rparr>))))"

text \<open>
  \<open>compact\<close> of the collection: the engine compacts, every new location is stored under
  its id, and the index is persisted (which clears the dirty flag). The result is
  \<open>bytesFreed\<close>, \<open>documentsCompacted\<close>, \<open>newFileSize\<close>.
\<close>

definition Collection_compact_body ::
  "(byte list \<Rightarrow> jsval option) \<Rightarrow> Collection \<Rightarrow> (error + (int \<times> nat \<times> nat)) \<times> Collection" where
  "Collection_compact_body parse c =
     (case compact parse (primaryIndex (indexManager c)) (storage c) of
        (Inl e, st) \<Rightarrow> (Inl e, c\<lparr>storage := st\<rparr>)
      | (Inr (bytesFreed, newLocations), st) \<Rightarrow>
          let im = foldl (\<lambda>im entry. updateLocation (fst entry) (snd entry) im)
                     (indexManager c) newLocations
          in (Inr (bytesFreed, length (primaryIndex im), fileSize (header st)),
              c\<lparr>storage := st, indexManager := im\<lparr>dirty := False\<rparr>\<rparr>))"

text \<open>
  The public methods: \<open>ensureInitialized\<close>, then the statements above.
\<close>

definition Collection_insert :: "string \<Rightarrow> jsval \<Rightarrow> Collection \<Rightarrow> (error + unit) \<times> Collection" where
  "Collection_insert docId doc c = afterInit c (Collection_insert_body docId doc)"

definition Collection_update ::
  "(byte list \<Rightarrow> jsval option) \<Rightarrow> string \<Rightarrow> jsval \<Rightarrow> Collection \<Rightarrow> (error + unit) \<times> Collection" where
  "Collection_update parse docId doc c = afterInit c (Collection_update_body parse docId doc)"

definition Collection_upsert ::
  "(byte list \<Rightarrow> jsval option) \<Rightarrow> string \<Rightarrow> jsval \<Rightarrow> Collection \<Rightarrow> (error + unit) \<times> Collection" where
  "Collection_upsert parse docId doc c = afterInit c (Collection_upsert_body parse docId doc)"

definition Collection_delete ::
  "(byte list \<Rightarrow> jsval option) \<Rightarrow> string \<Rightarrow> Collection \<Rightarrow> (error + bool) \<times> Collection" where
  "Collection_delete parse docId c = afterInit c (Collection_delete_body parse docId)"

definition Collection_get ::
  "(byte list \<Rightarrow> jsval option) \<Rightarrow> string \<Rightarrow> Collection \<Rightarrow> (error + jsval option) \<times> Collection" where
  "Collection_get parse docId c = afterInit c (Collection_get_body parse docId)"

definition Collection_findIds ::
  "(byte list \<Rightarrow> jsval option) \<Rightarrow> (string \<times> jsval) list \<Rightarrow> Collection
     \<Rightarrow> (error + string list) \<times> Collection" where
  "Collection_findIds parse flt c = afterInit c (Collection_findIds_body parse flt)"

definition Collection_count ::
  "(byte list \<Rightarrow> jsval option) \<Rightarrow> (string \<times> jsval) list option \<Rightarrow> Collection
     \<Rightarrow> (error + nat) \<times> Collection" where
  "Collection_count parse flt c = afterInit c (Collection_count_body parse flt)"

definition Collection_batch ::
  "(byte list \<Rightarrow> jsval option) \<Rightarrow> batchOp list \<Rightarrow> Collection \<Rightarrow> (error + unit) \<times> Collection" where
  "Collection_batch parse bs c = afterInit c (Collection_batch_body parse bs)"

definition Collection_insertMany ::
  "(string \<times> jsval) list \<Rightarrow> Collection \<Rightarrow> (error + unit) \<times> Collection" where
  "Collection_insertMany items c = afterInit c (Collection_insertMany_body items)"

definition Collection_compact ::
  "(byte list \<Rightarrow> jsval option) \<Rightarrow> Collection \<Rightarrow> (error + (int \<times> nat \<times> nat)) \<times> Collection" where
  "Collection_compact parse c = afterInit c (Collection_compact_body parse)"

text \<open>The write-path operations of the public interface, and a run of them from a state.\<close>

datatype operation =
    Insert string jsval
  | Update string jsval
  | Upsert string jsval
  | Delete string
  | Batch "batchOp list"
  | InsertMany "(string \<times> jsval) list"

fun applyOperation :: "(byte list \<Rightarrow> jsval option) \<Rightarrow> Collection \<Rightarrow> operation \<Rightarrow> Collection" where
  "applyOperation parse c (Insert docId doc) = snd (Collection_insert docId doc c)"
| "applyOperation parse c (Update docId doc) = snd (Collection_update parse docId doc c)"
| "applyOperation parse c (Upsert docId doc) = snd (Collection_upsert parse docId doc c)"
| "applyOperation parse c (Delete docId) = snd (Collection_delete parse docId c)"
| "applyOperation parse c (Batch bs) = snd (Collection_batch parse bs c)"
| "applyOperation parse c (InsertMany items) = snd (Collection_insertMany items c)"

definition runOperations :: "(byte list \<Rightarrow> jsval option) \<Rightarrow> Collection \<Rightarrow> operation list \<Rightarrow> Collection" where
  "runOperations parse c ops = foldl (applyOperation parse) c ops"

section \<open>The specification's wording, for comparison\<close>

text \<open>
  The required slab as the specification words it: the smallest of the three classes that
  is at least \<open>n + 16\<close>, and beyond the largest class \<open>ceil((n + 16) / 4096) * 4096\<close>.
\<close>

definition requiredSlab_spec :: "nat \<Rightarrow> nat" where
  "requiredSlab_spec n =
     (if \<exists>c \<in> {1024, 8192, 65536}. n + 16 \<le> c
      then Min {c \<in> {1024, 8192, 65536}. n + 16 \<le> c}
      else nat \<lceil>real (n + 16) / 4096\<rceil> * 4096)"

section \<open>Example states\<close>

text \<open>
  The engine after \<open>init\<close> on a fresh path with blob threshold \<open>threshold\<close>: the header
  of an empty file, written once at offset 0.
\<close>

definition newEngine :: "nat \<Rightarrow> StorageEngine" where
  "newEngine threshold =
     updateSharedState (writeHeader
       \<lparr>dataFile = [], header = emptyHeader, freeList = [], batchDepth = 0,
        headerDirty = False, sharedStateDirty = False, blobThreshold = threshold,
        blobFiles = [], sharedView = replicate 16 0, diskWrites = 0, fileExists = True\<rparr>)"

text \<open>
  The two error kinds a failed integrity check of a slot raises: \<open>CorruptedDataError\<close> and
  \<open>ChecksumMismatchError\<close>.
\<close>

fun integrityError :: "error \<Rightarrow> bool" where
  "integrityError (CorruptedDataError _ _) = True"
| "integrityError (ChecksumMismatchError _ _ _) = True"
| "integrityError _ = False"

text \<open>
  The engine after one insert of the empty object under the id \<open>a\<close> into a new file with
  the default blob threshold; the document lies at offset 64 with length 2 in a slab of 1024.
\<close>

definition exampleEngine :: StorageEngine where
  "exampleEngine = snd (writeUnlocked ''a'' (JObj []) (newEngine 1048576))"

text \<open>
  An initialised collection on a new data file: no documents, an empty posting map for
  each of the given indexed paths, and a cache when the cache size \<open>n\<close> is positive.
\<close>

definition newCollection :: "nat \<Rightarrow> nat \<Rightarrow> string list \<Rightarrow> Collection" where
  "newCollection threshold n paths =
     \<lparr>storage = newEngine threshold,
      indexManager = \<lparr>primaryIndex = [], secondaryIndexes = map (\<lambda>p. (p, [])) paths, dirty = False,
                      indexFile = None\<rparr>,
      cacheSize = n,
      cache = (if n > 0 then Some [] else None),
      storageReads = 0,
      initialized = True\<rparr>"

text \<open>
  A collection as its constructor leaves it, on a path that has neither a data file nor
  an index file: nothing is initialised, and the engine has no header yet (the record
  holds zeros there).
\<close>

definition freshEngine :: "nat \<Rightarrow> StorageEngine" where
  "freshEngine threshold =
     \<lparr>dataFile = [],
      header = \<lparr>magic = 0, version = 0, fileSize = 0, liveDataSize = 0, documentCount = 0,
                nextSlotOffset = 0\<rparr>,
      freeList = [], batchDepth = 0, headerDirty = False, sharedStateDirty = False,
      blobThreshold = threshold, blobFiles = [], sharedView = replicate 16 0, diskWrites = 0,
      fileExists = False\<rparr>"

definition freshCollection :: "nat \<Rightarrow> nat \<Rightarrow> Collection" where
  "freshCollection threshold n =
     \<lparr>storage = freshEngine threshold,
      indexManager = \<lparr>primaryIndex = [], secondaryIndexes = [], dirty = False, indexFile = None\<rparr>,
      cacheSize = n,
      cache = (if n > 0 then Some [] else None),
      storageReads = 0,
      initialized = False\<rparr>"

text \<open>
  \<open>JSON.parse\<close> on the one text the examples store: the empty object.
\<close>

definition exampleParse :: "byte list \<Rightarrow> jsval option" where
  "exampleParse bytes = (if bytes = encodeString ''{}'' then Some (JObj []) else None)"

text \<open>
  The collection after one insert of the empty object under the id \<open>a\<close> into a new
  collection with no secondary index and no cache.
\<close>

definition exampleCollection :: Collection where
  "exampleCollection = snd (Collection_insert ''a'' (JObj []) (newCollection 1048576 0 []))"

text \<open>
  The collection after one insert of \<open>{"role": "admin"}\<close> under the id \<open>u1\<close> into a new
  collection with a secondary index on \<open>role\<close> and no cache.
\<close>

definition exampleIndexed :: Collection where
  "exampleIndexed =
     snd (Collection_insert ''u1'' (JObj [(''role'', JStr ''admin'')])
            (newCollection 1048576 0 [''role'']))"

section \<open>Properties stated about runs\<close>

text \<open>
  The header relation between the engine before and after a step: \<open>nextSlotOffset\<close> does
  not decrease, and when \<open>fileSize\<close> was equal to \<open>nextSlotOffset\<close> before, it is equal to it
  afterwards, so that \<open>fileSize\<close> does not decrease either.
\<close>

definition headerGrows :: "StorageEngine \<Rightarrow> StorageEngine \<Rightarrow> bool" where
  "headerGrows st st' =
     (nextSlotOffset (header st) \<le> nextSlotOffset (header st')
      \<and> (if fileSize (header st) = nextSlotOffset (header st)
         then fileSize (header st') = nextSlotOffset (header st')
         else True))"

text \<open>
  The scan of the data file in strides of the \<open>slabSize\<close> each slot header records (the loop
  of \<open>rebuildFreeList\<close>, without the free-list bookkeeping): it succeeds when it arrives at
  \<open>limit\<close> exactly, and fails when a header is cut off, records a slab of 0, or the stride
  passes \<open>limit\<close>.
\<close>

function scanSlots :: "byte list \<Rightarrow> nat \<Rightarrow> nat \<Rightarrow> bool" where
  "scanSlots f off limit =
     (if off = limit then True
      else if limit < off then False
      else
        let headerBuf = fileRead f off SLOT_HEADER_SIZE
        in if length headerBuf < SLOT_HEADER_SIZE then False
           else
             let slabSize = unat (readUint32 headerBuf 8)
             in if slabSize = 0 then False else scanSlots f (off + slabSize) limit)"
  by pat_completeness auto
termination
  by (relation "measure (\<lambda>(f, off, limit). limit - off)") auto

text \<open>
  The slots of a tiling, as pairs of offset and slab size: consecutive from \<open>a\<close> to \<open>b\<close>,
  each slot inside the file with room for its header, and each slab size the one its
  header records.
\<close>

fun tiled :: "byte list \<Rightarrow> (nat \<times> nat) list \<Rightarrow> nat \<Rightarrow> nat \<Rightarrow> bool" where
  "tiled f [] a b = (a = b)"
| "tiled f (s # ss) a b =
     (fst s = a \<and> SLOT_HEADER_SIZE \<le> snd s \<and> a + snd s \<le> length f
      \<and> unat (readUint32 f (a + 8)) = snd s \<and> tiled f ss (a + snd s) b)"

text \<open>
  The slab an operation asks for has a size below \<open>2^32\<close>, the range of the header field:
  the slab of the document when it is stored inline, the slab of its blob reference when
  it exceeds the blob threshold \<open>t\<close>.
\<close>

definition slabsFit :: "nat \<Rightarrow> string \<Rightarrow> jsval \<Rightarrow> bool" where
  "slabsFit t docId doc =
     (if length (encodeDoc doc) > t
      then selectSlabSize (length (encodeRef
             \<lparr>ref_path = docId @ ''.blob'', ref_size = length (encodeDoc doc),
              ref_checksum = crc32 (encodeDoc doc)\<rparr>)) < 2 ^ 32
      else selectSlabSize (length (encodeDoc doc)) < 2 ^ 32)"

fun batchOpFits :: "nat \<Rightarrow> batchOp \<Rightarrow> bool" where
  "batchOpFits t (BatchInsert docId doc) = slabsFit t docId doc"
| "batchOpFits t (BatchUpdate docId doc) = slabsFit t docId doc"
| "batchOpFits t (BatchUpsert docId doc) = slabsFit t docId doc"
| "batchOpFits t (BatchDelete docId) = True"

fun operationFits :: "nat \<Rightarrow> operation \<Rightarrow> bool" where
  "operationFits t (Insert docId doc) = slabsFit t docId doc"
| "operationFits t (Update docId doc) = slabsFit t docId doc"
| "operationFits t (Upsert docId doc) = slabsFit t docId doc"
| "operationFits t (Delete docId) = True"
| "operationFits t (Batch bs) = list_all (batchOpFits t) bs"
| "operationFits t (InsertMany items) = list_all (\<lambda>item. slabsFit t (fst item) (snd item)) items"

text \<open>
  The two exceptions about the presence of an id: \<open>DuplicateIdError\<close> and
  \<open>DocumentNotFoundError\<close>.
\<close>

fun lookupError :: "error \<Rightarrow> bool" where
  "lookupError (DuplicateIdError _) = True"
| "lookupError (DocumentNotFoundError _) = True"
| "lookupError _ = False"

section \<open>Slab classes and first-fit allocation\<close>

lemma first_fit:
  "i < length xs \<Longrightarrow> P (xs ! i) \<Longrightarrow> \<forall>j<i. \<not> P (xs ! j) \<Longrightarrow>
     find P xs = Some (xs ! i) \<and> remove1 (xs ! i) xs = take i xs @ drop (Suc i) xs"
proof (induction xs arbitrary: i)
  case Nil
  then show ?case by simp
next
  case (Cons x xs)
  show ?case
  proof (cases i)
    case 0
    with Cons.prems show ?thesis by simp
  next
    case (Suc k)
    from Cons.prems Suc have k: "k < length xs" "P (xs ! k)" "\<forall>j<k. \<not> P (xs ! j)"
      by auto
    from Cons.prems Suc have nx: "\<not> P x" by auto
    with k have "x \<noteq> xs ! k" by auto
    with Cons.IH[OF k] nx Suc show ?thesis by simp
  qed
qed

lemma selectSlabSize_spec: "selectSlabSize n = requiredSlab_spec n"
proof -
  have ceil: "nat \<lceil>real (n + 16) / 4096\<rceil> = (n + 16 + 4095) div 4096"
  proof -
    have "\<lceil>real (n + 16) / 4096\<rceil> = \<lceil>real_of_int (int (n + 16)) / real_of_int 4096\<rceil>" by simp
    also have "\<dots> = - (- int (n + 16) div 4096)"
      unfolding ceiling_divide_eq_div by simp
    also have "\<dots> = int ((n + 16 + 4095) div 4096)"
      by (simp add: zdiv_int)
    finally show ?thesis by simp
  qed
  consider "n + 16 \<le> 1024" | "1024 < n + 16" "n + 16 \<le> 8192" | "8192 < n + 16" "n + 16 \<le> 65536"
    | "65536 < n + 16" by linarith
  then show ?thesis
  proof cases
    case 1
    then have "{c \<in> {1024, 8192, 65536}. n + 16 \<le> c} = {1024, 8192, 65536}" by auto
    with 1 show ?thesis
      by (simp add: selectSlabSize_def requiredSlab_spec_def SLOT_HEADER_SIZE_def SLAB_TINY_def)
  next
    case 2
    then have "{c \<in> {1024, 8192, 65536}. n + 16 \<le> c} = {8192, 65536}" by auto
    with 2 show ?thesis
      by (simp add: selectSlabSize_def requiredSlab_spec_def SLOT_HEADER_SIZE_def SLAB_TINY_def
          SLAB_SMALL_def)
  next
    case 3
    then have "{c \<in> {1024, 8192, 65536}. n + 16 \<le> c} = {65536}" by auto
    with 3 show ?thesis
      by (simp add: selectSlabSize_def requiredSlab_spec_def SLOT_HEADER_SIZE_def SLAB_TINY_def
          SLAB_SMALL_def SLAB_MEDIUM_def)
  next
    case 4
    then have "requiredSlab_spec n = ((n + 16 + 4095) div 4096) * 4096"
      unfolding requiredSlab_spec_def ceil by simp
    with 4 show ?thesis
      by (simp add: selectSlabSize_def SLOT_HEADER_SIZE_def SLAB_TINY_def SLAB_SMALL_def
          SLAB_MEDIUM_def SLAB_ALIGNMENT_def)
  qed
qed



lemma header_newEngine: "header (newEngine t) = emptyHeader"
  by (simp add: newEngine_def updateSharedState_def writeHeader_def writeAtOffset_def)

text \<open>
  Claim C6. The required slab of a payload of \<open>n\<close> bytes is the one the specification
  words (\<open>requiredSlab_spec\<close>). \<open>allocateSlot\<close> is first fit: when entry \<open>i\<close> of the free
  list is the first whose slab is at least the required size, the allocation is that entry's
  offset with that entry's own slab size, marked reused, and exactly entry \<open>i\<close> leaves the
  free list; when no entry is large enough the allocation is at \<open>nextSlotOffset\<close> with
  exactly the required size, not reused, and the engine is unchanged.
\<close>

theorem C6_slab_class_and_first_fit:
  "selectSlabSize n = requiredSlab_spec n \<and>
   (\<forall>i. i < length (freeList st) \<and> selectSlabSize n \<le> free_slabSize (freeList st ! i)
        \<and> (\<forall>j<i. free_slabSize (freeList st ! j) < selectSlabSize n) \<longrightarrow>
      allocateSlot n st =
        (\<lparr>alloc_offset = free_offset (freeList st ! i),
          alloc_slabSize = free_slabSize (freeList st ! i), alloc_isReused = True\<rparr>,
         st\<lparr>freeList := take i (freeList st) @ drop (Suc i) (freeList st)\<rparr>)) \<and>
   ((\<forall>f \<in> set (freeList st). free_slabSize f < selectSlabSize n) \<longrightarrow>
      allocateSlot n st =
        (\<lparr>alloc_offset = nextSlotOffset (header st), alloc_slabSize = selectSlabSize n,
          alloc_isReused = False\<rparr>, st))"
proof (intro conjI allI impI)
  show "selectSlabSize n = requiredSlab_spec n" by (rule selectSlabSize_spec)
next
  fix i
  assume a: "i < length (freeList st) \<and> selectSlabSize n \<le> free_slabSize (freeList st ! i)
        \<and> (\<forall>j<i. free_slabSize (freeList st ! j) < selectSlabSize n)"
  then have "\<forall>j<i. \<not> selectSlabSize n \<le> free_slabSize (freeList st ! j)" by (simp add: not_le)
  with a have "find (\<lambda>f. selectSlabSize n \<le> free_slabSize f) (freeList st) = Some (freeList st ! i)
     \<and> remove1 (freeList st ! i) (freeList st) = take i (freeList st) @ drop (Suc i) (freeList st)"
    by (intro first_fit) auto
  then show "allocateSlot n st =
        (\<lparr>alloc_offset = free_offset (freeList st ! i),
          alloc_slabSize = free_slabSize (freeList st ! i), alloc_isReused = True\<rparr>,
         st\<lparr>freeList := take i (freeList st) @ drop (Suc i) (freeList st)\<rparr>)"
    by (simp add: allocateSlot_def)
next
  assume "\<forall>f \<in> set (freeList st). free_slabSize f < selectSlabSize n"
  then have "find (\<lambda>f. selectSlabSize n \<le> free_slabSize f) (freeList st) = None"
    by (auto simp: find_None_iff not_le)
  then show "allocateSlot n st =
        (\<lparr>alloc_offset = nextSlotOffset (header st), alloc_slabSize = selectSlabSize n,
          alloc_isReused = False\<rparr>, st)"
    by (simp add: allocateSlot_def)
qed

theorem C6_witness:
  "selectSlabSize 2000 = 8192 \<and>
   allocateSlot 2000
     ((newEngine 1048576)\<lparr>freeList := [\<lparr>free_offset = 64, free_slabSize = 1024\<rparr>,
                                      \<lparr>free_offset = 1088, free_slabSize = 8192\<rparr>]\<rparr>) =
     (\<lparr>alloc_offset = 1088, alloc_slabSize = 8192, alloc_isReused = True\<rparr>,
      (newEngine 1048576)\<lparr>freeList := [\<lparr>free_offset = 64, free_slabSize = 1024\<rparr>]\<rparr>) \<and>
   allocateSlot 100000
     ((newEngine 1048576)\<lparr>freeList := [\<lparr>free_offset = 64, free_slabSize = 1024\<rparr>,
                                      \<lparr>free_offset = 1088, free_slabSize = 8192\<rparr>]\<rparr>) =
     (\<lparr>alloc_offset = 64, alloc_slabSize = 102400, alloc_isReused = False\<rparr>,
      (newEngine 1048576)\<lparr>freeList := [\<lparr>free_offset = 64, free_slabSize = 1024\<rparr>,
                                       \<lparr>free_offset = 1088, free_slabSize = 8192\<rparr>]\<rparr>)"
proof -
  let ?st = "(newEngine 1048576)\<lparr>freeList := [\<lparr>free_offset = 64, free_slabSize = 1024\<rparr>,
                                      \<lparr>free_offset = 1088, free_slabSize = 8192\<rparr>]\<rparr>"
  have s1: "selectSlabSize 2000 = 8192" and s2: "selectSlabSize 100000 = 102400"
    by (simp_all add: selectSlabSize_def SLOT_HEADER_SIZE_def SLAB_TINY_def SLAB_SMALL_def
        SLAB_MEDIUM_def SLAB_ALIGNMENT_def)
  from C6_slab_class_and_first_fit[of 2000 ?st, THEN conjunct2, THEN conjunct1, rule_format, of 1]
  have a: "allocateSlot 2000 ?st =
     (\<lparr>alloc_offset = 1088, alloc_slabSize = 8192, alloc_isReused = True\<rparr>,
      (newEngine 1048576)\<lparr>freeList := [\<lparr>free_offset = 64, free_slabSize = 1024\<rparr>]\<rparr>)"
    by (simp add: s1)
  from C6_slab_class_and_first_fit[of 100000 ?st, THEN conjunct2, THEN conjunct2]
  have b: "allocateSlot 100000 ?st =
     (\<lparr>alloc_offset = 64, alloc_slabSize = 102400, alloc_isReused = False\<rparr>, ?st)"
    by (auto simp add: s2 header_newEngine emptyHeader_def DATA_HEADER_SIZE_def)
  from s1 a b show ?thesis by simp
qed

section \<open>Little-endian fields and CRC-32\<close>

lemma bytes4_word:
  fixes w :: u32
  shows "(ucast (ucast w :: byte) OR push_bit 8 (ucast (ucast (drop_bit 8 w) :: byte))
       OR push_bit 16 (ucast (ucast (drop_bit 16 w) :: byte))
       OR push_bit 24 (ucast (ucast (drop_bit 24 w) :: byte)) :: u32) = w" (is "?L = w")
proof (rule bit_word_eqI)
  fix n :: nat
  assume n: "n < LENGTH(32)"
  consider "n < 8" | "8 \<le> n" "n < 16" | "16 \<le> n" "n < 24" | "24 \<le> n" "n < 32"
    using n by fastforce
  then show "bit ?L n = bit w n"
    by cases (auto simp add: bit_simps)
qed

lemma word_bytes4:
  fixes a b c d :: byte
  defines "w \<equiv> (ucast a OR push_bit 8 (ucast b) OR push_bit 16 (ucast c) OR push_bit 24 (ucast d) :: u32)"
  shows "ucast w = a" "ucast (drop_bit 8 w) = b" "ucast (drop_bit 16 w) = c" "ucast (drop_bit 24 w) = d"
  unfolding w_def
  by (rule bit_word_eqI; auto simp add: bit_simps dest: bit_imp_le_length)+

lemma le32_word4:
  fixes a b c d :: byte
  shows "le32 (ucast a OR push_bit 8 (ucast b) OR push_bit 16 (ucast c) OR push_bit 24 (ucast d))
           = [a, b, c, d]"
  unfolding le32_def using word_bytes4[of a b c d] by simp

lemma le32_readUint32:
  "off + 4 \<le> length buf \<Longrightarrow> le32 (readUint32 buf off) = take 4 (drop off buf)"
proof -
  assume a: "off + 4 \<le> length buf"
  have "take 4 (drop off buf) = [buf ! off, buf ! (off + 1), buf ! (off + 2), buf ! (off + 3)]"
    using a by (auto simp add: list_eq_iff_nth_eq nth_Cons' less_Suc_eq numeral_eq_Suc)
  moreover have "le32 (readUint32 buf off)
      = [buf ! off, buf ! (off + 1), buf ! (off + 2), buf ! (off + 3)]"
    unfolding readUint32_def by (rule le32_word4)
  ultimately show ?thesis by simp
qed

lemma readUint32_le32: "readUint32 (pre @ le32 w @ post) (length pre) = w"
  by (simp add: readUint32_def le32_def nth_append bytes4_word)

lemma and1: "(c::u32) AND 1 \<noteq> 0 \<longleftrightarrow> bit c 0"
  by (simp add: and_one_eq bit_0 mod_2_eq_odd)

lemma crc_round_xor: "crc_round (a XOR b) = crc_round a XOR crc_round b"
proof -
  have d: "drop_bit 1 (a XOR b) = drop_bit 1 a XOR drop_bit 1 b"
    by (rule bit_word_eqI) (simp add: bit_simps)
  show ?thesis
    unfolding crc_round_def and1 d
    by (simp add: bit_xor_iff xor.assoc xor.commute xor.left_commute)
qed

lemma crc_round_top: "bit (crc_round c) 31 = bit c 0"
  unfolding crc_round_def and1
  by (auto simp add: bit_simps dest: bit_imp_le_length)

lemma crc_round_even: "\<not> bit c 0 \<Longrightarrow> crc_round c = drop_bit 1 c"
  unfolding crc_round_def and1 by simp

lemma crc_rounds_xor: "(crc_round ^^ k) (a XOR b) = (crc_round ^^ k) a XOR (crc_round ^^ k) b"
  by (induction k) (simp_all add: crc_round_xor)

lemma crc_rounds_kernel:
  "k \<le> 32 \<Longrightarrow> drop_bit (32 - k) ((crc_round ^^ k) c) = 0 \<Longrightarrow>
     (crc_round ^^ k) c = drop_bit k c \<and> take_bit k c = 0"
proof (induction k)
  case 0
  then show ?case by simp
next
  case (Suc k)
  let ?v = "(crc_round ^^ k) c"
  from Suc.prems have z: "drop_bit (31 - k) (crc_round ?v) = 0" and k: "k \<le> 31" by simp_all
  have "bit (drop_bit (31 - k) (crc_round ?v)) k = bit (crc_round ?v) 31"
    using k by (simp add: bit_drop_bit_eq)
  with z have "\<not> bit (crc_round ?v) 31" by simp
  then have b0: "\<not> bit ?v 0" by (simp add: crc_round_top)
  then have r: "crc_round ?v = drop_bit 1 ?v" by (rule crc_round_even)
  from z r have "drop_bit (31 - k) (drop_bit 1 ?v) = 0" by simp
  then have "drop_bit (31 - k + 1) ?v = 0" by (simp only: drop_bit_drop_bit)
  moreover have "31 - k + 1 = 32 - k" using k by simp
  ultimately have "drop_bit (32 - k) ?v = 0" by simp
  with Suc.IH k have ih: "?v = drop_bit k c" "take_bit k c = 0" by simp_all
  have a: "(crc_round ^^ Suc k) c = drop_bit (Suc k) c"
    using r ih(1) by simp
  have "take_bit (Suc k) c = 0"
  proof (rule bit_word_eqI)
    fix n assume "n < LENGTH(32)"
    show "bit (take_bit (Suc k) c) n = bit (0::u32) n"
    proof (cases "n < k")
      case True
      from ih(2) have "bit (take_bit k c) n = False" by simp
      with True show ?thesis by (simp add: bit_take_bit_iff)
    next
      case False
      from b0 ih(1) have "\<not> bit c k" by (simp add: bit_drop_bit_eq)
      with False show ?thesis by (auto simp add: bit_take_bit_iff less_Suc_eq)
    qed
  qed
  with a show ?case by simp
qed

lemma ucast_xor_byte: "(ucast (i XOR j :: byte) :: u32) = ucast i XOR ucast j"
  by (rule bit_word_eqI) (auto simp add: bit_simps)

lemma CRC32_TABLE_xor: "CRC32_TABLE (i XOR j) = CRC32_TABLE i XOR CRC32_TABLE j"
  by (simp add: CRC32_TABLE_def ucast_xor_byte crc_rounds_xor)

lemma CRC32_TABLE_top: "drop_bit 24 (CRC32_TABLE i) = 0 \<Longrightarrow> i = 0"
proof -
  assume "drop_bit 24 (CRC32_TABLE i) = 0"
  then have "drop_bit (32 - 8) ((crc_round ^^ 8) (ucast i :: u32)) = 0"
    by (simp add: CRC32_TABLE_def)
  then have t: "take_bit 8 (ucast i :: u32) = 0"
    using crc_rounds_kernel[of 8 "ucast i"] by simp
  show "i = 0"
  proof (rule bit_word_eqI)
    fix n assume n: "n < LENGTH(8)"
    from t have "bit (take_bit 8 (ucast i :: u32)) n = False" by simp
    with n show "bit i n = bit (0::byte) n"
      by (simp add: bit_take_bit_iff bit_ucast_iff)
  qed
qed

lemma CRC32_TABLE_top_inj:
  "drop_bit 24 (CRC32_TABLE i) = drop_bit 24 (CRC32_TABLE j) \<Longrightarrow> i = j"
proof -
  assume a: "drop_bit 24 (CRC32_TABLE i) = drop_bit 24 (CRC32_TABLE j)"
  have "drop_bit 24 (CRC32_TABLE (i XOR j)) = drop_bit 24 (CRC32_TABLE i) XOR drop_bit 24 (CRC32_TABLE j)"
    unfolding CRC32_TABLE_xor by (rule bit_word_eqI) (simp add: bit_simps)
  with a have "drop_bit 24 (CRC32_TABLE (i XOR j)) = 0" by simp
  then have "i XOR j = 0" by (rule CRC32_TABLE_top)
  moreover have "i = (i XOR j) XOR j" by (simp add: xor.assoc)
  ultimately show "i = j" by simp
qed


lemma crc_index: "(ucast ((crc XOR ucast b) AND 0xff :: u32) :: byte) = ucast crc XOR b"
proof (rule bit_word_eqI)
  fix n assume n: "n < LENGTH(8)"
  have m: "(0xff :: u32) = mask 8" by (simp add: mask_eq_exp_minus_1)
  show "bit (ucast ((crc XOR ucast b) AND 0xff :: u32) :: byte) n = bit (ucast crc XOR b) n"
    unfolding m using n by (auto simp add: bit_simps)
qed

lemma crc_step_alt: "crc_step crc b = CRC32_TABLE (ucast crc XOR b) XOR drop_bit 8 crc"
  by (simp add: crc_step_def crc_index)

lemma crc_step_top: "drop_bit 24 (crc_step crc b) = drop_bit 24 (CRC32_TABLE (ucast crc XOR b))"
  unfolding crc_step_alt
  by (rule bit_word_eqI) (auto simp add: bit_simps dest: bit_imp_le_length)

lemma xor_cancel_right: "(a :: 'a :: len word) XOR c = b XOR c \<Longrightarrow> a = b"
proof -
  assume "a XOR c = b XOR c"
  then have "(a XOR c) XOR c = (b XOR c) XOR c" by simp
  then show "a = b" by (simp add: xor.assoc)
qed

lemma crc_step_inj_byte: "crc_step crc b1 = crc_step crc b2 \<Longrightarrow> b1 = b2"
proof -
  assume a: "crc_step crc b1 = crc_step crc b2"
  then have "drop_bit 24 (crc_step crc b1) = drop_bit 24 (crc_step crc b2)" by simp
  then have "ucast crc XOR b1 = ucast crc XOR b2"
    unfolding crc_step_top by (rule CRC32_TABLE_top_inj)
  then have "b1 XOR ucast crc = b2 XOR ucast crc" by (simp add: xor.commute)
  then show ?thesis by (rule xor_cancel_right)
qed

lemma crc_step_inj_crc: "crc_step c1 b = crc_step c2 b \<Longrightarrow> c1 = c2"
proof -
  assume a: "crc_step c1 b = crc_step c2 b"
  then have "drop_bit 24 (crc_step c1 b) = drop_bit 24 (crc_step c2 b)" by simp
  then have i: "(ucast c1 :: byte) XOR b = ucast c2 XOR b"
    unfolding crc_step_top by (rule CRC32_TABLE_top_inj)
  then have lo: "(ucast c1 :: byte) = ucast c2" by (rule xor_cancel_right)
  from a i have "CRC32_TABLE (ucast c2 XOR b) XOR drop_bit 8 c1
               = CRC32_TABLE (ucast c2 XOR b) XOR drop_bit 8 c2"
    by (simp add: crc_step_alt)
  then have "drop_bit 8 c1 XOR CRC32_TABLE (ucast c2 XOR b)
           = drop_bit 8 c2 XOR CRC32_TABLE (ucast c2 XOR b)"
    by (simp add: xor.commute)
  then have hi: "drop_bit 8 c1 = drop_bit 8 c2" by (rule xor_cancel_right)
  show "c1 = c2"
  proof (rule bit_word_eqI)
    fix n assume n: "n < LENGTH(32)"
    show "bit c1 n = bit c2 n"
    proof (cases "n < 8")
      case True
      have "bit (ucast c1 :: byte) n = bit (ucast c2 :: byte) n" using lo by simp
      with True show ?thesis by (simp add: bit_ucast_iff)
    next
      case False
      have "bit (drop_bit 8 c1) (n - 8) = bit (drop_bit 8 c2) (n - 8)" using hi by simp
      with False show ?thesis by (simp add: bit_drop_bit_eq)
    qed
  qed
qed

lemma foldl_crc_step_inj:
  "foldl crc_step c1 xs = foldl crc_step c2 xs \<Longrightarrow> c1 = c2"
proof (induction xs arbitrary: c1 c2)
  case Nil
  then show ?case by simp
next
  case (Cons x xs)
  then have "crc_step c1 x = crc_step c2 x" by simp
  then show ?case by (rule crc_step_inj_crc)
qed

lemma crc32_detects_byte_change:
  assumes "i < length xs" and "v \<noteq> xs ! i"
  shows "crc32 (xs[i := v]) \<noteq> crc32 xs"
proof
  assume e: "crc32 (xs[i := v]) = crc32 xs"
  let ?c = "foldl crc_step 0xffffffff (take i xs)"
  have x: "xs = take i xs @ xs ! i # drop (Suc i) xs"
    using assms(1) by (simp add: id_take_nth_drop[symmetric])
  have u: "xs[i := v] = take i xs @ v # drop (Suc i) xs"
    using assms(1) by (simp add: upd_conv_take_nth_drop)
  from e have "foldl crc_step 0xffffffff (xs[i := v]) = foldl crc_step 0xffffffff xs"
    unfolding crc32_def by (rule xor_cancel_right)
  then have "foldl crc_step 0xffffffff (take i xs @ v # drop (Suc i) xs)
           = foldl crc_step 0xffffffff (take i xs @ xs ! i # drop (Suc i) xs)"
    using x u by simp
  then have "foldl crc_step (crc_step ?c v) (drop (Suc i) xs)
           = foldl crc_step (crc_step ?c (xs ! i)) (drop (Suc i) xs)"
    by simp
  then have "crc_step ?c v = crc_step ?c (xs ! i)" by (rule foldl_crc_step_inj)
  then have "v = xs ! i" by (rule crc_step_inj_byte)
  with assms(2) show False by simp
qed

section \<open>Reading and writing slots\<close>

lemma length_le32 [simp]: "length (le32 w) = 4"
  by (simp add: le32_def)

lemma length_le64 [simp]: "length (le64 w) = 8"
  by (simp add: le64_def)

lemma length_headerBytes [simp]: "length (headerBytes h) = 64"
  by (simp add: headerBytes_def)

lemma length_slotBuffer:
  "SLOT_HEADER_SIZE + length d \<le> s \<Longrightarrow> length (slotBuffer d s b) = s"
  by (simp add: slotBuffer_def SLOT_HEADER_SIZE_def)

lemma length_fileRead: "length (fileRead f pos n) = min n (length f - pos)"
  by (simp add: fileRead_def)


lemma drop_fileWrite_after:
  "p + length d \<le> q \<Longrightarrow> drop q (fileWrite f p d) = drop q f"
  by (auto simp add: fileWrite_def min_def)

lemma fileRead_fileWrite_after:
  "p + length d \<le> q \<Longrightarrow> fileRead (fileWrite f p d) q n = fileRead f q n"
  by (simp add: fileRead_def drop_fileWrite_after)

lemma fileRead_fileWrite_same:
  "n \<le> length d \<Longrightarrow> fileRead (fileWrite f p d) p n = take n d"
  by (auto simp add: fileRead_def fileWrite_def)



lemma readUint32_slotBuffer:
  "readUint32 (slotBuffer d s b) 0 = slotFlags b"
  "readUint32 (slotBuffer d s b) 4 = of_nat (length d)"
  "readUint32 (slotBuffer d s b) 8 = of_nat s"
  "readUint32 (slotBuffer d s b) 12 = crc32 d"
proof -
  let ?r = "d @ replicate (s - SLOT_HEADER_SIZE - length d) 0"
  show "readUint32 (slotBuffer d s b) 0 = slotFlags b"
    using readUint32_le32[of "[]" "slotFlags b"] by (simp add: slotBuffer_def)
  show "readUint32 (slotBuffer d s b) 4 = of_nat (length d)"
    using readUint32_le32[of "le32 (slotFlags b)" "of_nat (length d)"
        "le32 (of_nat s) @ le32 (crc32 d) @ ?r"]
    by (simp add: slotBuffer_def)
  show "readUint32 (slotBuffer d s b) 8 = of_nat s"
    using readUint32_le32[of "le32 (slotFlags b) @ le32 (of_nat (length d))" "of_nat s"
        "le32 (crc32 d) @ ?r"]
    by (simp add: slotBuffer_def)
  show "readUint32 (slotBuffer d s b) 12 = crc32 d"
    using readUint32_le32[of "le32 (slotFlags b) @ le32 (of_nat (length d)) @ le32 (of_nat s)" "crc32 d" ?r]
    by (simp add: slotBuffer_def)
qed

lemma readUint32_take:
  "off + 4 \<le> n \<Longrightarrow> readUint32 (take n xs) off = readUint32 xs off"
  by (simp add: readUint32_def)

lemma slotFlags_active: "slotFlags b AND FLAG_ACTIVE \<noteq> 0"
  by (simp add: slotFlags_def FLAG_ACTIVE_def FLAG_BLOB_def)

lemma readSlot_slotBuffer:
  assumes "length d < 2 ^ 32" and "SLOT_HEADER_SIZE + length d \<le> s"
    and "fileRead (dataFile st) off (SLOT_HEADER_SIZE + length d)
           = take (SLOT_HEADER_SIZE + length d) (slotBuffer d s b)"
  shows "readSlot off (length d) st = Inr d"
proof -
  let ?sb = "take (SLOT_HEADER_SIZE + length d) (slotBuffer d s b)"
  have l: "length ?sb = SLOT_HEADER_SIZE + length d"
    using assms(2) by (simp add: length_slotBuffer)
  have u: "unat (of_nat (length d) :: u32) = length d"
    using assms(1) by (simp add: unat_of_nat)
  have dd: "take (length d) (drop SLOT_HEADER_SIZE ?sb) = d"
    by (simp add: slotBuffer_def SLOT_HEADER_SIZE_def drop_take)
  show ?thesis
    unfolding readSlot_def assms(3) Let_def
    using l u dd slotFlags_active[of b]
    by (simp add: readUint32_take readUint32_slotBuffer SLOT_HEADER_SIZE_def)
qed


lemma readUint32_update_other:
  "i < off \<or> off + 4 \<le> i \<Longrightarrow> readUint32 (xs[i := v]) off = readUint32 xs off"
  by (auto simp add: readUint32_def)

lemma fileRead_update:
  "fileRead (f[off + i := v]) off n = (fileRead f off n)[i := v]"
  by (simp add: fileRead_def drop_update_swap take_update_swap)

lemma readUint32_neq_update:
  assumes "off + 4 \<le> length xs" and "off \<le> i" and "i < off + 4" and "v \<noteq> xs ! i"
  shows "readUint32 (xs[i := v]) off \<noteq> readUint32 xs off"
proof
  assume "readUint32 (xs[i := v]) off = readUint32 xs off"
  then have "le32 (readUint32 (xs[i := v]) off) = le32 (readUint32 xs off)" by simp
  then have "take 4 (drop off (xs[i := v])) = take 4 (drop off xs)"
    using assms(1) by (simp add: le32_readUint32)
  then have "take 4 (drop off (xs[i := v])) ! (i - off) = take 4 (drop off xs) ! (i - off)"
    by simp
  then have "v = xs ! i" using assms by simp
  with assms(4) show False by simp
qed

text \<open>
  Claim C1, as the code has it. Take a location whose slot reads back (\<open>readSlot\<close> returns
  the payload). Replacing one byte of the slot by a different value makes the next
  \<open>readSlot\<close> of that location fail with \<open>CorruptedDataError\<close> or \<open>ChecksumMismatchError\<close>
  when the byte is a payload byte (\<open>16 \<le> i\<close>), a byte of the \<open>dataLength\<close> field
  (\<open>4 \<le> i < 8\<close>) or of the checksum field (\<open>12 \<le> i < 16\<close>), or when it is the first byte
  of the flags and the new value has the ACTIVE bit clear. The other header bytes (the upper
  three of the flags and the \<open>slabSize\<close> field) are not looked at by \<open>readSlot\<close>.
\<close>

theorem C1_checked_bytes_detected:
  assumes ok: "readSlot off len st = Inr d"
    and i: "i < SLOT_HEADER_SIZE + len"
    and v: "v \<noteq> dataFile st ! (off + i)"
    and pos: "(i = 0 \<and> \<not> bit v 0) \<or> (4 \<le> i \<and> i < 8) \<or> 12 \<le> i"
  shows "\<exists>e. readSlot off len (st\<lparr>dataFile := (dataFile st)[off + i := v]\<rparr>) = Inl e
             \<and> integrityError e"
proof -
  let ?sb = "fileRead (dataFile st) off (SLOT_HEADER_SIZE + len)"
  let ?sb' = "?sb[i := v]"
  have l: "length ?sb = SLOT_HEADER_SIZE + len"
    using ok by (auto simp add: readSlot_def Let_def length_fileRead split: if_splits)
  have act: "readUint32 ?sb 0 AND FLAG_ACTIVE \<noteq> 0"
    and dl: "unat (readUint32 ?sb 4) = len"
    and ck: "crc32 (take len (drop SLOT_HEADER_SIZE ?sb)) = readUint32 ?sb 12"
    using ok by (auto simp add: readSlot_def Let_def split: if_splits)
  have nth: "?sb ! i = dataFile st ! (off + i)"
    using i l by (simp add: fileRead_def)
  with v have v': "v \<noteq> ?sb ! i" by simp
  have rs: "readSlot off len (st\<lparr>dataFile := (dataFile st)[off + i := v]\<rparr>)
      = (if readUint32 ?sb' 0 AND FLAG_ACTIVE = 0 then Inl (CorruptedDataError SlotNotActive off)
         else if unat (readUint32 ?sb' 4) \<noteq> len
           then Inl (CorruptedDataError (DataLengthMismatch len (unat (readUint32 ?sb' 4))) off)
         else if crc32 (take len (drop SLOT_HEADER_SIZE ?sb')) \<noteq> readUint32 ?sb' 12
           then Inl (ChecksumMismatchError (readUint32 ?sb' 12)
                       (crc32 (take len (drop SLOT_HEADER_SIZE ?sb'))) (Some off))
         else Inr (take len (drop SLOT_HEADER_SIZE ?sb')))"
    using l by (simp add: readSlot_def Let_def fileRead_update)
  from pos consider (flags) "i = 0" "\<not> bit v 0" | (len) "4 \<le> i" "i < 8" | (sum) "12 \<le> i" "i < 16"
    | (payload) "16 \<le> i" by linarith
  then show ?thesis
  proof cases
    case flags
    have "\<not> bit (readUint32 ?sb' 0) 0"
      using flags l by (simp add: readUint32_def bit_simps SLOT_HEADER_SIZE_def)
    then have "readUint32 ?sb' 0 AND FLAG_ACTIVE = 0"
      using and1[of "readUint32 ?sb' 0"] by (simp add: FLAG_ACTIVE_def)
    then show ?thesis unfolding rs by simp
  next
    case len
    have f: "readUint32 ?sb' 0 = readUint32 ?sb 0"
      using len by (simp add: readUint32_update_other)
    have "readUint32 ?sb' 4 \<noteq> readUint32 ?sb 4"
      using len l v' by (intro readUint32_neq_update) (simp_all add: SLOT_HEADER_SIZE_def)
    then have "unat (readUint32 ?sb' 4) \<noteq> len"
      using dl by (auto simp add: word_unat_eq_iff)
    then show ?thesis unfolding rs using f act by simp
  next
    case sum
    have f: "readUint32 ?sb' 0 = readUint32 ?sb 0" "readUint32 ?sb' 4 = readUint32 ?sb 4"
      using sum by (simp_all add: readUint32_update_other)
    have n: "readUint32 ?sb' 12 \<noteq> readUint32 ?sb 12"
      using sum l v' by (intro readUint32_neq_update) (simp_all add: SLOT_HEADER_SIZE_def)
    have dd: "drop SLOT_HEADER_SIZE ?sb' = drop SLOT_HEADER_SIZE ?sb"
      using sum by (simp add: SLOT_HEADER_SIZE_def)
    show ?thesis unfolding rs using f act dl n ck dd by simp
  next
    case payload
    have f: "readUint32 ?sb' 0 = readUint32 ?sb 0" "readUint32 ?sb' 4 = readUint32 ?sb 4"
      "readUint32 ?sb' 12 = readUint32 ?sb 12"
      using payload by (simp_all add: readUint32_update_other)
    let ?d = "take len (drop SLOT_HEADER_SIZE ?sb)"
    have dd: "take len (drop SLOT_HEADER_SIZE ?sb') = ?d[i - 16 := v]"
      using payload by (simp add: SLOT_HEADER_SIZE_def drop_update_swap take_update_swap)
    have "crc32 (?d[i - 16 := v]) \<noteq> crc32 ?d"
    proof (rule crc32_detects_byte_change)
      show "i - 16 < length ?d" using payload i l by (simp add: SLOT_HEADER_SIZE_def)
      show "v \<noteq> ?d ! (i - 16)" using payload i l v' by (simp add: SLOT_HEADER_SIZE_def)
    qed
    then show ?thesis unfolding rs dd using f act dl ck by simp
  qed
qed

lemma newEngine_fields:
  "header (newEngine t) = emptyHeader"
  "freeList (newEngine t) = []"
  "blobThreshold (newEngine t) = t"
  "batchDepth (newEngine t) = 0"
  "dataFile (newEngine t) = headerBytes emptyHeader"
  by (simp_all add: newEngine_def updateSharedState_def writeHeader_def writeAtOffset_def
      fileWrite_def)


lemma dataFile_simps:
  "dataFile (addLiveData x st) = dataFile st"
  "dataFile (addDocumentCount y st) = dataFile st"
  "dataFile (advanceIfNew a st) = dataFile st"
  "dataFile (markMetadataDirty st) = dataFile st"
  "dataFile (addFreeSlot l st) = dataFile st"
  "dataFile (updateSharedState st) = dataFile st"
  "dataFile (deleteBlob p st) = dataFile st"
  "dataFile (writeAtOffset off d st) = fileWrite (dataFile st) off d"
  by (simp_all add: addLiveData_def addDocumentCount_def advanceIfNew_def markMetadataDirty_def
      addFreeSlot_def updateSharedState_def deleteBlob_def writeAtOffset_def)

lemma fileRead_flushMetadata:
  "DATA_HEADER_SIZE \<le> q \<Longrightarrow> fileRead (dataFile (flushMetadata st)) q n = fileRead (dataFile st) q n"
  by (simp add: flushMetadata_def Let_def dataFile_simps writeHeader_def fileRead_fileWrite_after
      DATA_HEADER_SIZE_def)

lemma fileRead_flushIfNotBatching:
  "DATA_HEADER_SIZE \<le> q \<Longrightarrow>
     fileRead (dataFile (flushIfNotBatching st)) q n = fileRead (dataFile st) q n"
  by (simp add: flushIfNotBatching_def fileRead_flushMetadata)

lemma readSlot_ignores_slabSize:
  assumes "8 \<le> i" and "i < 12"
  shows "readSlot off len (st\<lparr>dataFile := (dataFile st)[off + i := v]\<rparr>) = readSlot off len st"
  using assms
  by (simp add: readSlot_def Let_def fileRead_update readUint32_update_other SLOT_HEADER_SIZE_def)

lemma encodeDoc_empty_object: "encodeDoc (JObj []) = encodeString ''{}''"
  by (simp add: encodeDoc_def)

lemma selectSlabSize_small: "n + 16 \<le> 1024 \<Longrightarrow> selectSlabSize n = 1024"
  by (simp add: selectSlabSize_def SLOT_HEADER_SIZE_def SLAB_TINY_def)

lemma example_location:
  "fst (writeUnlocked ''a'' (JObj []) (newEngine 1048576))
     = Inr \<lparr>loc_offset = 64, loc_length = 2, loc_slabSize = 1024, loc_isBlob = False\<rparr>"
  by (simp add: writeUnlocked_def encodeDoc_empty_object encodeString_def newEngine_fields
      allocateSlot_def selectSlabSize_small writeSlot_def SLOT_HEADER_SIZE_def emptyHeader_def
      DATA_HEADER_SIZE_def Let_def)

lemma slotBuffer_nonempty: "slotBuffer d s b \<noteq> []"
  by (simp add: slotBuffer_def le32_def)

lemma example_file:
  "fileRead (dataFile exampleEngine) 64 n
     = take n (slotBuffer (encodeString ''{}'') 1024 False)"
proof -
  have "dataFile exampleEngine
      = dataFile (flushIfNotBatching (markMetadataDirty (addLiveData 2 (addDocumentCount 1
          (advanceIfNew \<lparr>alloc_offset = 64, alloc_slabSize = 1024, alloc_isReused = False\<rparr>
            (writeAtOffset 64 (slotBuffer (encodeString ''{}'') 1024 False)
               (newEngine 1048576)))))))"
    by (simp add: exampleEngine_def writeUnlocked_def encodeDoc_empty_object encodeString_def
        newEngine_fields allocateSlot_def selectSlabSize_small writeSlot_def SLOT_HEADER_SIZE_def
        emptyHeader_def DATA_HEADER_SIZE_def Let_def)
  then have "fileRead (dataFile exampleEngine) 64 n
      = fileRead (fileWrite (headerBytes emptyHeader) 64
           (slotBuffer (encodeString ''{}'') 1024 False)) 64 n"
    by (simp add: fileRead_flushIfNotBatching DATA_HEADER_SIZE_def dataFile_simps newEngine_fields)
  also have "\<dots> = fileRead (headerBytes emptyHeader
           @ slotBuffer (encodeString ''{}'') 1024 False) 64 n"
    by (simp add: fileWrite_def slotBuffer_nonempty)
  also have "\<dots> = take n (slotBuffer (encodeString ''{}'') 1024 False)"
    by (simp add: fileRead_def)
  finally show ?thesis .
qed

lemma example_read: "readSlot 64 2 exampleEngine = Inr (encodeString ''{}'')"
proof -
  have l2: "length (encodeString ''{}'') = 2" by (simp add: encodeString_def)
  have "readSlot 64 (length (encodeString ''{}'')) exampleEngine = Inr (encodeString ''{}'')"
    by (rule readSlot_slotBuffer[where s = 1024 and b = False])
      (simp_all add: l2 example_file SLOT_HEADER_SIZE_def)
  then show ?thesis by (simp only: l2)
qed

lemma example_nth:
  "i < 1024 \<Longrightarrow> dataFile exampleEngine ! (64 + i) = slotBuffer (encodeString ''{}'') 1024 False ! i"
proof -
  assume i: "i < 1024"
  have l: "length (slotBuffer (encodeString ''{}'') 1024 False) = 1024"
    by (simp add: length_slotBuffer SLOT_HEADER_SIZE_def encodeString_def)
  have "fileRead (dataFile exampleEngine) 64 1024 ! i
      = take 1024 (slotBuffer (encodeString ''{}'') 1024 False) ! i"
    by (simp only: example_file)
  moreover have "length (fileRead (dataFile exampleEngine) 64 1024) = 1024"
    using l by (simp add: example_file)
  ultimately show ?thesis
    using i l by (simp add: fileRead_def length_fileRead)
qed

lemma example_length: "length (dataFile exampleEngine) \<ge> 1088"
proof -
  have "length (fileRead (dataFile exampleEngine) 64 1024) = 1024"
    by (simp add: example_file length_slotBuffer SLOT_HEADER_SIZE_def encodeString_def)
  then show ?thesis by (simp add: length_fileRead)
qed

lemma not_byte_neq: "NOT (b :: byte) \<noteq> b"
proof
  assume "NOT b = b"
  then have "bit (NOT b) 0 = bit b 0" by simp
  then show False by (simp add: bit_not_iff)
qed

text \<open>
  Claim C1 as stated fails on a byte of the \<open>slabSize\<close> field. After one insert into a new
  file the document lies at offset 64 with length 2; complementing the byte at offset
  \<open>64 + 8\<close>, the first byte of the slot's \<open>slabSize\<close> field, changes the file, and the read
  of the location still returns the payload.
\<close>

theorem C1_slabSize_byte_unchecked:
  "fst (writeUnlocked ''a'' (JObj []) (newEngine 1048576))
     = Inr \<lparr>loc_offset = 64, loc_length = 2, loc_slabSize = 1024, loc_isBlob = False\<rparr>
   \<and> exampleEngine = snd (writeUnlocked ''a'' (JObj []) (newEngine 1048576))
   \<and> readSlot 64 2 exampleEngine = Inr (encodeString ''{}'')
   \<and> 64 + 8 < length (dataFile exampleEngine)
   \<and> NOT (dataFile exampleEngine ! (64 + 8)) \<noteq> dataFile exampleEngine ! (64 + 8)
   \<and> readSlot 64 2 (exampleEngine\<lparr>dataFile :=
          (dataFile exampleEngine)[64 + 8 := NOT (dataFile exampleEngine ! (64 + 8))]\<rparr>)
        = Inr (encodeString ''{}'')"
  using example_location example_read example_length
    readSlot_ignores_slabSize[of 8 64 2 exampleEngine "NOT (dataFile exampleEngine ! (64 + 8))"]
    not_byte_neq[of "dataFile exampleEngine ! (64 + 8)"]
  by (simp add: exampleEngine_def)

text \<open>
  The theorem of claim C1 at the inserted document of \<open>exampleEngine\<close>: a complemented
  payload byte, a complemented byte of the length field, and a cleared first flags byte.
\<close>

theorem C1_witness:
  "readSlot 64 2 exampleEngine = Inr (encodeString ''{}'')
   \<and> (\<exists>e. readSlot 64 2 (exampleEngine\<lparr>dataFile :=
              (dataFile exampleEngine)[64 + 16 := NOT (dataFile exampleEngine ! (64 + 16))]\<rparr>) = Inl e
          \<and> integrityError e)
   \<and> (\<exists>e. readSlot 64 2 (exampleEngine\<lparr>dataFile :=
              (dataFile exampleEngine)[64 + 5 := NOT (dataFile exampleEngine ! (64 + 5))]\<rparr>) = Inl e
          \<and> integrityError e)
   \<and> (\<exists>e. readSlot 64 2 (exampleEngine\<lparr>dataFile := (dataFile exampleEngine)[64 + 0 := 0]\<rparr>) = Inl e
          \<and> integrityError e)"
proof -
  have b0: "dataFile exampleEngine ! (64 + 0) = 1"
    using example_nth[of 0] by (simp add: slotBuffer_def le32_def slotFlags_def FLAG_ACTIVE_def)
  show ?thesis
    using example_read
      C1_checked_bytes_detected[OF example_read, of 16 "NOT (dataFile exampleEngine ! (64 + 16))"]
      C1_checked_bytes_detected[OF example_read, of 5 "NOT (dataFile exampleEngine ! (64 + 5))"]
      C1_checked_bytes_detected[OF example_read, of 0 0]
      not_byte_neq b0
    by (simp add: SLOT_HEADER_SIZE_def)
qed

section \<open>Index serialization, covered queries and deletion of an absent id\<close>

text \<open>
  Claim C2 at a failing input. The objects \<open>{a: "x", b: "y"}\<close> and \<open>{b: "y", a: "x"}\<close> are
  equal under \<open>deepEqual\<close>, which ignores the order of keys, and their index serializations
  differ, since \<open>JSON.stringify\<close> prints the keys in enumeration order.
\<close>

theorem C2_key_order_diverges:
  "deepEqual (JObj [(''a'', JStr ''x''), (''b'', JStr ''y'')])
             (JObj [(''b'', JStr ''y''), (''a'', JStr ''x'')])
   \<and> serializeIndexValue (JObj [(''a'', JStr ''x''), (''b'', JStr ''y'')])
       \<noteq> serializeIndexValue (JObj [(''b'', JStr ''y''), (''a'', JStr ''x'')])"
  by (simp add: serializeIndexValue_def json_quote_def json_escape_def)

text \<open>Initialisation: what it is on an initialised collection and on a fresh one.\<close>

lemma ensureInitialized_initialized:
  "initialized c \<Longrightarrow> ensureInitialized c = (Inr (), c)"
  by (simp add: ensureInitialized_def)

lemma afterInit_initialized: "initialized c \<Longrightarrow> afterInit c body = body c"
  by (simp add: afterInit_def ensureInitialized_initialized)

lemma afterInit_cases:
  "(\<exists>e. ensureInitialized c = (Inl e, snd (ensureInitialized c))
        \<and> afterInit c body = (Inl e, snd (ensureInitialized c)))
   \<or> (ensureInitialized c = (Inr (), snd (ensureInitialized c))
        \<and> afterInit c body = body (snd (ensureInitialized c)))"
  by (cases "ensureInitialized c") (auto simp add: afterInit_def split: sum.splits)

lemma snd_afterInit:
  assumes "snd (body (snd (ensureInitialized c))) = snd (ensureInitialized c)"
  shows "snd (afterInit c body) = snd (ensureInitialized c)"
  using afterInit_cases[of c body] assms by auto

lemma storageReads_ensureInitialized:
  "storageReads (snd (ensureInitialized c)) = storageReads c"
  by (simp add: ensureInitialized_def split: prod.splits sum.splits)

lemma initialized_newCollection: "initialized (newCollection t n paths)"
  by (simp add: newCollection_def)

lemma StorageEngine_init_fresh: "StorageEngine_init index (freshEngine t) = (Inr (), newEngine t)"
  by (simp add: StorageEngine_init_def freshEngine_def createNewFile_def newEngine_def)

lemma ensureInitialized_fresh:
  "ensureInitialized (freshCollection t n) = (Inr (), newCollection t n [])"
  by (simp add: ensureInitialized_def freshCollection_def IndexManager_load_def
      StorageEngine_init_fresh newCollection_def)

lemma diskWrites_newEngine: "diskWrites (newEngine t) = 1" "fileExists (newEngine t)"
  by (simp_all add: newEngine_def updateSharedState_def writeHeader_def writeAtOffset_def)

lemma filterLoop_covered:
  "list_all (\<lambda>e. map_of sec (fst e) \<noteq> None) flt \<Longrightarrow>
   filterLoop sec flt cand cov = Some (c', cov') \<Longrightarrow>
     cov' = cov \<and> (flt \<noteq> [] \<or> cand \<noteq> None \<longrightarrow> c' \<noteq> None)"
proof (induction flt arbitrary: cand)
  case Nil
  then show ?case by simp
next
  case (Cons e es)
  then show ?case
    by (auto split: option.splits)
qed

lemma queryIds_covered:
  "flt \<noteq> [] \<Longrightarrow> list_all (\<lambda>e. map_of (secondaryIndexes im) (fst e) \<noteq> None) flt \<Longrightarrow>
     snd (queryIds im flt reader r) = r"
  using filterLoop_covered[of "secondaryIndexes im" flt None True]
  by (auto simp add: queryIds_def split: option.splits)

lemma count_covered:
  "flt \<noteq> [] \<Longrightarrow> list_all (\<lambda>e. map_of (secondaryIndexes im) (fst e) \<noteq> None) flt \<Longrightarrow>
     snd (IndexManager_count im flt reader r) = r"
  using filterLoop_covered[of "secondaryIndexes im" flt None True]
  by (auto simp add: IndexManager_count_def split: option.splits)

text \<open>
  Claim C7, as the code has it. For a filter with at least one key, all of whose keys are
  secondary-indexed paths, \<open>queryIds\<close> and \<open>count\<close> of the index manager return without
  calling the reader: whatever the reader and the state it threads, the state comes back
  unchanged. For a collection, \<open>findIds\<close> and \<open>count\<close> leave the collection as
  \<open>ensureInitialized\<close> leaves it, which is as it was when it is initialised, and
  \<open>ensureInitialized\<close> does not change the count of storage reads: no document is read.
  The collection's \<open>count\<close> also answers the empty filter without a read, from the size of
  the primary index.
\<close>

theorem C7_covered_filter_reads_nothing:
  assumes "flt \<noteq> []"
    and "list_all (\<lambda>e. map_of (secondaryIndexes im) (fst e) \<noteq> None) flt"
  shows "snd (queryIds im flt reader r) = r
       \<and> snd (IndexManager_count im flt reader r) = r
       \<and> (indexManager (snd (ensureInitialized c)) = im \<longrightarrow>
            snd (Collection_findIds parse flt c) = snd (ensureInitialized c)
          \<and> snd (Collection_count parse (Some flt) c) = snd (ensureInitialized c))
       \<and> snd (Collection_count parse (Some []) c) = snd (ensureInitialized c)
       \<and> storageReads (snd (ensureInitialized c)) = storageReads c
       \<and> (initialized c \<longrightarrow> snd (ensureInitialized c) = c)"
proof (intro conjI impI)
  show "snd (queryIds im flt reader r) = r" using assms by (rule queryIds_covered)
  show "snd (IndexManager_count im flt reader r) = r" using assms by (rule count_covered)
  show "snd (Collection_count parse (Some []) c) = snd (ensureInitialized c)"
    unfolding Collection_count_def by (rule snd_afterInit) (simp add: Collection_count_body_def)
  show "storageReads (snd (ensureInitialized c)) = storageReads c"
    by (rule storageReads_ensureInitialized)
  show "snd (ensureInitialized c) = c" if "initialized c"
    using that by (simp add: ensureInitialized_initialized)
next
  assume im: "indexManager (snd (ensureInitialized c)) = im"
  show "snd (Collection_findIds parse flt c) = snd (ensureInitialized c)"
    unfolding Collection_findIds_def
    by (rule snd_afterInit) (simp add: Collection_findIds_body_def im queryIds_covered[OF assms])
  show "snd (Collection_count parse (Some flt) c) = snd (ensureInitialized c)"
    unfolding Collection_count_def
    by (rule snd_afterInit)
      (simp add: Collection_count_body_def im assms(1) count_covered[OF assms])
qed

text \<open>
  Claim C10, as the code has it. \<open>delete\<close> of an id that the primary index does not hold
  returns \<open>false\<close> and leaves the collection as \<open>ensureInitialized\<close> leaves it. On an
  initialised collection that is the collection as it was: engine (data file, header,
  free list, blob files, count of disk writes), index manager (primary and secondary
  indexes), cache and count of storage reads.
\<close>

theorem C10_delete_absent_changes_nothing:
  assumes "ensureInitialized c = (Inr u, c0)"
    and "map_of (primaryIndex (indexManager c0)) docId = None"
  shows "Collection_delete parse docId c = (Inr False, c0) \<and> (initialized c \<longrightarrow> c0 = c)"
  using assms
  by (auto simp add: Collection_delete_def afterInit_def Collection_delete_body_def
      ensureInitialized_initialized)

lemma writeUnlocked_newEngine:
  assumes "length (encodeDoc doc) + 16 \<le> 1024" and "length (encodeDoc doc) \<le> t"
  shows "fst (writeUnlocked docId doc (newEngine t))
     = Inr \<lparr>loc_offset = 64, loc_length = length (encodeDoc doc), loc_slabSize = 1024,
            loc_isBlob = False\<rparr>"
  using assms
  by (simp add: writeUnlocked_def newEngine_fields allocateSlot_def selectSlabSize_small
      writeSlot_def SLOT_HEADER_SIZE_def emptyHeader_def DATA_HEADER_SIZE_def Let_def)

lemma exampleCollection_eq:
  "exampleCollection =
     \<lparr>storage = exampleEngine,
      indexManager = \<lparr>primaryIndex = [(''a'',
          \<lparr>loc_offset = 64, loc_length = 2, loc_slabSize = 1024, loc_isBlob = False\<rparr>)],
        secondaryIndexes = [], dirty = True, indexFile = None\<rparr>,
      cacheSize = 0, cache = None, storageReads = 0, initialized = True\<rparr>"
proof -
  have w: "writeUnlocked ''a'' (JObj []) (newEngine 1048576)
      = (Inr \<lparr>loc_offset = 64, loc_length = 2, loc_slabSize = 1024, loc_isBlob = False\<rparr>,
         exampleEngine)"
    using example_location by (simp add: prod_eq_iff exampleEngine_def)
  have e: "exampleCollection
      = snd (Collection_insert_body ''a'' (JObj []) (newCollection 1048576 0 []))"
    by (simp add: exampleCollection_def Collection_insert_def
        afterInit_initialized[OF initialized_newCollection])
  show ?thesis
    unfolding e
    by (simp add: Collection_insert_body_def newCollection_def w cacheSet_def addDocument_def)
qed

lemma initialized_exampleCollection: "initialized exampleCollection"
  by (simp add: exampleCollection_eq)

lemma example_storage_read:
  "StorageEngine_read exampleParse
     \<lparr>loc_offset = 64, loc_length = 2, loc_slabSize = 1024, loc_isBlob = False\<rparr> exampleEngine
   = Inr (JObj [])"
  by (simp add: StorageEngine_read_def example_read exampleParse_def)

text \<open>
  Claim C7 as stated fails at the empty filter, every key of which is indexed: with no
  indexed key the candidate set stays \<open>null\<close>, the query falls back to the full scan, and
  \<open>findIds\<close> on the collection holding one document reads that document.
\<close>

theorem C7_empty_filter_reads_documents:
  "list_all (\<lambda>e. map_of (secondaryIndexes (indexManager exampleCollection)) (fst e) \<noteq> None) []
   \<and> storageReads exampleCollection = 0
   \<and> fst (Collection_findIds exampleParse [] exampleCollection) = Inr [''a'']
   \<and> storageReads (snd (Collection_findIds exampleParse [] exampleCollection)) = 1"
  by (simp add: Collection_findIds_def afterInit_initialized[OF initialized_exampleCollection])
    (simp add: exampleCollection_eq Collection_findIds_body_def queryIds_def readWithCache_def
      cacheGet_def cacheSet_def storageRead_def example_storage_read matchesFilter_def)

lemma exampleIndexed_eq:
  "indexManager exampleIndexed =
     \<lparr>primaryIndex = [(''u1'',
          \<lparr>loc_offset = 64, loc_length = length (encodeDoc (JObj [(''role'', JStr ''admin'')])),
           loc_slabSize = 1024, loc_isBlob = False\<rparr>)],
      secondaryIndexes = [(''role'', [(CHR 0x03 # ''admin'', [''u1''])])], dirty = True,
      indexFile = None\<rparr>"
  "initialized exampleIndexed"
proof -
  let ?doc = "JObj [(''role'', JStr ''admin'')]"
  have l: "length (encodeDoc ?doc) = 16"
    by (simp add: encodeDoc_def encodeString_def json_quote_def json_escape_def)
  obtain st where w: "writeUnlocked ''u1'' ?doc (newEngine 1048576)
      = (Inr \<lparr>loc_offset = 64, loc_length = length (encodeDoc ?doc), loc_slabSize = 1024,
              loc_isBlob = False\<rparr>, st)"
    using writeUnlocked_newEngine[of ?doc 1048576 "''u1''"] l
    by (cases "writeUnlocked ''u1'' ?doc (newEngine 1048576)") simp
  have g: "getNestedValue ?doc ''role'' = JStr ''admin''"
    by (simp add: getNestedValue_def)
  have e: "exampleIndexed
      = snd (Collection_insert_body ''u1'' ?doc (newCollection 1048576 0 [''role'']))"
    by (simp add: exampleIndexed_def Collection_insert_def
        afterInit_initialized[OF initialized_newCollection])
  show "indexManager exampleIndexed =
     \<lparr>primaryIndex = [(''u1'',
          \<lparr>loc_offset = 64, loc_length = length (encodeDoc ?doc),
           loc_slabSize = 1024, loc_isBlob = False\<rparr>)],
      secondaryIndexes = [(''role'', [(CHR 0x03 # ''admin'', [''u1''])])], dirty = True,
      indexFile = None\<rparr>"
    unfolding e
    by (simp add: Collection_insert_body_def newCollection_def w cacheSet_def
        addDocument_def postingAdd_def g serializeIndexValue_def)
  show "initialized exampleIndexed"
    unfolding e
    by (simp add: Collection_insert_body_def newCollection_def w cacheSet_def)
qed

text \<open>
  The theorem of claim C7 on the collection indexed on \<open>role\<close>, for the filter
  \<open>{role: "admin"}\<close>: the id comes from the posting list and the collection is unchanged.
\<close>

theorem C7_witness:
  "fst (Collection_findIds exampleParse [(''role'', JStr ''admin'')] exampleIndexed) = Inr [''u1'']
   \<and> snd (Collection_findIds exampleParse [(''role'', JStr ''admin'')] exampleIndexed) = exampleIndexed
   \<and> fst (Collection_count exampleParse (Some [(''role'', JStr ''admin'')]) exampleIndexed) = Inr 1
   \<and> snd (Collection_count exampleParse (Some [(''role'', JStr ''admin'')]) exampleIndexed) = exampleIndexed"
  using C7_covered_filter_reads_nothing[of "[(''role'', JStr ''admin'')]" "indexManager exampleIndexed"
      "readWithCache exampleParse" exampleIndexed exampleIndexed exampleParse]
  by (simp add: ensureInitialized_initialized[OF exampleIndexed_eq(2)] exampleIndexed_eq(1))
    (simp add: Collection_findIds_def Collection_count_def
      afterInit_initialized[OF exampleIndexed_eq(2)] Collection_findIds_body_def
      Collection_count_body_def exampleIndexed_eq(1) queryIds_def
      IndexManager_count_def serializeIndexValue_def)

text \<open>
  The theorem of claim C10 on the collection holding the document \<open>a\<close>, for the id \<open>b\<close>.
\<close>

theorem C10_witness:
  "ensureInitialized exampleCollection = (Inr (), exampleCollection)
   \<and> map_of (primaryIndex (indexManager exampleCollection)) ''b'' = None
   \<and> Collection_delete exampleParse ''b'' exampleCollection = (Inr False, exampleCollection)"
  using C10_delete_absent_changes_nothing[of exampleCollection "()" exampleCollection "''b''"
      exampleParse]
  by (simp add: ensureInitialized_initialized[OF initialized_exampleCollection])
    (simp add: exampleCollection_eq)

text \<open>
  Claim C10 as stated fails on a collection that is not initialised yet. On a collection
  whose constructor has just run, on a path with no data file, \<open>delete\<close> of an id that the
  primary index does not hold returns \<open>false\<close>, and it has created the data file and
  written the 64 bytes of the header: one disk write is issued and the data file is not
  as before.
\<close>

theorem C10_first_delete_writes_header:
  "map_of (primaryIndex (indexManager (freshCollection 1048576 0))) ''a'' = None
   \<and> fst (Collection_delete exampleParse ''a'' (freshCollection 1048576 0)) = Inr False
   \<and> \<not> fileExists (storage (freshCollection 1048576 0))
   \<and> fileExists (storage (snd (Collection_delete exampleParse ''a'' (freshCollection 1048576 0))))
   \<and> dataFile (storage (freshCollection 1048576 0)) = []
   \<and> dataFile (storage (snd (Collection_delete exampleParse ''a'' (freshCollection 1048576 0))))
       = headerBytes emptyHeader
   \<and> diskWrites (storage (freshCollection 1048576 0)) = 0
   \<and> diskWrites (storage (snd (Collection_delete exampleParse ''a'' (freshCollection 1048576 0)))) = 1"
proof -
  have d: "Collection_delete exampleParse ''a'' (freshCollection 1048576 0)
      = (Inr False, newCollection 1048576 0 [])"
    by (simp add: Collection_delete_def afterInit_def ensureInitialized_fresh
        Collection_delete_body_def) (simp add: newCollection_def)
  show ?thesis
    unfolding d
    by (simp add: diskWrites_newEngine newEngine_fields)
      (simp add: freshCollection_def freshEngine_def newCollection_def diskWrites_newEngine
        newEngine_fields)
qed

section \<open>Header offsets along a run, and deletion\<close>

lemma engine_fields_addLiveData [simp]:
  "header (addLiveData x st) = (header st)\<lparr>liveDataSize := liveDataSize (header st) + x\<rparr>"
  "freeList (addLiveData x st) = freeList st"
  "blobThreshold (addLiveData x st) = blobThreshold st"
  "batchDepth (addLiveData x st) = batchDepth st"
  "blobFiles (addLiveData x st) = blobFiles st"
  by (simp_all add: addLiveData_def)

lemma engine_fields_addDocumentCount [simp]:
  "header (addDocumentCount x st) = (header st)\<lparr>documentCount := documentCount (header st) + x\<rparr>"
  "freeList (addDocumentCount x st) = freeList st"
  "blobThreshold (addDocumentCount x st) = blobThreshold st"
  "batchDepth (addDocumentCount x st) = batchDepth st"
  "blobFiles (addDocumentCount x st) = blobFiles st"
  by (simp_all add: addDocumentCount_def)

lemma engine_fields_markMetadataDirty [simp]:
  "header (markMetadataDirty st) = header st"
  "freeList (markMetadataDirty st) = freeList st"
  "blobThreshold (markMetadataDirty st) = blobThreshold st"
  "batchDepth (markMetadataDirty st) = batchDepth st"
  "blobFiles (markMetadataDirty st) = blobFiles st"
  by (simp_all add: markMetadataDirty_def)

lemma engine_fields_addFreeSlot [simp]:
  "header (addFreeSlot l st) = header st"
  "freeList (addFreeSlot l st)
     = freeList st @ [\<lparr>free_offset = loc_offset l, free_slabSize = loc_slabSize l\<rparr>]"
  "blobThreshold (addFreeSlot l st) = blobThreshold st"
  "batchDepth (addFreeSlot l st) = batchDepth st"
  "blobFiles (addFreeSlot l st) = blobFiles st"
  by (simp_all add: addFreeSlot_def)

lemma engine_fields_advanceIfNew [simp]:
  "nextSlotOffset (header (advanceIfNew a st))
     = (if alloc_isReused a then nextSlotOffset (header st) else alloc_offset a + alloc_slabSize a)"
  "fileSize (header (advanceIfNew a st))
     = (if alloc_isReused a then fileSize (header st) else alloc_offset a + alloc_slabSize a)"
  "liveDataSize (header (advanceIfNew a st)) = liveDataSize (header st)"
  "documentCount (header (advanceIfNew a st)) = documentCount (header st)"
  "freeList (advanceIfNew a st) = freeList st"
  "blobThreshold (advanceIfNew a st) = blobThreshold st"
  "batchDepth (advanceIfNew a st) = batchDepth st"
  "blobFiles (advanceIfNew a st) = blobFiles st"
  by (simp_all add: advanceIfNew_def)

lemma engine_fields_updateSharedState [simp]:
  "header (updateSharedState st) = header st"
  "freeList (updateSharedState st) = freeList st"
  "blobThreshold (updateSharedState st) = blobThreshold st"
  "batchDepth (updateSharedState st) = batchDepth st"
  "blobFiles (updateSharedState st) = blobFiles st"
  by (simp_all add: updateSharedState_def)

lemma engine_fields_deleteBlob [simp]:
  "header (deleteBlob p st) = header st"
  "freeList (deleteBlob p st) = freeList st"
  "blobThreshold (deleteBlob p st) = blobThreshold st"
  "batchDepth (deleteBlob p st) = batchDepth st"
  by (simp_all add: deleteBlob_def)

lemma engine_fields_writeAtOffset [simp]:
  "header (writeAtOffset off d st) = header st"
  "freeList (writeAtOffset off d st) = freeList st"
  "blobThreshold (writeAtOffset off d st) = blobThreshold st"
  "batchDepth (writeAtOffset off d st) = batchDepth st"
  "blobFiles (writeAtOffset off d st) = blobFiles st"
  by (simp_all add: writeAtOffset_def)

lemma engine_fields_flushMetadata [simp]:
  "header (flushMetadata st) = header st"
  "freeList (flushMetadata st) = freeList st"
  "blobThreshold (flushMetadata st) = blobThreshold st"
  "batchDepth (flushMetadata st) = batchDepth st"
  "blobFiles (flushMetadata st) = blobFiles st"
  by (simp_all add: flushMetadata_def writeHeader_def Let_def)

lemma engine_fields_flushIfNotBatching [simp]:
  "header (flushIfNotBatching st) = header st"
  "freeList (flushIfNotBatching st) = freeList st"
  "blobThreshold (flushIfNotBatching st) = blobThreshold st"
  "batchDepth (flushIfNotBatching st) = batchDepth st"
  "blobFiles (flushIfNotBatching st) = blobFiles st"
  by (simp_all add: flushIfNotBatching_def)

lemma engine_fields_beginBatch [simp]:
  "header (beginBatch st) = header st"
  "freeList (beginBatch st) = freeList st"
  "blobThreshold (beginBatch st) = blobThreshold st"
  "dataFile (beginBatch st) = dataFile st"
  "blobFiles (beginBatch st) = blobFiles st"
  by (simp_all add: beginBatch_def)

lemma engine_fields_endBatch [simp]:
  "header (endBatch st) = header st"
  "freeList (endBatch st) = freeList st"
  "blobThreshold (endBatch st) = blobThreshold st"
  "blobFiles (endBatch st) = blobFiles st"
  by (simp_all add: endBatch_def Let_def)

lemma markSlotFree_fields:
  assumes "markSlotFree off st = (r, st')"
  shows "header st' = header st" "freeList st' = freeList st"
    "blobThreshold st' = blobThreshold st" "batchDepth st' = batchDepth st"
    "blobFiles st' = blobFiles st"
  using assms by (auto simp add: markSlotFree_def Let_def split: if_splits)

lemma writeSlot_fields:
  assumes "writeSlot off d s b st = (r, st')"
  shows "header st' = header st" "freeList st' = freeList st"
    "blobThreshold st' = blobThreshold st" "batchDepth st' = batchDepth st"
    "blobFiles st' = blobFiles st"
  using assms by (auto simp add: writeSlot_def split: if_splits)

lemma allocateSlot_fields:
  assumes "allocateSlot n st = (a, st')"
  shows "header st' = header st" "dataFile st' = dataFile st"
    "blobThreshold st' = blobThreshold st" "batchDepth st' = batchDepth st"
    "blobFiles st' = blobFiles st"
    "\<not> alloc_isReused a \<Longrightarrow> alloc_offset a = nextSlotOffset (header st)"
    "\<not> alloc_isReused a \<Longrightarrow> alloc_slabSize a = selectSlabSize n"
    "\<not> alloc_isReused a \<Longrightarrow> st' = st"
  using assms by (auto simp add: allocateSlot_def Let_def split: option.splits)

lemma writeBlobFile_fields:
  assumes "writeBlobFile p d st = (ref, st')"
  shows "header st' = header st" "freeList st' = freeList st" "dataFile st' = dataFile st"
    "blobThreshold st' = blobThreshold st" "batchDepth st' = batchDepth st"
    "ref = \<lparr>ref_path = p, ref_size = length d, ref_checksum = crc32 d\<rparr>"
    "blobFiles st' = AList.update p d (blobFiles st)"
  using assms by (auto simp add: writeBlobFile_def)

lemma headerGrows_refl: "headerGrows st st"
  by (simp add: headerGrows_def)

lemma headerGrows_trans: "headerGrows a b \<Longrightarrow> headerGrows b c \<Longrightarrow> headerGrows a c"
  by (auto simp add: headerGrows_def split: if_splits)

lemma headerGrows_same: "header st' = header st \<Longrightarrow> headerGrows st st'"
  by (simp add: headerGrows_def)

lemma headerGrows_offsets:
  "nextSlotOffset (header st') = nextSlotOffset (header st) \<Longrightarrow>
   fileSize (header st') = fileSize (header st) \<Longrightarrow> headerGrows st st'"
  by (simp add: headerGrows_def)

text \<open>Allocate, write, advance: the header grows.\<close>

lemma allocate_write_headerGrows:
  assumes "allocateSlot n st = (a, st1)" and "writeSlot (alloc_offset a) d (alloc_slabSize a) b st1 = (r, st2)"
  shows "headerGrows st st2" "headerGrows st (advanceIfNew a st2)"
  using allocateSlot_fields[OF assms(1)] writeSlot_fields[OF assms(2)]
  by (auto simp add: headerGrows_def)

lemma writeBlobReferenceSlot_headerGrows:
  "writeBlobReferenceSlot ref st = (r, st') \<Longrightarrow> headerGrows st st'"
  by (auto simp add: writeBlobReferenceSlot_def Let_def split: prod.splits sum.splits
      dest: allocate_write_headerGrows)

lemma writeUnlocked_headerGrows:
  "writeUnlocked docId doc st = (r, st') \<Longrightarrow> headerGrows st st'"
proof -
  assume w: "writeUnlocked docId doc st = (r, st')"
  show ?thesis
  proof (cases "length (encodeDoc doc) > blobThreshold st")
    case True
    obtain ref st1 where b: "writeBlobFile (docId @ ''.blob'') (encodeDoc doc) st = (ref, st1)"
      by fastforce
    obtain r2 st2 where s: "writeBlobReferenceSlot ref st1 = (r2, st2)" by fastforce
    have g: "headerGrows st st2"
      using writeBlobFile_fields[OF b] writeBlobReferenceSlot_headerGrows[OF s]
      by (auto simp add: headerGrows_def)
    from w True b s have "st' = st2 \<or> header st' = header (addLiveData (int (ref_size ref)) (addDocumentCount 1 st2))"
      by (auto simp add: writeUnlocked_def writeBlobForInsertUnlocked_def Let_def
          split: prod.splits sum.splits)
    with g show ?thesis by (auto simp add: headerGrows_def)
  next
    case False
    obtain a st1 where al: "allocateSlot (length (encodeDoc doc)) st = (a, st1)" by fastforce
    obtain r2 st2 where ws: "writeSlot (alloc_offset a) (encodeDoc doc) (alloc_slabSize a) False st1 = (r2, st2)"
      by fastforce
    from w False al ws have "st' = st2 \<or> header st' =
        header (addLiveData (int (length (encodeDoc doc))) (addDocumentCount 1 (advanceIfNew a st2)))"
      by (auto simp add: writeUnlocked_def Let_def split: prod.splits sum.splits)
    with allocate_write_headerGrows[OF al ws] show ?thesis
      by (auto simp add: headerGrows_def)
  qed
qed

lemma markSlotFree_headerGrows:
  "markSlotFree off st = (r, st') \<Longrightarrow> headerGrows st st'"
  by (rule headerGrows_same) (rule markSlotFree_fields)

lemma writeSlot_headerGrows:
  "writeSlot off d s b st = (r, st') \<Longrightarrow> headerGrows st st'"
  by (rule headerGrows_same) (rule writeSlot_fields)

lemma headerGrows_header_cong:
  "headerGrows st st1 \<Longrightarrow> nextSlotOffset (header st') = nextSlotOffset (header st1) \<Longrightarrow>
   fileSize (header st') = fileSize (header st1) \<Longrightarrow> headerGrows st st'"
  by (simp add: headerGrows_def)

lemma headerGrows_header_cong_left:
  "headerGrows st1 st' \<Longrightarrow> nextSlotOffset (header st1) = nextSlotOffset (header st) \<Longrightarrow>
   fileSize (header st1) = fileSize (header st) \<Longrightarrow> headerGrows st st'"
  by (simp add: headerGrows_def)

lemma headerGrows_finish:
  "headerGrows st st1 \<Longrightarrow>
   headerGrows st (flushIfNotBatching (markMetadataDirty (addLiveData x st1)))"
  by (simp add: headerGrows_def)

lemma writeBlobForUpdateUnlocked_headerGrows:
  assumes "writeBlobForUpdateUnlocked docId d st = (r, st')"
  shows "headerGrows st st'"
proof -
  obtain ref st1 where b: "writeBlobFile (docId @ ''.blob'') d st = (ref, st1)" by fastforce
  obtain r2 st2 where s: "writeBlobReferenceSlot ref st1 = (r2, st2)" by fastforce
  have "headerGrows st st2"
    using writeBlobReferenceSlot_headerGrows[OF s] writeBlobFile_fields(1)[OF b]
    by (simp add: headerGrows_def)
  moreover from assms b s have "st' = st2"
    by (auto simp add: writeBlobForUpdateUnlocked_def split: sum.splits prod.splits)
  ultimately show ?thesis by simp
qed

lemma free_allocate_write_headerGrows:
  assumes m: "markSlotFree (loc_offset old) st = (r1, st1)"
    and a: "allocateSlot n (addFreeSlot old st1) = (al, st2)"
    and w: "writeSlot (alloc_offset al) d (alloc_slabSize al) b st2 = (r3, st3)"
  shows "headerGrows st st3" "headerGrows st (advanceIfNew al st3)"
proof -
  have h: "header (addFreeSlot old st1) = header st"
    using markSlotFree_fields(1)[OF m] by simp
  from allocate_write_headerGrows[OF a w] h
  show "headerGrows st st3" "headerGrows st (advanceIfNew al st3)"
    by (simp_all add: headerGrows_def)
qed

lemma relocateInline_headerGrows:
  assumes "relocateInline d old delta st = (r, st')"
  shows "headerGrows st st'"
proof -
  obtain r1 st1 where m: "markSlotFree (loc_offset old) st = (r1, st1)" by fastforce
  obtain al st2 where a: "allocateSlot (length d) (addFreeSlot old st1) = (al, st2)" by fastforce
  obtain r3 st3 where w: "writeSlot (alloc_offset al) d (alloc_slabSize al) False st2 = (r3, st3)"
    by fastforce
  from assms m a w have "st' = st1 \<or> st' = st3
      \<or> st' = flushIfNotBatching (markMetadataDirty (addLiveData delta (advanceIfNew al st3)))"
    by (auto simp add: relocateInline_def split: sum.splits prod.splits)
  with markSlotFree_headerGrows[OF m] free_allocate_write_headerGrows[OF m a w]
  show ?thesis by (auto intro: headerGrows_finish)
qed

lemma updateBlobReferenceUnlocked_headerGrows:
  assumes "updateBlobReferenceUnlocked docId d old st = (r, st')"
  shows "headerGrows st st'"
proof -
  obtain ref st1 where b: "writeBlobFile (docId @ ''.blob'') d st = (ref, st1)" by fastforce
  note f = writeBlobFile_fields(1)[OF b]
  show ?thesis
  proof (cases "length (encodeRef ref) + SLOT_HEADER_SIZE \<le> loc_slabSize old")
    case True
    obtain r2 st2 where w: "writeSlot (loc_offset old) (encodeRef ref) (loc_slabSize old) True st1 = (r2, st2)"
      by fastforce
    from assms b True w have "st' = st2"
      by (auto simp add: updateBlobReferenceUnlocked_def Let_def split: sum.splits prod.splits)
    with writeSlot_fields(1)[OF w] f show ?thesis by (simp add: headerGrows_same)
  next
    case False
    obtain r1 st2 where m: "markSlotFree (loc_offset old) st1 = (r1, st2)" by fastforce
    obtain al st3 where a: "allocateSlot (length (encodeRef ref)) (addFreeSlot old st2) = (al, st3)"
      by fastforce
    obtain r3 st4 where w: "writeSlot (alloc_offset al) (encodeRef ref) (alloc_slabSize al) True st3 = (r3, st4)"
      by fastforce
    from assms b False m a w have "st' = st2 \<or> st' = st4 \<or> st' = advanceIfNew al st4"
      by (auto simp add: updateBlobReferenceUnlocked_def Let_def split: sum.splits prod.splits)
    with markSlotFree_headerGrows[OF m] free_allocate_write_headerGrows[OF m a w]
    have "headerGrows st1 st'" by auto
    with f show ?thesis by (simp add: headerGrows_def)
  qed
qed

lemma updateUnlocked_headerGrows:
  assumes "updateUnlocked parse docId doc old st = (r, st')"
  shows "headerGrows st st'"
proof -
  let ?d = "encodeDoc doc"
  show ?thesis
  proof (cases "loc_isBlob old")
    case True
    show ?thesis
    proof (cases "readBlobReference parse (loc_offset old) (loc_length old) st")
      case (Inl e)
      with assms True have "st' = st" by (simp add: updateUnlocked_def Let_def)
      then show ?thesis by (simp add: headerGrows_refl)
    next
      case (Inr oldRef)
      show ?thesis
      proof (cases "length ?d > blobThreshold st")
        case big: True
        obtain r1 st1 where u: "updateBlobReferenceUnlocked docId ?d old st = (r1, st1)"
          by fastforce
        from assms True Inr big u have "st' = st1
            \<or> st' = flushIfNotBatching (markMetadataDirty
                      (addLiveData (int (length ?d) - int (ref_size oldRef)) st1))"
          by (auto simp add: updateUnlocked_def Let_def split: sum.splits)
        with updateBlobReferenceUnlocked_headerGrows[OF u] show ?thesis
          by (auto intro: headerGrows_finish)
      next
        case small: False
        from assms True Inr small have
          "relocateInline ?d old (int (length ?d) - int (ref_size oldRef))
             (deleteBlob (ref_path oldRef) st) = (r, st')"
          by (simp add: updateUnlocked_def Let_def)
        from relocateInline_headerGrows[OF this] show ?thesis
          by (rule headerGrows_header_cong_left) simp_all
      qed
    qed
  next
    case False
    show ?thesis
    proof (cases "length ?d > blobThreshold st")
      case big: True
      obtain r1 st1 where m: "markSlotFree (loc_offset old) st = (r1, st1)" by fastforce
      obtain r2 st2 where
        w: "writeBlobForUpdateUnlocked docId ?d (addFreeSlot old st1) = (r2, st2)" by fastforce
      have g: "headerGrows st st2"
        using writeBlobForUpdateUnlocked_headerGrows[OF w] markSlotFree_fields(1)[OF m]
        by (simp add: headerGrows_def)
      from assms False big m w have "st' = st1 \<or> st' = st2
          \<or> st' = flushIfNotBatching (markMetadataDirty
                    (addLiveData (int (length ?d) - int (loc_length old)) st2))"
        by (auto simp add: updateUnlocked_def Let_def split: sum.splits)
      with markSlotFree_headerGrows[OF m] g show ?thesis
        by (auto intro: headerGrows_finish)
    next
      case small: False
      show ?thesis
      proof (cases "length ?d + SLOT_HEADER_SIZE \<le> loc_slabSize old")
        case True
        obtain r1 st1 where w: "writeSlot (loc_offset old) ?d (loc_slabSize old) False st = (r1, st1)"
          by fastforce
        from assms False small True w have "st' = st1
            \<or> st' = flushIfNotBatching (markMetadataDirty
                      (addLiveData (int (length ?d) - int (loc_length old)) st1))"
          by (auto simp add: updateUnlocked_def Let_def split: sum.splits)
        with writeSlot_headerGrows[OF w] show ?thesis
          by (auto intro: headerGrows_finish)
      next
        case nofit: False
        from assms False small nofit have
          "relocateInline ?d old (int (length ?d) - int (loc_length old)) st = (r, st')"
          by (simp add: updateUnlocked_def Let_def)
        then show ?thesis by (rule relocateInline_headerGrows)
      qed
    qed
  qed
qed

text \<open>What a completed \<open>deleteUnlocked\<close> leaves of the header and the free list.\<close>

lemma deleteUnlocked_cases:
  assumes "deleteUnlocked parse l st = (r, st')"
  shows "(\<exists>e. r = Inl e \<and> st' = st)
     \<or> (\<exists>st1 st2.
           nextSlotOffset (header st1) = nextSlotOffset (header st)
           \<and> fileSize (header st1) = fileSize (header st)
           \<and> freeList st1 = freeList st \<and> dataFile st1 = dataFile st
           \<and> blobThreshold st1 = blobThreshold st \<and> batchDepth st1 = batchDepth st
           \<and> ((\<exists>e. r = Inl e \<and> st' = st2 \<and> markSlotFree (loc_offset l) st1 = (Inl e, st2))
              \<or> (r = Inr () \<and> markSlotFree (loc_offset l) st1 = (Inr (), st2)
                 \<and> st' = flushIfNotBatching (markMetadataDirty
                           (addDocumentCount (- 1) (addFreeSlot l st2))))))"
proof -
  define pre where "pre = (if loc_isBlob l
               then (case readBlobReference parse (loc_offset l) (loc_length l) st of
                       Inl e \<Rightarrow> Inl e
                     | Inr blobRef \<Rightarrow>
                         Inr (addLiveData (- int (ref_size blobRef))
                                (deleteBlob (ref_path blobRef) st)))
               else Inr (addLiveData (- int (loc_length l)) st))"
  show ?thesis
  proof (cases pre)
    case (Inl e)
    with assms have "r = Inl e \<and> st' = st"
      by (simp add: deleteUnlocked_def pre_def[symmetric] Let_def)
    then show ?thesis by simp
  next
    case (Inr st1)
    then have f: "nextSlotOffset (header st1) = nextSlotOffset (header st)"
      "fileSize (header st1) = fileSize (header st)"
      "freeList st1 = freeList st" "dataFile st1 = dataFile st"
      "blobThreshold st1 = blobThreshold st" "batchDepth st1 = batchDepth st"
      by (auto simp add: pre_def deleteBlob_def addLiveData_def split: sum.splits if_splits)
    obtain r2 st2 where m: "markSlotFree (loc_offset l) st1 = (r2, st2)" by fastforce
    from assms Inr have d: "(case markSlotFree (loc_offset l) st1 of
                  (Inl e, st2) \<Rightarrow> (Inl e, st2)
                | (Inr _, st2) \<Rightarrow>
                    (Inr (),
                     flushIfNotBatching (markMetadataDirty
                       (addDocumentCount (- 1) (addFreeSlot l st2))))) = (r, st')"
      by (simp add: deleteUnlocked_def pre_def[symmetric] Let_def)
    show ?thesis
    proof (cases r2)
      case (Inl e)
      with d m have "r = Inl e \<and> st' = st2" by simp
      with f m Inl show ?thesis
        by - (rule disjI2, rule exI[of _ st1], rule exI[of _ st2], simp)
    next
      case Inr2: (Inr u)
      with d m have "r = Inr () \<and> st' = flushIfNotBatching (markMetadataDirty
                       (addDocumentCount (- 1) (addFreeSlot l st2)))" by simp
      with f m Inr2 show ?thesis
        by - (rule disjI2, rule exI[of _ st1], rule exI[of _ st2], simp)
    qed
  qed
qed

lemma deleteUnlocked_headerGrows:
  assumes "deleteUnlocked parse l st = (r, st')"
  shows "headerGrows st st'"
  using deleteUnlocked_cases[OF assms]
  by (auto simp add: headerGrows_def dest!: markSlotFree_fields(1))

lemma writeEach_headerGrows:
  "writeEach items st = (r, st') \<Longrightarrow> headerGrows st st'"
proof (induction items arbitrary: st r st')
  case Nil
  then show ?case by (simp add: headerGrows_refl)
next
  case (Cons item items)
  obtain r1 st1 where w: "writeUnlocked (fst item) (snd item) st = (r1, st1)" by fastforce
  note g1 = writeUnlocked_headerGrows[OF w]
  show ?case
  proof (cases r1)
    case (Inl e)
    with Cons.prems w have "st' = st1" by simp
    with g1 show ?thesis by simp
  next
    case (Inr l)
    obtain r2 st2 where e: "writeEach items st1 = (r2, st2)" by fastforce
    from Cons.prems w Inr e have "st' = st2" by (auto split: sum.splits)
    with Cons.IH[OF e] g1 show ?thesis by (auto intro: headerGrows_trans)
  qed
qed

lemma writeMany_headerGrows:
  assumes "writeMany items st = (r, st')"
  shows "headerGrows st st'"
proof (cases "items = []")
  case True
  with assms show ?thesis by (simp add: writeMany_def headerGrows_refl)
next
  case False
  show ?thesis
  proof (cases "list_ex (\<lambda>item. length (encodeDoc (snd item)) > blobThreshold st) items")
    case True
    obtain r1 st1 where e: "writeEach items (beginBatch st) = (r1, st1)" by fastforce
    from assms False True e have "st' = endBatch st1" by (simp add: writeMany_def)
    with writeEach_headerGrows[OF e] show ?thesis by (simp add: headerGrows_def)
  next
    case nb: False
    with assms False show ?thesis
      by (auto simp add: writeMany_def Let_def headerGrows_def)
  qed
qed

lemma storage_cacheSet [simp]:
  "storage (cacheSet docId doc c) = storage c"
  "indexManager (cacheSet docId doc c) = indexManager c"
  "cacheSize (cacheSet docId doc c) = cacheSize c"
  by (simp_all add: cacheSet_def Let_def split: option.splits)

lemma storage_cacheDelete [simp]:
  "storage (cacheDelete docId c) = storage c"
  "indexManager (cacheDelete docId c) = indexManager c"
  "cacheSize (cacheDelete docId c) = cacheSize c"
  by (simp_all add: cacheDelete_def split: option.splits)

lemma storageRead_fields:
  assumes "storageRead parse l c = (r, c1)"
  shows "storage c1 = storage c" "indexManager c1 = indexManager c" "cacheSize c1 = cacheSize c"
    "cache c1 = cache c" "r = StorageEngine_read parse l (storage c)"
  using assms by (auto simp add: storageRead_def)

lemma Collection_insert_body_headerGrows:
  "headerGrows (storage c) (storage (snd (Collection_insert_body docId doc c)))"
proof -
  obtain r st where w: "writeUnlocked docId doc (storage c) = (r, st)" by fastforce
  have "storage (snd (Collection_insert_body docId doc c)) = storage c
      \<or> storage (snd (Collection_insert_body docId doc c)) = st"
    using w by (auto simp add: Collection_insert_body_def split: sum.splits)
  with writeUnlocked_headerGrows[OF w] show ?thesis by (auto simp add: headerGrows_refl)
qed

lemma replaceAt_headerGrows:
  "headerGrows (storage c) (storage (snd (replaceAt parse docId doc old c)))"
proof -
  obtain r1 c1 where s: "storageRead parse old c = (r1, c1)" by fastforce
  obtain r st where u: "updateUnlocked parse docId doc old (storage c1) = (r, st)" by fastforce
  note f = storageRead_fields(1)[OF s]
  have "storage (snd (replaceAt parse docId doc old c)) = storage c
      \<or> storage (snd (replaceAt parse docId doc old c)) = st"
    using s u f by (auto simp add: replaceAt_def split: sum.splits)
  with updateUnlocked_headerGrows[OF u] f show ?thesis by (auto simp add: headerGrows_refl)
qed

lemma Collection_update_body_headerGrows:
  "headerGrows (storage c) (storage (snd (Collection_update_body parse docId doc c)))"
  by (simp add: Collection_update_body_def headerGrows_refl replaceAt_headerGrows split: option.splits)

lemma Collection_upsert_body_headerGrows:
  "headerGrows (storage c) (storage (snd (Collection_upsert_body parse docId doc c)))"
proof (cases "map_of (primaryIndex (indexManager c)) docId")
  case None
  obtain r st where w: "writeUnlocked docId doc (storage c) = (r, st)" by fastforce
  have "storage (snd (Collection_upsert_body parse docId doc c)) = st"
    using w None by (auto simp add: Collection_upsert_body_def split: sum.splits)
  with writeUnlocked_headerGrows[OF w] show ?thesis by simp
next
  case (Some l)
  then show ?thesis by (simp add: Collection_upsert_body_def replaceAt_headerGrows)
qed

lemma Collection_delete_body_headerGrows:
  "headerGrows (storage c) (storage (snd (Collection_delete_body parse docId c)))"
proof (cases "map_of (primaryIndex (indexManager c)) docId")
  case None
  then show ?thesis by (simp add: Collection_delete_body_def headerGrows_refl)
next
  case (Some l)
  obtain r1 c1 where s: "storageRead parse l c = (r1, c1)" by fastforce
  obtain r st where d: "deleteUnlocked parse l (storage c1) = (r, st)" by fastforce
  note f = storageRead_fields(1)[OF s]
  have "storage (snd (Collection_delete_body parse docId c)) = storage c
      \<or> storage (snd (Collection_delete_body parse docId c)) = st"
    using Some s d f by (auto simp add: Collection_delete_body_def split: sum.splits)
  with deleteUnlocked_headerGrows[OF d] f show ?thesis by (auto simp add: headerGrows_refl)
qed

lemma batchStep_headerGrows:
  "headerGrows (storage c) (storage (snd (batchStep parse b c)))"
proof (cases b)
  case (BatchDelete docId)
  have "snd (batchStep parse b c) = snd (Collection_delete_body parse docId c)"
    unfolding BatchDelete by (simp split: prod.splits sum.splits)
  then show ?thesis by (simp add: Collection_delete_body_headerGrows)
qed (simp_all add: Collection_insert_body_headerGrows Collection_update_body_headerGrows
       Collection_upsert_body_headerGrows)

lemma batchSteps_headerGrows:
  "headerGrows (storage c) (storage (snd (batchSteps parse bs c)))"
proof (induction bs arbitrary: c)
  case Nil
  then show ?case by (simp add: headerGrows_refl)
next
  case (Cons b bs)
  obtain r1 c1 where s: "batchStep parse b c = (r1, c1)" by fastforce
  have g: "headerGrows (storage c) (storage c1)"
    using batchStep_headerGrows[of c parse b] s by simp
  show ?case
  proof (cases r1)
    case (Inl e)
    with s g show ?thesis by simp
  next
    case (Inr u)
    with s have "snd (batchSteps parse (b # bs) c) = snd (batchSteps parse bs c1)" by simp
    with Cons.IH[of c1] g show ?thesis by (auto intro: headerGrows_trans)
  qed
qed

lemma Collection_batch_body_headerGrows:
  "headerGrows (storage c) (storage (snd (Collection_batch_body parse bs c)))"
proof -
  let ?c0 = "c\<lparr>storage := beginBatch (storage c)\<rparr>"
  obtain r c1 where b: "batchSteps parse bs ?c0 = (r, c1)" by fastforce
  have "headerGrows (storage ?c0) (storage (snd (batchSteps parse bs ?c0)))"
    by (rule batchSteps_headerGrows)
  with b show ?thesis
    by (simp add: Collection_batch_body_def headerGrows_def)
qed

lemma storage_addAll [simp]: "storage (addAll items locations c) = storage c"
  by (induction items locations c rule: addAll.induct) simp_all

lemma Collection_insertMany_body_headerGrows:
  "headerGrows (storage c) (storage (snd (Collection_insertMany_body items c)))"
proof -
  obtain r st where w: "writeMany items (storage c) = (r, st)" by fastforce
  have "storage (snd (Collection_insertMany_body items c)) = storage c
      \<or> storage (snd (Collection_insertMany_body items c)) = st"
    using w by (auto simp add: Collection_insertMany_body_def split: sum.splits option.splits)
  with writeMany_headerGrows[OF w] show ?thesis by (auto simp add: headerGrows_refl)
qed

lemma afterInit_headerGrows:
  assumes "\<And>c'. headerGrows (storage c') (storage (snd (body c')))"
  shows "headerGrows (storage (snd (ensureInitialized c))) (storage (snd (afterInit c body)))"
  using afterInit_cases[of c body] assms[of "snd (ensureInitialized c)"]
  by (auto simp add: headerGrows_refl)

lemma applyOperation_headerGrows:
  "headerGrows (storage (snd (ensureInitialized c))) (storage (applyOperation parse c op))"
proof (cases op)
  case (Insert docId doc)
  then show ?thesis
    by (simp add: Collection_insert_def afterInit_headerGrows Collection_insert_body_headerGrows)
next
  case (Update docId doc)
  then show ?thesis
    by (simp add: Collection_update_def afterInit_headerGrows Collection_update_body_headerGrows)
next
  case (Upsert docId doc)
  then show ?thesis
    by (simp add: Collection_upsert_def afterInit_headerGrows Collection_upsert_body_headerGrows)
next
  case (Delete docId)
  then show ?thesis
    by (simp add: Collection_delete_def afterInit_headerGrows Collection_delete_body_headerGrows)
next
  case (Batch bs)
  then show ?thesis
    by (simp add: Collection_batch_def afterInit_headerGrows Collection_batch_body_headerGrows)
next
  case (InsertMany items)
  then show ?thesis
    by (simp add: Collection_insertMany_def afterInit_headerGrows
        Collection_insertMany_body_headerGrows)
qed

text \<open>The statements of the methods leave the flag \<open>initialized\<close> as it is.\<close>

lemma initialized_cacheSet [simp]: "initialized (cacheSet docId doc c) = initialized c"
  by (simp add: cacheSet_def Let_def split: option.splits)

lemma initialized_cacheDelete [simp]: "initialized (cacheDelete docId c) = initialized c"
  by (simp add: cacheDelete_def split: option.splits)

lemma initialized_insert_body:
  "initialized (snd (Collection_insert_body docId doc c)) = initialized c"
  by (simp add: Collection_insert_body_def split: prod.splits sum.splits)

lemma initialized_replaceAt:
  "initialized (snd (replaceAt parse docId doc old c)) = initialized c"
  by (simp add: replaceAt_def storageRead_def split: prod.splits sum.splits)

lemma initialized_update_body:
  "initialized (snd (Collection_update_body parse docId doc c)) = initialized c"
  by (simp add: Collection_update_body_def initialized_replaceAt split: option.splits)

lemma initialized_upsert_body:
  "initialized (snd (Collection_upsert_body parse docId doc c)) = initialized c"
  by (simp add: Collection_upsert_body_def initialized_replaceAt
      split: option.splits prod.splits sum.splits)

lemma initialized_delete_body:
  "initialized (snd (Collection_delete_body parse docId c)) = initialized c"
  by (simp add: Collection_delete_body_def storageRead_def
      split: option.splits prod.splits sum.splits)

lemma initialized_batchStep:
  "initialized (snd (batchStep parse b c)) = initialized c"
proof (cases b)
  case (BatchDelete docId)
  have "snd (batchStep parse b c) = snd (Collection_delete_body parse docId c)"
    unfolding BatchDelete by (simp split: prod.splits sum.splits)
  then show ?thesis by (simp add: initialized_delete_body)
qed (simp_all add: initialized_insert_body initialized_update_body initialized_upsert_body)

lemma initialized_batchSteps:
  "initialized (snd (batchSteps parse bs c)) = initialized c"
proof (induction bs arbitrary: c)
  case Nil
  then show ?case by simp
next
  case (Cons b bs)
  obtain r1 c1 where s: "batchStep parse b c = (r1, c1)" by fastforce
  have i: "initialized c1 = initialized c"
    using initialized_batchStep[of parse b c] s by simp
  show ?case
  proof (cases r1)
    case (Inl e)
    with s i show ?thesis by simp
  next
    case (Inr u)
    with s have "snd (batchSteps parse (b # bs) c) = snd (batchSteps parse bs c1)" by simp
    with Cons.IH[of c1] i show ?thesis by simp
  qed
qed

lemma initialized_batch_body:
  "initialized (snd (Collection_batch_body parse bs c)) = initialized c"
proof -
  let ?c0 = "c\<lparr>storage := beginBatch (storage c)\<rparr>"
  obtain r c1 where b: "batchSteps parse bs ?c0 = (r, c1)" by fastforce
  have "initialized (snd (batchSteps parse bs ?c0)) = initialized ?c0"
    by (rule initialized_batchSteps)
  with b show ?thesis by (simp add: Collection_batch_body_def)
qed

lemma initialized_addAll [simp]: "initialized (addAll items locations c) = initialized c"
  by (induction items locations c rule: addAll.induct) simp_all

lemma initialized_insertMany_body:
  "initialized (snd (Collection_insertMany_body items c)) = initialized c"
  by (simp add: Collection_insertMany_body_def split: option.splits prod.splits sum.splits)

lemma initialized_applyOperation:
  "initialized c \<Longrightarrow> initialized (applyOperation parse c op)"
  by (cases op)
    (simp_all add: Collection_insert_def Collection_update_def Collection_upsert_def
      Collection_delete_def Collection_batch_def Collection_insertMany_def afterInit_initialized
      initialized_insert_body initialized_update_body initialized_upsert_body
      initialized_delete_body initialized_batch_body initialized_insertMany_body)

lemma runOperations_initialized:
  "initialized c \<Longrightarrow>
     initialized (runOperations parse c ops)
     \<and> headerGrows (storage c) (storage (runOperations parse c ops))"
proof (induction ops arbitrary: c)
  case Nil
  then show ?case by (simp add: runOperations_def headerGrows_refl)
next
  case (Cons op ops)
  let ?c1 = "applyOperation parse c op"
  have i: "initialized ?c1" using Cons.prems by (rule initialized_applyOperation)
  have g: "headerGrows (storage c) (storage ?c1)"
    using applyOperation_headerGrows[of c parse op] Cons.prems
    by (simp add: ensureInitialized_initialized)
  from Cons.IH[OF i] g show ?case
    by (auto simp add: runOperations_def intro: headerGrows_trans)
qed

text \<open>The flags of a slot after \<open>markSlotFree\<close>, and after the flush that follows.\<close>

lemma and_not_active: "(w AND NOT FLAG_ACTIVE) AND FLAG_ACTIVE = (0 :: u32)"
  by (simp add: and.assoc)

lemma readUint32_le32_0: "readUint32 (le32 w) 0 = w"
  using readUint32_le32[of "[]" w "[]"] by simp

lemma markSlotFree_clears:
  assumes "markSlotFree off st = (Inr u, st')"
  shows "readUint32 (fileRead (dataFile st') off 4) 0 AND FLAG_ACTIVE = 0"
proof -
  from assms obtain w where "st' = writeAtOffset off (le32 (w AND NOT FLAG_ACTIVE)) st"
    by (auto simp add: markSlotFree_def Let_def split: if_splits)
  then have "fileRead (dataFile st') off 4 = take 4 (le32 (w AND NOT FLAG_ACTIVE))"
    by (simp add: dataFile_simps fileRead_fileWrite_same)
  then show ?thesis by (simp add: readUint32_le32_0 and_not_active)
qed

lemma deleteUnlocked_effect:
  assumes "deleteUnlocked parse l st = (Inr u, st')"
  shows "nextSlotOffset (header st') = nextSlotOffset (header st)"
    and "fileSize (header st') = fileSize (header st)"
    and "freeList st' = freeList st @ [\<lparr>free_offset = loc_offset l, free_slabSize = loc_slabSize l\<rparr>]"
    and "DATA_HEADER_SIZE \<le> loc_offset l \<Longrightarrow>
           readUint32 (fileRead (dataFile st') (loc_offset l) 4) 0 AND FLAG_ACTIVE = 0"
proof -
  from deleteUnlocked_cases[OF assms] obtain st1 st2 where
    f: "nextSlotOffset (header st1) = nextSlotOffset (header st)"
       "fileSize (header st1) = fileSize (header st)" "freeList st1 = freeList st"
    and m: "markSlotFree (loc_offset l) st1 = (Inr (), st2)"
    and e: "st' = flushIfNotBatching (markMetadataDirty (addDocumentCount (- 1) (addFreeSlot l st2)))"
    by auto
  note g = markSlotFree_fields(1,2)[OF m]
  from e f g show "nextSlotOffset (header st') = nextSlotOffset (header st)"
    "fileSize (header st') = fileSize (header st)"
    "freeList st' = freeList st @ [\<lparr>free_offset = loc_offset l, free_slabSize = loc_slabSize l\<rparr>]"
    by simp_all
  assume "DATA_HEADER_SIZE \<le> loc_offset l"
  then have "fileRead (dataFile st') (loc_offset l) 4 = fileRead (dataFile st2) (loc_offset l) 4"
    unfolding e by (simp add: fileRead_flushIfNotBatching dataFile_simps)
  with markSlotFree_clears[OF m]
  show "readUint32 (fileRead (dataFile st') (loc_offset l) 4) 0 AND FLAG_ACTIVE = 0" by simp
qed

lemma Collection_delete_body_effect:
  assumes "Collection_delete_body parse docId c = (Inr True, c')"
  shows "\<exists>location. map_of (primaryIndex (indexManager c)) docId = Some location
     \<and> nextSlotOffset (header (storage c')) = nextSlotOffset (header (storage c))
     \<and> fileSize (header (storage c')) = fileSize (header (storage c))
     \<and> freeList (storage c') = freeList (storage c)
          @ [\<lparr>free_offset = loc_offset location, free_slabSize = loc_slabSize location\<rparr>]
     \<and> (if DATA_HEADER_SIZE \<le> loc_offset location
        then readUint32 (fileRead (dataFile (storage c')) (loc_offset location) 4) 0 AND FLAG_ACTIVE = 0
        else True)"
proof (cases "map_of (primaryIndex (indexManager c)) docId")
  case None
  with assms show ?thesis by (simp add: Collection_delete_body_def)
next
  case (Some l)
  obtain r1 c1 where s: "storageRead parse l c = (r1, c1)" by fastforce
  obtain r st where d: "deleteUnlocked parse l (storage c1) = (r, st)" by fastforce
  note f = storageRead_fields(1)[OF s]
  from assms Some s d have r: "r = Inr ()" and c': "storage c' = st"
    by (auto simp add: Collection_delete_body_def split: sum.splits)
  from deleteUnlocked_effect[OF d[unfolded r]] f c' Some show ?thesis by simp
qed

lemma example_delete:
  "fst (Collection_delete exampleParse ''a'' exampleCollection) = Inr True"
proof -
  let ?l = "\<lparr>loc_offset = 64, loc_length = 2, loc_slabSize = 1024, loc_isBlob = False\<rparr>"
  have len: "length (fileRead (dataFile exampleEngine) 64 SLOT_HEADER_SIZE) = SLOT_HEADER_SIZE"
    using example_length by (simp add: length_fileRead SLOT_HEADER_SIZE_def)
  have m: "fst (markSlotFree 64 (addLiveData (- 2) exampleEngine)) = Inr ()"
    using len by (simp add: markSlotFree_def Let_def dataFile_simps)
  have d: "fst (deleteUnlocked exampleParse ?l exampleEngine) = Inr ()"
    using m by (auto simp add: deleteUnlocked_def Let_def split: prod.splits sum.splits)
  have "fst (Collection_delete_body exampleParse ''a'' exampleCollection) = Inr True"
    using d example_storage_read
    by (auto simp add: exampleCollection_eq Collection_delete_body_def storageRead_def
        split: prod.splits sum.splits)
  then show ?thesis
    by (simp add: Collection_delete_def afterInit_initialized[OF initialized_exampleCollection])
qed

text \<open>
  C9. Along a sequence of insert, update, upsert, delete, batch and insertMany operations
  that starts in an initialised state whose header has \<open>fileSize = nextSlotOffset\<close> (every
  assignment of the source sets the two fields together), neither field decreases at any
  step, and the two stay equal. From any state, initialised or not, an operation does not
  decrease them below what \<open>ensureInitialized\<close> finds or sets at its start. A delete that
  removes a document leaves both fields as they were after \<open>ensureInitialized\<close> (on an
  initialised collection: as they were), appends the slot of the document to the free
  list, and clears the ACTIVE bit of the slot in the data file.
\<close>

theorem C9_sizes_never_decrease:
  "(initialized c \<and> fileSize (header (storage c)) = nextSlotOffset (header (storage c)) \<longrightarrow>
      (let c1 = runOperations parse c ops; c2 = applyOperation parse c1 op
       in nextSlotOffset (header (storage c1)) \<le> nextSlotOffset (header (storage c2))
          \<and> fileSize (header (storage c1)) \<le> fileSize (header (storage c2))
          \<and> fileSize (header (storage c2)) = nextSlotOffset (header (storage c2))))
   \<and> (let c1 = runOperations parse c ops; c0 = snd (ensureInitialized c1);
           c2 = applyOperation parse c1 op
       in fileSize (header (storage c0)) = nextSlotOffset (header (storage c0)) \<longrightarrow>
            nextSlotOffset (header (storage c0)) \<le> nextSlotOffset (header (storage c2))
          \<and> fileSize (header (storage c0)) \<le> fileSize (header (storage c2))
          \<and> fileSize (header (storage c2)) = nextSlotOffset (header (storage c2)))
   \<and> (Collection_delete parse docId d = (Inr True, d') \<longrightarrow>
        (let d0 = snd (ensureInitialized d)
         in (\<exists>location. map_of (primaryIndex (indexManager d0)) docId = Some location
               \<and> nextSlotOffset (header (storage d')) = nextSlotOffset (header (storage d0))
               \<and> fileSize (header (storage d')) = fileSize (header (storage d0))
               \<and> freeList (storage d') = freeList (storage d0)
                    @ [\<lparr>free_offset = loc_offset location, free_slabSize = loc_slabSize location\<rparr>]
               \<and> (DATA_HEADER_SIZE \<le> loc_offset location \<longrightarrow>
                    readUint32 (fileRead (dataFile (storage d')) (loc_offset location) 4) 0
                      AND FLAG_ACTIVE = 0))
            \<and> (initialized d \<longrightarrow> d0 = d)))"
proof (intro conjI impI)
  assume a: "initialized c \<and> fileSize (header (storage c)) = nextSlotOffset (header (storage c))"
  let ?c1 = "runOperations parse c ops"
  let ?c2 = "applyOperation parse ?c1 op"
  from a runOperations_initialized[of c parse ops]
  have i1: "initialized ?c1" and g1: "headerGrows (storage c) (storage ?c1)" by simp_all
  have g2: "headerGrows (storage ?c1) (storage ?c2)"
    using applyOperation_headerGrows[of ?c1 parse op] i1
    by (simp add: ensureInitialized_initialized)
  from g1 a have e1: "fileSize (header (storage ?c1)) = nextSlotOffset (header (storage ?c1))"
    by (simp add: headerGrows_def)
  with g2 show "let c1 = runOperations parse c ops; c2 = applyOperation parse c1 op
       in nextSlotOffset (header (storage c1)) \<le> nextSlotOffset (header (storage c2))
          \<and> fileSize (header (storage c1)) \<le> fileSize (header (storage c2))
          \<and> fileSize (header (storage c2)) = nextSlotOffset (header (storage c2))"
    by (simp add: headerGrows_def Let_def)
next
  let ?c1 = "runOperations parse c ops"
  have "headerGrows (storage (snd (ensureInitialized ?c1))) (storage (applyOperation parse ?c1 op))"
    by (rule applyOperation_headerGrows)
  then show "let c1 = runOperations parse c ops; c0 = snd (ensureInitialized c1);
           c2 = applyOperation parse c1 op
       in fileSize (header (storage c0)) = nextSlotOffset (header (storage c0)) \<longrightarrow>
            nextSlotOffset (header (storage c0)) \<le> nextSlotOffset (header (storage c2))
          \<and> fileSize (header (storage c0)) \<le> fileSize (header (storage c2))
          \<and> fileSize (header (storage c2)) = nextSlotOffset (header (storage c2))"
    by (simp add: headerGrows_def Let_def)
next
  assume del: "Collection_delete parse docId d = (Inr True, d')"
  let ?d0 = "snd (ensureInitialized d)"
  from del afterInit_cases[of d "Collection_delete_body parse docId"]
  have "Collection_delete_body parse docId ?d0 = (Inr True, d')"
    by (auto simp add: Collection_delete_def)
  from Collection_delete_body_effect[OF this]
  have "\<exists>location. map_of (primaryIndex (indexManager ?d0)) docId = Some location
               \<and> nextSlotOffset (header (storage d')) = nextSlotOffset (header (storage ?d0))
               \<and> fileSize (header (storage d')) = fileSize (header (storage ?d0))
               \<and> freeList (storage d') = freeList (storage ?d0)
                    @ [\<lparr>free_offset = loc_offset location, free_slabSize = loc_slabSize location\<rparr>]
               \<and> (DATA_HEADER_SIZE \<le> loc_offset location \<longrightarrow>
                    readUint32 (fileRead (dataFile (storage d')) (loc_offset location) 4) 0
                      AND FLAG_ACTIVE = 0)"
    by (auto split: if_splits)
  then show "let d0 = snd (ensureInitialized d)
         in (\<exists>location. map_of (primaryIndex (indexManager d0)) docId = Some location
               \<and> nextSlotOffset (header (storage d')) = nextSlotOffset (header (storage d0))
               \<and> fileSize (header (storage d')) = fileSize (header (storage d0))
               \<and> freeList (storage d') = freeList (storage d0)
                    @ [\<lparr>free_offset = loc_offset location, free_slabSize = loc_slabSize location\<rparr>]
               \<and> (DATA_HEADER_SIZE \<le> loc_offset location \<longrightarrow>
                    readUint32 (fileRead (dataFile (storage d')) (loc_offset location) 4) 0
                      AND FLAG_ACTIVE = 0))
            \<and> (initialized d \<longrightarrow> d0 = d)"
    by (simp add: Let_def ensureInitialized_initialized)
qed

theorem C9_witness:
  "initialized (newCollection 1048576 0 [])
   \<and> fileSize (header (storage (newCollection 1048576 0 [])))
     = nextSlotOffset (header (storage (newCollection 1048576 0 [])))
   \<and> fst (Collection_delete exampleParse ''a'' exampleCollection) = Inr True
   \<and> nextSlotOffset (header (storage exampleCollection))
       \<le> nextSlotOffset (header (storage (snd (Collection_delete exampleParse ''a'' exampleCollection))))
   \<and> fileSize (header (storage exampleCollection))
       \<le> fileSize (header (storage (snd (Collection_delete exampleParse ''a'' exampleCollection))))
   \<and> freeList (storage (snd (Collection_delete exampleParse ''a'' exampleCollection)))
       = freeList (storage exampleCollection) @ [\<lparr>free_offset = 64, free_slabSize = 1024\<rparr>]
   \<and> readUint32 (fileRead (dataFile (storage (snd (Collection_delete exampleParse ''a''
         exampleCollection)))) 64 4) 0 AND FLAG_ACTIVE = 0"
proof -
  let ?c = "newCollection 1048576 0 []"
  let ?d' = "snd (Collection_delete exampleParse ''a'' exampleCollection)"
  have eq: "fileSize (header (storage ?c)) = nextSlotOffset (header (storage ?c))"
    by (simp add: newCollection_def newEngine_fields emptyHeader_def)
  have run: "runOperations exampleParse ?c [Insert ''a'' (JObj [])] = exampleCollection"
    by (simp add: runOperations_def exampleCollection_def)
  have del: "Collection_delete exampleParse ''a'' exampleCollection = (Inr True, ?d')"
    using example_delete by (simp add: prod_eq_iff)
  have m: "map_of (primaryIndex (indexManager exampleCollection)) ''a''
      = Some \<lparr>loc_offset = 64, loc_length = 2, loc_slabSize = 1024, loc_isBlob = False\<rparr>"
    by (simp add: exampleCollection_eq)
  have i: "ensureInitialized exampleCollection = (Inr (), exampleCollection)"
    by (rule ensureInitialized_initialized[OF initialized_exampleCollection])
  from C9_sizes_never_decrease[of ?c exampleParse "[Insert ''a'' (JObj [])]" "Delete ''a''"
      "''a''" exampleCollection ?d'] eq del m example_delete initialized_newCollection
  show ?thesis
    by (simp add: run Let_def DATA_HEADER_SIZE_def i)
qed

section \<open>Updates of inline documents\<close>
























end
